theory Spec2Isabelle
  imports Main
begin

unbundle bit_operations_syntax

section \<open>The source tree (go/ast, go/token, go/types) as the compiler reads it\<close>

text \<open>
  Only the parts of the Go syntax tree that the statement and declaration compiler
  inspects are given structure. An identifier carries its name and its position, since
  the type oracle resolves identifier nodes, not names. Expressions that only the
  expression compiler looks into (\<open>FuncLit\<close>, \<open>BasicLit\<close>, \<open>OtherExpr\<close>) are opaque.
\<close>

datatype goident = GoIdent (identName: string) (identPos: nat)

datatype goexpr =
    Ident goident
  | CallExpr goexpr "goexpr list"
  | TypeAssertExpr goexpr
  | StarExpr goexpr
  | FuncLit string
  | BasicLit string
  | OtherExpr string

datatype token =
    ASSIGN | DEFINE
  | ADD_ASSIGN | SUB_ASSIGN | MUL_ASSIGN | QUO_ASSIGN | REM_ASSIGN
  | AND_ASSIGN | OR_ASSIGN | XOR_ASSIGN | SHL_ASSIGN | SHR_ASSIGN | AND_NOT_ASSIGN
  | INC | DEC
  | BREAK | CONTINUE | FALLTHROUGH | GOTO
  | OtherToken string

text \<open>The specs of a general declaration: \<open>ValueSpec Names Values\<close>, \<open>TypeSpec Name Type\<close>.\<close>

datatype gospec =
    ValueSpec "goident list" "goexpr list"
  | TypeSpec goident goexpr
  | ImportSpec string

text \<open>
  Statements. A case clause is a statement in go/ast, and the body of a switch is a list
  of statements that the compiler casts to case clauses one by one. \<open>OtherStmt\<close> stands
  for every statement kind that \<open>compileStmt\<close> does not know (select, communication
  clauses, bad statements).
\<close>

datatype gostmt =
    ReturnStmt "goexpr list"
  | ForStmt "gostmt option" "goexpr option" "gostmt option" gostmt
  | BlockStmt "gostmt list"
  | AssignStmt "goexpr list" token "goexpr list"
  | ExprStmt goexpr
  | RangeStmt "goexpr option" "goexpr option" goexpr gostmt
  | IfStmt "gostmt option" goexpr gostmt "gostmt option"
  | IncDecStmt goexpr token
  | DeclStmt "gospec list"
  | SwitchStmt "gostmt option" "goexpr option" "gostmt list"
  | TypeSwitchStmt "gostmt option" gostmt "gostmt list"
  | CaseClause "goexpr list" "gostmt list"
  | BranchStmt token
  | EmptyStmt
  | DeferStmt goexpr "goexpr list"
  | LabeledStmt goident gostmt
  | SendStmt goexpr goexpr
  | GoStmt goexpr "goexpr list"
  | OtherStmt string

text \<open>Keys of the comment map: the nodes the compiler looks comments up for.\<close>

datatype gonode = StmtNode gostmt | IdentNode goident

text \<open>A resolved object (types.Object): its name and the position of its declaration.\<close>

datatype goobject = GoObject (objName: string) (objPos: nat)

text \<open>
  Resolved types (types.Type). A basic type carries its \<open>Info()\<close> flags, a struct its
  fields, an array its element type and length (an int64). \<open>TupleType\<close> is a type
  category that \<open>zeroValue\<close> does not list.
\<close>

datatype gotype =
    Pointer gotype
  | Slice gotype
  | MapType gotype gotype
  | Signature
  | Interface
  | Struct "(goobject \<times> gotype) list"
  | Chan gotype
  | Basic nat
  | Named goobject
  | Array gotype int
  | TupleType "gotype list"

text \<open>The flags of types.BasicInfo, as go/types declares them.\<close>

definition IsBoolean :: nat where "IsBoolean = 1"
definition IsInteger :: nat where "IsInteger = 2"
definition IsUnsigned :: nat where "IsUnsigned = 4"
definition IsFloat :: nat where "IsFloat = 8"
definition IsComplex :: nat where "IsComplex = 16"
definition IsString :: nat where "IsString = 32"
definition IsUntyped :: nat where "IsUntyped = 64"

text \<open>Function declarations: a field list is a list of fields, each with names and a type.\<close>

datatype gofield = Field (fieldNames: "goident list") (fieldTypeExpr: goexpr)

record gofuncdecl =
  declRecv :: "gofield list option"
  declName :: goident
  declParams :: "gofield list"
  declBody :: "gostmt list option"
  declDoc :: "string option"

datatype godecl = FuncDecl gofuncdecl | GenDecl "gospec list" | BadDecl

section \<open>The target tree (package pythonast)\<close>

text \<open>
  \<open>NilExpr\<close> and \<open>NilStmt\<close> are the nil values of the interfaces py.Expr and py.Stmt:
  the compiler stores and compares them (\<open>test == nil\<close>, \<open>deferInit != nil\<close>).
\<close>

datatype pyop = Add | Sub | Mult | FloorDiv | Mod | BitAnd | BitOr | BitXor | LShift | RShift

datatype pyexpr =
    NilExpr
  | PyName string
  | PyNum string
  | PyStr string
  | PyNameConstantFalse
  | PyCall pyexpr "pyexpr list"
  | PyTuple "pyexpr list"
  | PyList "pyexpr list"
  | PyAttribute pyexpr string
  | PySubscript pyexpr pyexpr
  | PyIndex pyexpr
  | PyStarred pyexpr
  | PyInvert pyexpr
  | PyCompareEq pyexpr pyexpr
  | PyBoolOr "pyexpr list"
  | PyListComp pyexpr "(pyexpr \<times> pyexpr) list"

datatype pyarguments = Arguments (argNames: "string list") (argDefaults: "pyexpr list")

datatype pystmt =
    NilStmt
  | PyPass
  | PyFor pyexpr pyexpr "pystmt list"
  | PyAugAssign pyexpr pyop pyexpr
  | PyAssign "pyexpr list" pyexpr
  | PyIf pyexpr "pystmt list" "pystmt list"
  | PyWhile pyexpr "pystmt list"
  | PyBreak
  | PyContinue
  | PyExprStmt pyexpr
  | PyTry "pystmt list" "(pyexpr \<times> pystmt list) list" "pystmt list"
  | PyDelete "pyexpr list"
  | PyReturn pyexpr
  | PyComment string
  | PyDocString "string list"
  | PyFunctionDef string pyarguments "pystmt list"
  | PyClassDef string "pystmt list"

text \<open>
  \<open>*py.FunctionDef\<close> and \<open>*py.ClassDef\<close> are statements; where the source holds
  them under their own type they are values of \<open>functiondef\<close> and \<open>classdef\<close>, and
  \<open>FunctionDefStmt\<close> and \<open>ClassDefStmt\<close> are the conversions to py.Stmt. A class
  definition's \<open>Bases\<close>, \<open>Keywords\<close> and \<open>DecoratorList\<close> are always nil and are
  left out.
\<close>

datatype functiondef = FunctionDef (fdName: string) (fdArgs: pyarguments) (fdBody: "pystmt list")

datatype classdef = ClassDef (cdName: string) (cdBody: "pystmt list")

definition FunctionDefStmt :: "functiondef \<Rightarrow> pystmt" where
  "FunctionDefStmt fd = PyFunctionDef (fdName fd) (fdArgs fd) (fdBody fd)"

definition ClassDefStmt :: "classdef \<Rightarrow> pystmt" where
  "ClassDefStmt cd = PyClassDef (cdName cd) (cdBody cd)"

section \<open>Errors, and lowering as a state transformer that may abort\<close>

text \<open>Every panic of the source is a value of this type.\<close>

datatype error =
    UnknownStmt
  | RangeValueWithoutKey
  | UnknownSpec
  | BadAugmentedToken
  | UnknownBranchToken
  | UnknownTypeSwitchAssign
  | FailedTypeAssertion
  | IndexOutOfRange
  | NilDereference
  | UnknownBasicType
  | UnknownZeroValue
  | MultipleReceivers
  | UnknownFieldType
  | UnknownTypeSpec
  | UnknownDecl
  | EngineAbort string

type_synonym ('a, 's) lowering = "'s \<Rightarrow> error + ('a \<times> 's)"

definition ret :: "'a \<Rightarrow> ('a, 's) lowering" where
  "ret x = (\<lambda>s. Inr (x, s))"

definition panic :: "error \<Rightarrow> ('a, 's) lowering" where
  "panic e = (\<lambda>s. Inl e)"

definition bnd :: "('a, 's) lowering \<Rightarrow> ('a \<Rightarrow> ('b, 's) lowering) \<Rightarrow> ('b, 's) lowering" where
  "bnd m f = (\<lambda>s. case m s of Inl e \<Rightarrow> Inl e | Inr (x, s') \<Rightarrow> f x s')"

text \<open>
  An expression compiler \<open>e\<close> is a statement compiler together with the buffer
  \<open>e.stmts\<close> of hoisted statements: code that works on \<open>e\<close> runs on the pair of the
  buffer and the naming state. \<open>onCompiler\<close> runs a call on the statement compiler
  \<open>c\<close> inside such code, \<open>withExprCompiler\<close> is \<open>e := c.exprCompiler()\<close> (an empty
  buffer, dropped at the end), \<open>emit stmt\<close> is \<open>append(e.stmts, stmt)\<close>.
\<close>

definition onCompiler :: "('a, 'st) lowering \<Rightarrow> ('a, pystmt list \<times> 'st) lowering" where
  "onCompiler m = (\<lambda>(buf, s). case m s of Inl e \<Rightarrow> Inl e | Inr (x, s') \<Rightarrow> Inr (x, (buf, s')))"

definition withExprCompiler :: "('a, pystmt list \<times> 'st) lowering \<Rightarrow> ('a, 'st) lowering" where
  "withExprCompiler m = (\<lambda>s. case m ([], s) of Inl e \<Rightarrow> Inl e | Inr (x, (buf, s')) \<Rightarrow> Inr (x, s'))"

definition hoisted :: "(pystmt list, pystmt list \<times> 'st) lowering" where
  "hoisted = (\<lambda>(buf, s). Inr (buf, (buf, s)))"

definition emit :: "pystmt \<Rightarrow> (pystmt list, pystmt list \<times> 'st) lowering" where
  "emit stmt = bnd hoisted (\<lambda>buf. ret (buf @ [stmt]))"

section \<open>The compilation context and the collaborators that are not part of these sources\<close>

record 'sc XCompiler =
  scope :: 'sc
  commentMap :: "(gonode \<Rightarrow> string list) option"
  defers :: pyexpr
  global :: bool

text \<open>
  The expression compiler, the naming scope, the type oracle and the names of the
  Python built-ins are declared in files that are not part of these sources. They are
  parameters: every lowering below takes them as the record \<open>eng\<close>. The methods of the
  expression compiler transform the buffer of hoisted statements and the naming state;
  the methods of the scope transform the naming state. \<open>compileCaseClauseTest\<close> gets
  the whole case clause and the tag.
\<close>

record ('sc, 'st) engine =
  compileExpr :: "'sc XCompiler \<Rightarrow> goexpr \<Rightarrow> (pyexpr, pystmt list \<times> 'st) lowering"
  compileExprs :: "'sc XCompiler \<Rightarrow> goexpr list \<Rightarrow> (pyexpr list, pystmt list \<times> 'st) lowering"
  compileExprsTuple :: "'sc XCompiler \<Rightarrow> goexpr list \<Rightarrow> (pyexpr, pystmt list \<times> 'st) lowering"
  compileCaseClauseTest :: "'sc XCompiler \<Rightarrow> gostmt \<Rightarrow> pyexpr \<Rightarrow> (pyexpr, pystmt list \<times> 'st) lowering"
  compileIdent :: "'sc XCompiler \<Rightarrow> goident \<Rightarrow> (pyexpr, 'st) lowering"
  objID :: "'sc \<Rightarrow> goobject \<Rightarrow> (string, 'st) lowering"
  tempID :: "'sc \<Rightarrow> string \<Rightarrow> (string, 'st) lowering"
  nested :: "'sc \<Rightarrow> ('sc, 'st) lowering"
  TypeOf :: "goexpr \<Rightarrow> gotype"
  ObjectOf :: "goident \<Rightarrow> goobject"
  Implicits :: "gostmt \<Rightarrow> goobject"
  pyRange :: pyexpr
  pyLen :: pyexpr
  pyEnumerate :: pyexpr
  pyType :: pyexpr
  pyNone :: pyexpr
  pyTrue :: pyexpr
  pyKeyError :: pyexpr
  pyReversed :: pyexpr

text \<open>
  Modelled from the spec: \<open>makeTuple\<close> is declared with the expression compiler, which
  is not part of these sources. The spec gives its contract: the right side is a single
  value when there is exactly one, else a tuple, in order.
\<close>

definition makeTuple :: "pyexpr list \<Rightarrow> pyexpr" where
  "makeTuple elts = (case elts of [x] \<Rightarrow> x | _ \<Rightarrow> PyTuple elts)"


section \<open>Strings: the library functions the compiler calls\<close>

definition newline :: char where "newline = CHR 0x0A"

definition dquote :: char where "dquote = CHR 0x22"

text \<open>\<open>strings.TrimRight(text, "\n")\<close> and \<open>strings.Split(text, "\n")\<close>.\<close>

definition TrimRight :: "string \<Rightarrow> string" where
  "TrimRight text = rev (dropWhile (\<lambda>ch. ch = newline) (rev text))"

fun Split :: "string \<Rightarrow> string list" where
  "Split [] = [[]]"
| "Split (ch # cs) =
     (if ch = newline then [] # Split cs
      else (case Split cs of l # ls \<Rightarrow> (ch # l) # ls | [] \<Rightarrow> [[ch]]))"

text \<open>\<open>strconv.FormatInt(n, 10)\<close>.\<close>

definition digitChar :: "nat \<Rightarrow> char" where
  "digitChar d = ''0123456789'' ! d"

fun formatNat :: "nat \<Rightarrow> string" where
  "formatNat n = (if n < 10 then [digitChar n] else formatNat (n div 10) @ [digitChar (n mod 10)])"

declare formatNat.simps [simp del]

definition FormatInt :: "int \<Rightarrow> string" where
  "FormatInt i = (if i < 0 then CHR ''-'' # formatNat (nat (- i)) else formatNat (nat i))"

text \<open>An index expression \<open>xs[i]\<close> panics out of range.\<close>

definition index :: "'a list \<Rightarrow> nat \<Rightarrow> ('a, 's) lowering" where
  "index xs i = (if i < length xs then ret (xs ! i) else panic IndexOutOfRange)"

section \<open>Declarations and types (XCompiler)\<close>

definition pySelf :: string where "pySelf = ''self''"

definition nestedCompiler :: "('sc, 'st) engine \<Rightarrow> 'sc XCompiler \<Rightarrow> ('sc XCompiler, 'st) lowering" where
  "nestedCompiler eng c = bnd (nested eng (scope c)) (\<lambda>sc. ret (c\<lparr>scope := sc\<rparr>))"

text \<open>\<open>identifierOf\<close> is the method \<open>identifier\<close>.\<close>

definition identifierOf :: "('sc, 'st) engine \<Rightarrow> 'sc XCompiler \<Rightarrow> goident \<Rightarrow> (string, 'st) lowering" where
  "identifierOf eng c ident = objID eng (scope c) (ObjectOf eng ident)"

text \<open>
  \<open>zeroValue\<close> takes no naming state and returns none: it reads the type, and the two
  built-in names \<open>pyNone\<close> and \<open>pyRange\<close>.
\<close>

fun zeroValue :: "('sc, 'st) engine \<Rightarrow> gotype \<Rightarrow> error + pyexpr" where
  "zeroValue eng (Pointer t) = Inr (pyNone eng)"
| "zeroValue eng (Slice t) = Inr (pyNone eng)"
| "zeroValue eng (MapType k v) = Inr (pyNone eng)"
| "zeroValue eng Signature = Inr (pyNone eng)"
| "zeroValue eng Interface = Inr (pyNone eng)"
| "zeroValue eng (Struct flds) = Inr (pyNone eng)"
| "zeroValue eng (Chan t) = Inr (pyNone eng)"
| "zeroValue eng (Basic info) =
     (if info AND IsString \<noteq> 0 then Inr (PyStr [dquote, dquote])
      else if info AND IsBoolean \<noteq> 0 then Inr PyNameConstantFalse
      else if info AND IsInteger \<noteq> 0 then Inr (PyNum ''0'')
      else if info AND IsFloat \<noteq> 0 then Inr (PyNum ''0.0'')
      else if info AND IsComplex \<noteq> 0 then Inr (PyNum ''0.0'')
      else Inl UnknownBasicType)"
| "zeroValue eng (Named obj) = Inr (PyCall (PyName (objName obj)) [])"
| "zeroValue eng (Array elem n) =
     (case zeroValue eng elem of
        Inl e \<Rightarrow> Inl e
      | Inr z \<Rightarrow> Inr (PyListComp z [(PyName ''_'', PyCall (pyRange eng) [PyNum (FormatInt n)])]))"
| "zeroValue eng (TupleType ts) = Inl UnknownZeroValue"

text \<open>
  \<open>makeInitMethod\<close>: the first loop builds the parameters and their defaults, the
  second the assignments \<open>self.f = f\<close>.
\<close>

fun initArgs :: "('sc, 'st) engine \<Rightarrow> 'sc XCompiler \<Rightarrow> (goobject \<times> gotype) list
    \<Rightarrow> string list \<times> pyexpr list \<Rightarrow> (string list \<times> pyexpr list, 'st) lowering" where
  "initArgs eng n [] acc = ret acc"
| "initArgs eng n ((field, typ) # rest) (args, defaults) =
     bnd (objID eng (scope n) field) (\<lambda>arg.
     case zeroValue eng typ of
       Inl e \<Rightarrow> panic e
     | Inr dflt \<Rightarrow> initArgs eng n rest (args @ [arg], defaults @ [dflt]))"

fun initBody :: "('sc, 'st) engine \<Rightarrow> 'sc XCompiler \<Rightarrow> (goobject \<times> gotype) list
    \<Rightarrow> pystmt list \<Rightarrow> (pystmt list, 'st) lowering" where
  "initBody eng n [] body = ret body"
| "initBody eng n ((field, typ) # rest) body =
     bnd (objID eng (scope n) field) (\<lambda>attr.
     bnd (objID eng (scope n) field) (\<lambda>val.
     initBody eng n rest
       (body @ [PyAssign [PyAttribute (PyName pySelf) attr] (PyName val)])))"

definition makeInitMethod :: "('sc, 'st) engine \<Rightarrow> 'sc XCompiler \<Rightarrow> (goobject \<times> gotype) list
    \<Rightarrow> (functiondef, 'st) lowering" where
  "makeInitMethod eng c flds =
     bnd (nestedCompiler eng c) (\<lambda>n.
     bnd (initArgs eng n flds ([pySelf], [])) (\<lambda>(args, defaults).
     bnd (initBody eng n flds []) (\<lambda>body.
     ret (FunctionDef ''__init__'' (Arguments args defaults) body))))"

definition makeDocString :: "string \<Rightarrow> pystmt" where
  "makeDocString text = PyDocString (Split (TrimRight text))"

definition compileStructType :: "('sc, 'st) engine \<Rightarrow> 'sc XCompiler \<Rightarrow> goident
    \<Rightarrow> (goobject \<times> gotype) list \<Rightarrow> (classdef, 'st) lowering" where
  "compileStructType eng c ident flds =
     bnd (if global c then
            bnd (ret (case commentMap c of
                        None \<Rightarrow> []
                      | Some cmap \<Rightarrow> (case cmap (IdentNode ident) of
                                        [] \<Rightarrow> []
                                      | doc # _ \<Rightarrow> [makeDocString doc]))) (\<lambda>body.
            if length flds > 0
            then bnd (makeInitMethod eng c flds) (\<lambda>init. ret (body @ [FunctionDefStmt init]))
            else ret body)
          else ret []) (\<lambda>body.
     bnd (identifierOf eng c ident) (\<lambda>name.
     ret (ClassDef name (if length body = 0 then [PyPass] else body))))"

definition CompileTypeSpec :: "('sc, 'st) engine \<Rightarrow> 'sc XCompiler \<Rightarrow> goident \<Rightarrow> goexpr
    \<Rightarrow> (pystmt, 'st) lowering" where
  "CompileTypeSpec eng c name typeExpr =
     (case TypeOf eng typeExpr of
        Struct flds \<Rightarrow> bnd (compileStructType eng c name flds) (\<lambda>cd. ret (ClassDefStmt cd))
      | Named obj \<Rightarrow>
          bnd (identifierOf eng c name) (\<lambda>target.
          bnd (objID eng (scope c) obj) (\<lambda>val.
          ret (PyAssign [PyName target] (PyName val))))
      | Interface \<Rightarrow> ret NilStmt
      | Basic info \<Rightarrow>
          bnd (compileStructType eng c name [(GoObject ''value'' 0, Basic info)]) (\<lambda>cd.
          ret (ClassDefStmt cd))
      | Slice t \<Rightarrow>
          bnd (compileStructType eng c name [(GoObject ''value'' 0, Slice t)]) (\<lambda>cd.
          ret (ClassDefStmt cd))
      | Signature \<Rightarrow> ret NilStmt
      | MapType k v \<Rightarrow> ret NilStmt
      | _ \<Rightarrow> panic UnknownTypeSpec)"

text \<open>
  \<open>CompileValueSpec\<close>: the loop over the names, with the index \<open>i\<close> and the two
  lists it appends to.
\<close>

fun valueSpecLoop :: "('sc, 'st) engine \<Rightarrow> 'sc XCompiler \<Rightarrow> goexpr list \<Rightarrow> nat \<Rightarrow> goident list
    \<Rightarrow> pyexpr list \<times> pyexpr list \<Rightarrow> (pyexpr list \<times> pyexpr list, pystmt list \<times> 'st) lowering" where
  "valueSpecLoop eng c vals i [] acc = ret acc"
| "valueSpecLoop eng c vals i (ident # rest) (targets, values) =
     bnd (onCompiler (compileIdent eng c ident)) (\<lambda>target.
     bnd (if length vals = 0 then
            (case zeroValue eng (TypeOf eng (Ident ident)) of
               Inl e \<Rightarrow> panic e
             | Inr v \<Rightarrow> ret (values @ [v]))
          else if i < length vals then
            bnd (compileExpr eng c (vals ! i)) (\<lambda>v. ret (values @ [v]))
          else ret values) (\<lambda>values'.
     valueSpecLoop eng c vals (Suc i) rest (targets @ [target], values')))"

definition CompileValueSpec :: "('sc, 'st) engine \<Rightarrow> 'sc XCompiler \<Rightarrow> goident list \<Rightarrow> goexpr list
    \<Rightarrow> (pystmt list, 'st) lowering" where
  "CompileValueSpec eng c names vals =
     withExprCompiler
       (bnd (valueSpecLoop eng c vals 0 names ([], [])) (\<lambda>(targets, values).
        emit (PyAssign targets (makeTuple values))))"

fun compileDeclStmt :: "('sc, 'st) engine \<Rightarrow> 'sc XCompiler \<Rightarrow> gospec list
    \<Rightarrow> (pystmt list, 'st) lowering" where
  "compileDeclStmt eng c [] = ret []"
| "compileDeclStmt eng c (spec # rest) =
     bnd (case spec of
            ValueSpec names vals \<Rightarrow> CompileValueSpec eng c names vals
          | TypeSpec name typeExpr \<Rightarrow> bnd (CompileTypeSpec eng c name typeExpr) (\<lambda>s. ret [s])
          | ImportSpec path \<Rightarrow> panic UnknownSpec) (\<lambda>compiled.
     bnd (compileDeclStmt eng c rest) (\<lambda>stmts. ret (compiled @ stmts)))"


section \<open>Statements that contain no other statement\<close>

definition isBlank :: "goexpr \<Rightarrow> bool" where
  "isBlank expr = (case expr of Ident ident \<Rightarrow> identName ident = ''_'' | _ \<Rightarrow> False)"

definition compileIncDecStmt :: "('sc, 'st) engine \<Rightarrow> 'sc XCompiler \<Rightarrow> goexpr \<Rightarrow> token
    \<Rightarrow> (pystmt list, 'st) lowering" where
  "compileIncDecStmt eng c x tok =
     withExprCompiler
       (bnd (compileExpr eng c x) (\<lambda>target.
        emit (PyAugAssign target (if tok = INC then Add else Sub) (PyNum ''1''))))"

definition augmentedOp :: "token \<Rightarrow> error + pyop" where
  "augmentedOp t =
     (case t of
        ADD_ASSIGN \<Rightarrow> Inr Add
      | SUB_ASSIGN \<Rightarrow> Inr Sub
      | MUL_ASSIGN \<Rightarrow> Inr Mult
      | QUO_ASSIGN \<Rightarrow> Inr FloorDiv
      | REM_ASSIGN \<Rightarrow> Inr Mod
      | AND_ASSIGN \<Rightarrow> Inr BitAnd
      | OR_ASSIGN \<Rightarrow> Inr BitOr
      | XOR_ASSIGN \<Rightarrow> Inr BitXor
      | SHL_ASSIGN \<Rightarrow> Inr LShift
      | SHR_ASSIGN \<Rightarrow> Inr RShift
      | _ \<Rightarrow> Inl BadAugmentedToken)"

definition compileAssignStmt :: "('sc, 'st) engine \<Rightarrow> 'sc XCompiler \<Rightarrow> goexpr list \<Rightarrow> token
    \<Rightarrow> goexpr list \<Rightarrow> (pystmt list, 'st) lowering" where
  "compileAssignStmt eng c lhs tok rhs =
     withExprCompiler
       (if tok = ASSIGN \<or> tok = DEFINE then
          bnd (compileExprs eng c lhs) (\<lambda>targets.
          bnd (compileExprsTuple eng c rhs) (\<lambda>v.
          emit (PyAssign targets v)))
        else if tok = AND_NOT_ASSIGN then
          bnd (index lhs 0) (\<lambda>l.
          bnd (compileExpr eng c l) (\<lambda>target.
          bnd (index rhs 0) (\<lambda>r.
          bnd (compileExpr eng c r) (\<lambda>operand.
          emit (PyAugAssign target BitAnd (PyInvert operand))))))
        else
          bnd (index lhs 0) (\<lambda>l.
          bnd (compileExpr eng c l) (\<lambda>target.
          bnd (index rhs 0) (\<lambda>r.
          bnd (compileExpr eng c r) (\<lambda>v.
          case augmentedOp tok of
            Inl e \<Rightarrow> panic e
          | Inr op \<Rightarrow> emit (PyAugAssign target op v))))))"

definition compileBranchStmt :: "token \<Rightarrow> (pystmt list, 'st) lowering" where
  "compileBranchStmt tok =
     (case tok of
        BREAK \<Rightarrow> ret [PyBreak]
      | CONTINUE \<Rightarrow> ret [PyContinue]
      | FALLTHROUGH \<Rightarrow> ret [PyExprStmt (PyCall (PyName ''_TODO_fallthrough'') [])]
      | GOTO \<Rightarrow> ret [PyPass]
      | _ \<Rightarrow> panic UnknownBranchToken)"

text \<open>
  \<open>compileExprToStmt\<close> returns nil (\<open>None\<close>) unless the expression is a call of an
  identifier named \<open>delete\<close>.
\<close>

definition compileExprToStmt :: "('sc, 'st) engine \<Rightarrow> 'sc XCompiler \<Rightarrow> goexpr
    \<Rightarrow> (pystmt list option, 'st) lowering" where
  "compileExprToStmt eng c e =
     withExprCompiler
       (case e of
          CallExpr f args \<Rightarrow>
            (case f of
               Ident ident \<Rightarrow>
                 if identName ident = ''delete'' then
                   bnd (index args 0) (\<lambda>a0.
                   bnd (compileExpr eng c a0) (\<lambda>v.
                   bnd (index args 1) (\<lambda>a1.
                   bnd (compileExpr eng c a1) (\<lambda>k.
                   bnd (emit (PyTry [PyDelete [PySubscript v (PyIndex k)]]
                                    [(pyKeyError eng, [PyPass])] [])) (\<lambda>stmts.
                   ret (Some stmts))))))
                 else ret None
             | _ \<Rightarrow> ret None)
        | _ \<Rightarrow> ret None)"

definition compileReturnStmt :: "('sc, 'st) engine \<Rightarrow> 'sc XCompiler \<Rightarrow> goexpr list
    \<Rightarrow> (pystmt list, 'st) lowering" where
  "compileReturnStmt eng c results =
     withExprCompiler
       (bnd (compileExprsTuple eng c results) (\<lambda>v. emit (PyReturn v)))"

definition compileExprStmt :: "('sc, 'st) engine \<Rightarrow> 'sc XCompiler \<Rightarrow> goexpr
    \<Rightarrow> (pystmt list, 'st) lowering" where
  "compileExprStmt eng c x =
     bnd (compileExprToStmt eng c x) (\<lambda>compiled.
     case compiled of
       Some stmts \<Rightarrow> ret stmts
     | None \<Rightarrow> withExprCompiler (bnd (compileExpr eng c x) (\<lambda>v. emit (PyExprStmt v))))"

definition appendToList :: "pyexpr \<Rightarrow> pyexpr \<Rightarrow> pystmt" where
  "appendToList list item = PyExprStmt (PyCall (PyAttribute list ''append'') [item])"

definition compileDeferStmt :: "('sc, 'st) engine \<Rightarrow> 'sc XCompiler \<Rightarrow> goexpr \<Rightarrow> goexpr list
    \<Rightarrow> (pystmt list, 'st) lowering" where
  "compileDeferStmt eng c f args =
     (if \<not> global c then ret []
      else withExprCompiler
             (bnd (compileExpr eng c f) (\<lambda>f'.
              bnd (compileExprs eng c args) (\<lambda>args'.
              emit (appendToList (defers c) (makeTuple [f', PyTuple args']))))))"

text \<open>The comment statements that \<open>compileStmt\<close> puts before the lowered statement.\<close>

definition commentStmts :: "'sc XCompiler \<Rightarrow> gostmt \<Rightarrow> pystmt list" where
  "commentStmts c stmt =
     (if global c then
        (case commentMap c of
           None \<Rightarrow> []
         | Some cmap \<Rightarrow>
             concat (map (\<lambda>text. map (\<lambda>line. PyComment (CHR '' '' # line)) (Split (TrimRight text)))
                         (cmap (StmtNode stmt))))
      else [])"

definition withComments :: "'sc XCompiler \<Rightarrow> gostmt \<Rightarrow> (pystmt list, 'st) lowering
    \<Rightarrow> (pystmt list, 'st) lowering" where
  "withComments c stmt m = bnd m (\<lambda>pyStmts. ret (commentStmts c stmt @ pyStmts))"

text \<open>
  The chain of conditionals of a switch: \<open>firstIfStmt\<close> is the head of the list of
  the clauses lowered so far, \<open>lastIfStmt\<close> its last element; each element's \<open>Orelse\<close>
  is the next one, and the last one's is the default body.
\<close>

fun linkIfs :: "pyexpr \<times> pystmt list \<Rightarrow> (pyexpr \<times> pystmt list) list \<Rightarrow> pystmt list \<Rightarrow> pystmt" where
  "linkIfs (test, body) [] defaultBody = PyIf test body defaultBody"
| "linkIfs (test, body) (next # rest) defaultBody = PyIf test body [linkIfs next rest defaultBody]"

definition endSwitch :: "pystmt list \<Rightarrow> pystmt list \<Rightarrow> (pyexpr \<times> pystmt list) list \<Rightarrow> pystmt list
    \<Rightarrow> pystmt list" where
  "endSwitch stmts buf ifs defaultBody =
     (case ifs of
        first # rest \<Rightarrow> (stmts @ buf) @ [linkIfs first rest defaultBody]
      | [] \<Rightarrow> (stmts @ buf) @ defaultBody)"

section \<open>compileStmt and the statements that contain statements\<close>

function (sequential) compileStmt :: "('sc, 'st) engine \<Rightarrow> 'sc XCompiler \<Rightarrow> gostmt \<Rightarrow> (pystmt list, 'st) lowering"
and compileStmts :: "('sc, 'st) engine \<Rightarrow> 'sc XCompiler \<Rightarrow> gostmt list \<Rightarrow> (pystmt list, 'st) lowering"
and compileRangeStmt :: "('sc, 'st) engine \<Rightarrow> 'sc XCompiler \<Rightarrow> goexpr option \<Rightarrow> goexpr option
    \<Rightarrow> goexpr \<Rightarrow> gostmt \<Rightarrow> (pystmt list, 'st) lowering"
and compileForStmt :: "('sc, 'st) engine \<Rightarrow> 'sc XCompiler \<Rightarrow> gostmt option \<Rightarrow> goexpr option
    \<Rightarrow> gostmt option \<Rightarrow> gostmt \<Rightarrow> (pystmt list, 'st) lowering"
and compileIfStmt :: "('sc, 'st) engine \<Rightarrow> 'sc XCompiler \<Rightarrow> gostmt option \<Rightarrow> goexpr
    \<Rightarrow> gostmt \<Rightarrow> gostmt option \<Rightarrow> (pystmt list, 'st) lowering"
and compileSwitchStmt :: "('sc, 'st) engine \<Rightarrow> 'sc XCompiler \<Rightarrow> gostmt option \<Rightarrow> goexpr option
    \<Rightarrow> gostmt list \<Rightarrow> (pystmt list, 'st) lowering"
and switchClauses :: "('sc, 'st) engine \<Rightarrow> 'sc XCompiler \<Rightarrow> pyexpr \<Rightarrow> gostmt list
    \<Rightarrow> (pyexpr \<times> pystmt list) list \<times> pystmt list
    \<Rightarrow> ((pyexpr \<times> pystmt list) list \<times> pystmt list, pystmt list \<times> 'st) lowering"
and compileTypeSwitchStmt :: "('sc, 'st) engine \<Rightarrow> 'sc XCompiler \<Rightarrow> gostmt option \<Rightarrow> gostmt
    \<Rightarrow> gostmt list \<Rightarrow> (pystmt list, 'st) lowering"
and typeSwitchClauses :: "('sc, 'st) engine \<Rightarrow> 'sc XCompiler \<Rightarrow> pyexpr \<Rightarrow> string \<Rightarrow> gostmt list
    \<Rightarrow> (pyexpr \<times> pystmt list) list \<times> pystmt list
    \<Rightarrow> ((pyexpr \<times> pystmt list) list \<times> pystmt list, pystmt list \<times> 'st) lowering"
where
  "compileStmt eng c (ReturnStmt results) =
     withComments c (ReturnStmt results) (compileReturnStmt eng c results)"
| "compileStmt eng c (ForStmt init cond post body) =
     withComments c (ForStmt init cond post body) (compileForStmt eng c init cond post body)"
| "compileStmt eng c (BlockStmt list) =
     withComments c (BlockStmt list) (compileStmts eng c list)"
| "compileStmt eng c (AssignStmt lhs tok rhs) =
     withComments c (AssignStmt lhs tok rhs) (compileAssignStmt eng c lhs tok rhs)"
| "compileStmt eng c (ExprStmt x) =
     withComments c (ExprStmt x) (compileExprStmt eng c x)"
| "compileStmt eng c (RangeStmt key val x body) =
     withComments c (RangeStmt key val x body) (compileRangeStmt eng c key val x body)"
| "compileStmt eng c (IfStmt init cond body els) =
     withComments c (IfStmt init cond body els) (compileIfStmt eng c init cond body els)"
| "compileStmt eng c (IncDecStmt x tok) =
     withComments c (IncDecStmt x tok) (compileIncDecStmt eng c x tok)"
| "compileStmt eng c (DeclStmt specs) =
     withComments c (DeclStmt specs) (compileDeclStmt eng c specs)"
| "compileStmt eng c (SwitchStmt init tag clauses) =
     withComments c (SwitchStmt init tag clauses) (compileSwitchStmt eng c init tag clauses)"
| "compileStmt eng c (TypeSwitchStmt init assign clauses) =
     withComments c (TypeSwitchStmt init assign clauses)
       (compileTypeSwitchStmt eng c init assign clauses)"
| "compileStmt eng c (BranchStmt tok) =
     withComments c (BranchStmt tok) (compileBranchStmt tok)"
| "compileStmt eng c EmptyStmt = withComments c EmptyStmt (ret [])"
| "compileStmt eng c (DeferStmt f args) =
     withComments c (DeferStmt f args) (compileDeferStmt eng c f args)"
| "compileStmt eng c (LabeledStmt label stmt) =
     withComments c (LabeledStmt label stmt) (compileStmt eng c stmt)"
| "compileStmt eng c (SendStmt ch v) = withComments c (SendStmt ch v) (ret [])"
| "compileStmt eng c (GoStmt f args) = withComments c (GoStmt f args) (ret [])"
| "compileStmt eng c (CaseClause list body) = panic UnknownStmt"
| "compileStmt eng c (OtherStmt kind) = panic UnknownStmt"

| "compileStmts eng c [] = ret []"
| "compileStmts eng c (blockStmt # rest) =
     bnd (compileStmt eng c blockStmt) (\<lambda>compiled.
     bnd (compileStmts eng c rest) (\<lambda>pyStmts. ret (compiled @ pyStmts)))"

| "compileRangeStmt eng c key val x body =
     withExprCompiler
       (bnd (onCompiler (compileStmt eng c body)) (\<lambda>body0.
        bnd (ret (if length body0 = 0 then [PyPass] else body0)) (\<lambda>body'.
        bnd (case key of
               Some k \<Rightarrow>
                 (case val of
                    None \<Rightarrow>
                      bnd (compileExpr eng c k) (\<lambda>target.
                      bnd (compileExpr eng c x) (\<lambda>coll.
                      ret (PyFor target (PyCall (pyRange eng) [PyCall (pyLen eng) [coll]]) body')))
                  | Some v \<Rightarrow>
                      if isBlank k then
                        bnd (compileExpr eng c v) (\<lambda>target.
                        bnd (compileExpr eng c x) (\<lambda>iter.
                        ret (PyFor target iter body')))
                      else
                        bnd (compileExpr eng c k) (\<lambda>k'.
                        bnd (compileExpr eng c v) (\<lambda>v'.
                        bnd (compileExpr eng c x) (\<lambda>coll.
                        ret (PyFor (PyTuple [k', v']) (PyCall (pyEnumerate eng) [coll]) body')))))
             | None \<Rightarrow>
                 (case val of
                    None \<Rightarrow>
                      bnd (compileExpr eng c x) (\<lambda>iter.
                      ret (PyFor (PyName ''_'') iter body'))
                  | Some v \<Rightarrow> panic RangeValueWithoutKey)) (\<lambda>pyStmt.
        emit pyStmt))))"

| "compileForStmt eng c init cond post body =
     withExprCompiler
       (bnd (onCompiler (compileStmt eng c body)) (\<lambda>body0.
        bnd (case post of
               None \<Rightarrow> ret body0
             | Some p \<Rightarrow>
                 bnd (onCompiler (compileStmt eng c body)) (\<lambda>body1.
                 bnd (onCompiler (compileStmt eng c p)) (\<lambda>post'.
                 ret (body1 @ post')))) (\<lambda>body2.
        bnd (case init of
               None \<Rightarrow> ret []
             | Some i \<Rightarrow> onCompiler (compileStmt eng c i)) (\<lambda>stmts.
        bnd (case cond of
               None \<Rightarrow> ret (pyTrue eng)
             | Some cnd \<Rightarrow> compileExpr eng c cnd) (\<lambda>test.
        bnd hoisted (\<lambda>buf.
        ret ((stmts @ buf) @ [PyWhile test (if length body2 = 0 then [PyPass] else body2)])))))))"

| "compileIfStmt eng c init cond body els =
     withExprCompiler
       (bnd (case init of
               None \<Rightarrow> ret []
             | Some i \<Rightarrow> onCompiler (compileStmt eng c i)) (\<lambda>stmts.
        bnd (compileExpr eng c cond) (\<lambda>test.
        bnd (onCompiler (compileStmt eng c body)) (\<lambda>body'.
        bnd (case els of
               None \<Rightarrow> ret []
             | Some el \<Rightarrow> onCompiler (compileStmt eng c el)) (\<lambda>orelse.
        bnd hoisted (\<lambda>buf.
        ret ((stmts @ buf) @ [PyIf test body' orelse])))))))"

| "compileSwitchStmt eng c init tagExpr clauses =
     withExprCompiler
       (bnd (case init of
               None \<Rightarrow> ret []
             | Some i \<Rightarrow> onCompiler (compileStmt eng c i)) (\<lambda>stmts.
        bnd (case tagExpr of
               None \<Rightarrow> ret (NilExpr, stmts)
             | Some t \<Rightarrow>
                 bnd (compileExpr eng c t) (\<lambda>v.
                 ret (PyName ''tag'', stmts @ [PyAssign [PyName ''tag''] v]))) (\<lambda>(tag, stmts').
        bnd (switchClauses eng c tag clauses ([], [])) (\<lambda>(ifs, defaultBody).
        bnd hoisted (\<lambda>buf.
        ret (endSwitch stmts' buf ifs defaultBody))))))"

| "switchClauses eng c tag [] acc = ret acc"
| "switchClauses eng c tag (CaseClause list body # rest) (ifs, defaultBody) =
     bnd (compileCaseClauseTest eng c (CaseClause list body) tag) (\<lambda>test.
     if test = NilExpr then
       bnd (onCompiler (compileStmts eng c body)) (\<lambda>defaultBody'.
       switchClauses eng c tag rest (ifs, defaultBody'))
     else
       bnd (onCompiler (compileStmts eng c body)) (\<lambda>body'.
       switchClauses eng c tag rest (ifs @ [(test, body')], defaultBody)))"
| "switchClauses eng c tag (_ # rest) acc = panic FailedTypeAssertion"

| "compileTypeSwitchStmt eng c init assign clauses =
     withExprCompiler
       (bnd (case init of
               None \<Rightarrow> ret []
             | Some i \<Rightarrow> onCompiler (compileStmt eng c i)) (\<lambda>stmts.
        bnd (case assign of
               AssignStmt lhs tok rhs \<Rightarrow>
                 bnd (index lhs 0) (\<lambda>l.
                 case l of
                   Ident ident \<Rightarrow>
                     bnd (onCompiler (tempID eng (scope c) (identName ident))) (\<lambda>tagId.
                     bnd (index rhs 0) (\<lambda>typeAssert.
                     ret (PyName tagId, identName ident, typeAssert)))
                 | _ \<Rightarrow> panic FailedTypeAssertion)
             | ExprStmt x \<Rightarrow>
                 bnd (onCompiler (tempID eng (scope c) ''tag'')) (\<lambda>tagId.
                 ret (PyName tagId, [], x))
             | _ \<Rightarrow> panic UnknownTypeSwitchAssign) (\<lambda>(tag, symbolicVarName, typeAssert).
        bnd (case typeAssert of
               TypeAssertExpr expr \<Rightarrow> ret expr
             | _ \<Rightarrow> panic FailedTypeAssertion) (\<lambda>expr.
        bnd (compileExpr eng c expr) (\<lambda>probed.
        bnd (ret (stmts @ [PyAssign [tag] (PyCall (pyType eng) [probed])])) (\<lambda>stmts'.
        bnd (typeSwitchClauses eng c tag symbolicVarName clauses ([], [])) (\<lambda>(ifs, defaultBody).
        bnd hoisted (\<lambda>buf.
        ret (endSwitch stmts' buf ifs defaultBody)))))))))"

| "typeSwitchClauses eng c tag symbolicVarName [] acc = ret acc"
| "typeSwitchClauses eng c tag symbolicVarName (CaseClause list body # rest) (ifs, defaultBody) =
     bnd (compileCaseClauseTest eng c (CaseClause list body) tag) (\<lambda>test.
     bnd (if symbolicVarName \<noteq> [] then
            bnd (onCompiler (objID eng (scope c) (Implicits eng (CaseClause list body)))) (\<lambda>typedIdent.
            ret [PyAssign [PyName typedIdent] tag])
          else ret []) (\<lambda>assignStmts.
     bnd (onCompiler (compileStmts eng c body)) (\<lambda>body'.
     if test = NilExpr then
       typeSwitchClauses eng c tag symbolicVarName rest (ifs, assignStmts @ body')
     else
       typeSwitchClauses eng c tag symbolicVarName rest
         (ifs @ [(test, assignStmts @ body')], defaultBody))))"
| "typeSwitchClauses eng c tag symbolicVarName (_ # rest) acc = panic FailedTypeAssertion"
  by pat_completeness auto

termination
  by (relation "measure (\<lambda>x. case x of
        Inl (Inl (Inl (eng, c, s))) \<Rightarrow> 2 * size s
      | Inl (Inl (Inr (eng, c, ss))) \<Rightarrow> 2 * size_list size ss + 1
      | Inl (Inr (Inl (eng, c, key, val, x, body))) \<Rightarrow> 2 * size body + 1
      | Inl (Inr (Inr (eng, c, init, cond, post, body))) \<Rightarrow>
          2 * (size_option size init + size_option size post + size body) + 1
      | Inr (Inl (Inl (eng, c, init, cond, body, els))) \<Rightarrow>
          2 * (size_option size init + size body + size_option size els) + 1
      | Inr (Inl (Inr (eng, c, init, tag, clauses))) \<Rightarrow>
          2 * (size_option size init + size_list size clauses) + 1
      | Inr (Inr (Inl (eng, c, tag, clauses, acc))) \<Rightarrow> 2 * size_list size clauses
      | Inr (Inr (Inr (Inl (eng, c, init, assign, clauses)))) \<Rightarrow>
          2 * (size_option size init + size_list size clauses) + 1
      | Inr (Inr (Inr (Inr (eng, c, tag, name, clauses, acc)))) \<Rightarrow> 2 * size_list size clauses)")
    auto

declare compileRangeStmt.simps [simp del] compileForStmt.simps [simp del]
  compileIfStmt.simps [simp del] compileSwitchStmt.simps [simp del]
  compileTypeSwitchStmt.simps [simp del]

section \<open>Functions and deferred calls\<close>

text \<open>
  The scan of \<open>addDefers\<close> (\<open>ast.Inspect\<close> with its callback): it descends into
  statements, never into expressions or declarations, and finds a defer statement or
  not. The statement kinds that \<open>OtherStmt\<close> stands for are not descended into here.
\<close>

fun inspectDefer :: "gostmt \<Rightarrow> bool"
and inspectDefers :: "gostmt list \<Rightarrow> bool"
where
  "inspectDefer (DeferStmt f args) = True"
| "inspectDefer (BlockStmt list) = inspectDefers list"
| "inspectDefer (ForStmt init cond post body) =
     ((case init of None \<Rightarrow> False | Some i \<Rightarrow> inspectDefer i)
      \<or> (case post of None \<Rightarrow> False | Some p \<Rightarrow> inspectDefer p)
      \<or> inspectDefer body)"
| "inspectDefer (RangeStmt key val x body) = inspectDefer body"
| "inspectDefer (IfStmt init cond body els) =
     ((case init of None \<Rightarrow> False | Some i \<Rightarrow> inspectDefer i)
      \<or> inspectDefer body
      \<or> (case els of None \<Rightarrow> False | Some el \<Rightarrow> inspectDefer el))"
| "inspectDefer (SwitchStmt init tag clauses) =
     ((case init of None \<Rightarrow> False | Some i \<Rightarrow> inspectDefer i) \<or> inspectDefers clauses)"
| "inspectDefer (TypeSwitchStmt init assign clauses) =
     ((case init of None \<Rightarrow> False | Some i \<Rightarrow> inspectDefer i)
      \<or> inspectDefer assign \<or> inspectDefers clauses)"
| "inspectDefer (CaseClause list body) = inspectDefers body"
| "inspectDefer (LabeledStmt label stmt) = inspectDefer stmt"
| "inspectDefer _ = False"
| "inspectDefers [] = False"
| "inspectDefers (s # rest) = (inspectDefer s \<or> inspectDefers rest)"

text \<open>
  \<open>addDefers\<close> returns the initialisation of the capture list, or nil, and the compiler
  with its field \<open>defers\<close> set.
\<close>

definition addDefers :: "('sc, 'st) engine \<Rightarrow> 'sc XCompiler \<Rightarrow> gostmt list
    \<Rightarrow> (pystmt \<times> 'sc XCompiler, 'st) lowering" where
  "addDefers eng c body =
     (if \<not> global c then ret (NilStmt, c)
      else if inspectDefer (BlockStmt body) then
        bnd (tempID eng (scope c) ''defers'') (\<lambda>d.
        ret (PyAssign [PyName d] (PyList []), c\<lparr>defers := PyName d\<rparr>))
      else ret (NilStmt, c))"

fun paramNames :: "gofield list \<Rightarrow> goident list" where
  "paramNames [] = []"
| "paramNames (param # rest) = fieldNames param @ paramNames rest"

fun identifiers :: "('sc, 'st) engine \<Rightarrow> 'sc XCompiler \<Rightarrow> goident list \<Rightarrow> (string list, 'st) lowering" where
  "identifiers eng c [] = ret []"
| "identifiers eng c (name # rest) =
     bnd (identifierOf eng c name) (\<lambda>arg.
     bnd (identifiers eng c rest) (\<lambda>args. ret (arg # args)))"

text \<open>
  \<open>CompileFunc\<close>. A nil body is dereferenced by the scan, or else by the loop over the
  body. The loop over \<open>body.List\<close> is \<open>compileStmts\<close>.
\<close>

definition CompileFunc :: "('sc, 'st) engine \<Rightarrow> 'sc XCompiler \<Rightarrow> string \<Rightarrow> gofield list
    \<Rightarrow> gostmt list option \<Rightarrow> bool \<Rightarrow> goident option \<Rightarrow> (functiondef, 'st) lowering" where
  "CompileFunc eng parent name params body isMethod recv =
     bnd (nestedCompiler eng parent) (\<lambda>c0.
     bnd (if global parent then
            (case body of None \<Rightarrow> panic NilDereference | Some b \<Rightarrow> addDefers eng c0 b)
          else ret (NilStmt, c0)) (\<lambda>(deferInit, c).
     bnd (if isMethod then
            bnd (case recv of
                   Some r \<Rightarrow> identifierOf eng c r
                 | None \<Rightarrow> tempID eng (scope c) ''self'') (\<lambda>recvId. ret [recvId])
          else ret []) (\<lambda>recvArgs.
     bnd (identifiers eng c (paramNames params)) (\<lambda>paramArgs.
     bnd (case body of None \<Rightarrow> panic NilDereference | Some b \<Rightarrow> compileStmts eng c b) (\<lambda>pyBody.
     bnd (if global parent \<and> deferInit \<noteq> NilStmt then
            bnd (tempID eng (scope c) ''fun'') (\<lambda>f.
            bnd (tempID eng (scope c) ''args'') (\<lambda>a.
            ret [deferInit,
                 PyTry pyBody []
                   [PyFor (makeTuple [PyName f, PyName a])
                          (PyCall (pyReversed eng) [defers c])
                          [PyExprStmt (PyCall (PyName f) [PyStarred (PyName a)])]]]))
          else ret pyBody) (\<lambda>pyBody'.
     ret (FunctionDef name (Arguments (recvArgs @ paramArgs) [])
            (if length pyBody' = 0 then [PyPass] else pyBody'))))))))"

definition fieldType :: "('sc, 'st) engine \<Rightarrow> 'sc XCompiler \<Rightarrow> gofield \<Rightarrow> (string, 'st) lowering" where
  "fieldType eng c field =
     (case fieldTypeExpr field of
        StarExpr x \<Rightarrow>
          (case x of Ident ident \<Rightarrow> identifierOf eng c ident | _ \<Rightarrow> panic FailedTypeAssertion)
      | Ident ident \<Rightarrow> identifierOf eng c ident
      | _ \<Rightarrow> panic UnknownFieldType)"

text \<open>The struct \<open>FuncDecl\<close> of the compiler: the class is empty for a free function.\<close>

record pyfuncdecl =
  Class :: string
  Def :: functiondef

definition CompileFuncDecl :: "('sc, 'st) engine \<Rightarrow> 'sc XCompiler \<Rightarrow> gofuncdecl \<Rightarrow> bool
    \<Rightarrow> (pyfuncdecl, 'st) lowering" where
  "CompileFuncDecl eng c decl withDoc =
     bnd (case declRecv decl of
            None \<Rightarrow> ret ([], None)
          | Some list \<Rightarrow>
              if length list > 1 then panic MultipleReceivers
              else
                bnd (index list 0) (\<lambda>field.
                if length (fieldNames field) > 1 then panic MultipleReceivers
                else
                  bnd (fieldType eng c field) (\<lambda>recvType.
                  ret (recvType, if length (fieldNames field) = 1
                                 then Some (fieldNames field ! 0) else None)))) (\<lambda>(recvType, recv).
     bnd (identifierOf eng c (declName decl)) (\<lambda>name.
     bnd (CompileFunc eng c name (declParams decl) (declBody decl) (declRecv decl \<noteq> None) recv) (\<lambda>funcDef.
     ret \<lparr>Class = recvType,
          Def = (case declDoc decl of
                   Some doc \<Rightarrow>
                     if withDoc
                     then FunctionDef (fdName funcDef) (fdArgs funcDef) (makeDocString doc # fdBody funcDef)
                     else funcDef
                 | None \<Rightarrow> funcDef)\<rparr>)))"

section \<open>The module assembler (Compiler)\<close>

record Module =
  Imports :: "pystmt list"
  Values :: "pystmt list"
  Classes :: "classdef list"
  Types :: "pystmt list"
  Functions :: "functiondef list"
  Methods :: "string \<Rightarrow> functiondef list"

definition newModule :: Module where
  "newModule = \<lparr>Imports = [], Values = [], Classes = [], Types = [], Functions = [],
                 Methods = (\<lambda>class. [])\<rparr>"

definition NewXCompiler :: "'sc \<Rightarrow> bool \<Rightarrow> 'sc XCompiler" where
  "NewXCompiler newScope g = \<lparr>scope = newScope, commentMap = None, defers = NilExpr, global = g\<rparr>"

definition NewCompiler :: "'sc \<Rightarrow> 'sc XCompiler" where
  "NewCompiler newScope = NewXCompiler newScope True"

text \<open>
  \<open>compileGenDecl\<close>: a compiled type specification that is a class definition goes to
  \<open>Classes\<close>, any other one (nil too) to \<open>Types\<close>.
\<close>

fun compileGenDecl :: "('sc, 'st) engine \<Rightarrow> 'sc XCompiler \<Rightarrow> gospec list \<Rightarrow> Module
    \<Rightarrow> (Module, 'st) lowering" where
  "compileGenDecl eng c [] module = ret module"
| "compileGenDecl eng c (TypeSpec name typeExpr # rest) module =
     bnd (CompileTypeSpec eng c name typeExpr) (\<lambda>compiled.
     compileGenDecl eng c rest
       (case compiled of
          PyClassDef n b \<Rightarrow> module\<lparr>Classes := Classes module @ [ClassDef n b]\<rparr>
        | _ \<Rightarrow> module\<lparr>Types := Types module @ [compiled]\<rparr>))"
| "compileGenDecl eng c (ImportSpec path # rest) module = compileGenDecl eng c rest module"
| "compileGenDecl eng c (ValueSpec names vals # rest) module =
     bnd (CompileValueSpec eng c names vals) (\<lambda>compiled.
     compileGenDecl eng c rest (module\<lparr>Values := Values module @ compiled\<rparr>))"

text \<open>
  \<open>compileDecl\<close>. The call of \<open>CompileFuncDecl\<close> in the assembler gives no value for
  \<open>withDoc\<close>; the flag is a parameter here.
\<close>

definition compileDecl :: "('sc, 'st) engine \<Rightarrow> bool \<Rightarrow> 'sc XCompiler \<Rightarrow> godecl \<Rightarrow> Module
    \<Rightarrow> (Module, 'st) lowering" where
  "compileDecl eng withDoc c decl module =
     (case decl of
        FuncDecl d \<Rightarrow>
          bnd (CompileFuncDecl eng c d withDoc) (\<lambda>funcDecl.
          if Class funcDecl \<noteq> [] then
            ret (module\<lparr>Methods := (Methods module)
                   (Class funcDecl := Methods module (Class funcDecl) @ [Def funcDecl])\<rparr>)
          else ret (module\<lparr>Functions := Functions module @ [Def funcDecl]\<rparr>))
      | GenDecl specs \<Rightarrow> compileGenDecl eng c specs module
      | BadDecl \<Rightarrow> panic UnknownDecl)"

fun compileDecls :: "('sc, 'st) engine \<Rightarrow> bool \<Rightarrow> 'sc XCompiler \<Rightarrow> godecl list \<Rightarrow> Module
    \<Rightarrow> (Module, 'st) lowering" where
  "compileDecls eng withDoc c [] module = ret module"
| "compileDecls eng withDoc c (decl # rest) module =
     bnd (compileDecl eng withDoc c decl module) (compileDecls eng withDoc c rest)"

text \<open>A file: its declarations, and the comment map that \<open>ast.NewCommentMap\<close> builds for it.\<close>

record gofile =
  Decls :: "godecl list"
  Comments :: "gonode \<Rightarrow> string list"

definition compileFile :: "('sc, 'st) engine \<Rightarrow> bool \<Rightarrow> 'sc XCompiler \<Rightarrow> gofile \<Rightarrow> Module
    \<Rightarrow> (Module, 'st) lowering" where
  "compileFile eng withDoc c file module =
     compileDecls eng withDoc (c\<lparr>commentMap := Some (Comments file)\<rparr>) (Decls file) module"

fun compileFileList :: "('sc, 'st) engine \<Rightarrow> bool \<Rightarrow> 'sc XCompiler \<Rightarrow> gofile list \<Rightarrow> Module
    \<Rightarrow> (Module, 'st) lowering" where
  "compileFileList eng withDoc c [] module = ret module"
| "compileFileList eng withDoc c (file # rest) module =
     bnd (compileFile eng withDoc c file module) (compileFileList eng withDoc c rest)"

text \<open>
  The second half of \<open>CompileFiles\<close>: the body of the output module, built from the
  intermediate module.
\<close>

definition classWithMethods :: "Module \<Rightarrow> classdef \<Rightarrow> pystmt" where
  "classWithMethods module class =
     ClassDefStmt (ClassDef (cdName class)
                            (cdBody class @ map FunctionDefStmt (Methods module (cdName class))))"

definition moduleBody :: "Module \<Rightarrow> pystmt list" where
  "moduleBody module =
     (Values module @ map (classWithMethods module) (Classes module))
     @ map FunctionDefStmt (Functions module)"

definition CompileFiles :: "('sc, 'st) engine \<Rightarrow> bool \<Rightarrow> 'sc XCompiler \<Rightarrow> gofile list
    \<Rightarrow> (pystmt list, 'st) lowering" where
  "CompileFiles eng withDoc c files =
     bnd (compileFileList eng withDoc c files newModule) (\<lambda>module. ret (moduleBody module))"

section \<open>A sample of the collaborators\<close>

text \<open>
  Modelled from the spec: the expression lowering engine, the naming scope and the type
  oracle are not part of these sources. \<open>sampleEngine\<close> is one engine that meets the
  contract the spec gives for them, small enough to run: an identifier lowers to its
  name, a literal to a number, a call to a call; a function literal is hoisted as a
  function definition and lowers to that function's name; the test of a case clause is
  nil for a clause without expressions, else the comparison of the tag with the case
  value (or the case expression itself when there is no tag), joined by "or" when there
  are several. The scope is the nesting depth, the naming state counts the temporaries
  handed out. The theorems below hold for every engine; this one gives them concrete
  inputs.
\<close>

fun sampleExpr :: "goexpr \<Rightarrow> pyexpr" where
  "sampleExpr (Ident ident) = PyName (identName ident)"
| "sampleExpr (CallExpr f args) = PyCall (sampleExpr f) (map sampleExpr args)"
| "sampleExpr (TypeAssertExpr x) = sampleExpr x"
| "sampleExpr (StarExpr x) = sampleExpr x"
| "sampleExpr (FuncLit name) = PyName name"
| "sampleExpr (BasicLit v) = PyNum v"
| "sampleExpr (OtherExpr v) = PyName v"

fun sampleHoist :: "goexpr \<Rightarrow> pystmt list" where
  "sampleHoist (Ident ident) = []"
| "sampleHoist (CallExpr f args) = sampleHoist f @ concat (map sampleHoist args)"
| "sampleHoist (TypeAssertExpr x) = sampleHoist x"
| "sampleHoist (StarExpr x) = sampleHoist x"
| "sampleHoist (FuncLit name) = [PyFunctionDef name (Arguments [] []) [PyPass]]"
| "sampleHoist (BasicLit v) = []"
| "sampleHoist (OtherExpr v) = []"

definition sampleCaseTest :: "gostmt \<Rightarrow> pyexpr \<Rightarrow> pyexpr" where
  "sampleCaseTest clause tag =
     (case clause of
        CaseClause list body \<Rightarrow>
          (case map (\<lambda>e. if tag = NilExpr then sampleExpr e else PyCompareEq tag (sampleExpr e)) list of
             [] \<Rightarrow> NilExpr
           | [test] \<Rightarrow> test
           | tests \<Rightarrow> PyBoolOr tests)
      | _ \<Rightarrow> NilExpr)"

definition sampleCaseHoist :: "gostmt \<Rightarrow> pystmt list" where
  "sampleCaseHoist clause =
     (case clause of CaseClause list body \<Rightarrow> concat (map sampleHoist list) | _ \<Rightarrow> [])"

definition sampleEngine :: "(goexpr \<Rightarrow> gotype) \<Rightarrow> (nat, nat) engine" where
  "sampleEngine typeOf =
     \<lparr>compileExpr = (\<lambda>c e (buf, n). Inr (sampleExpr e, (buf @ sampleHoist e, n))),
      compileExprs = (\<lambda>c es (buf, n). Inr (map sampleExpr es, (buf @ concat (map sampleHoist es), n))),
      compileExprsTuple = (\<lambda>c es (buf, n).
         Inr (if es = [] then NilExpr else makeTuple (map sampleExpr es),
              (buf @ concat (map sampleHoist es), n))),
      compileCaseClauseTest = (\<lambda>c clause tag (buf, n).
         Inr (sampleCaseTest clause tag, (buf @ sampleCaseHoist clause, n))),
      compileIdent = (\<lambda>c ident n. Inr (PyName (identName ident), n)),
      objID = (\<lambda>sc obj n. Inr (objName obj, n)),
      tempID = (\<lambda>sc name n. Inr (name, Suc n)),
      nested = (\<lambda>sc n. Inr (Suc sc, n)),
      TypeOf = typeOf,
      ObjectOf = (\<lambda>ident. GoObject (identName ident) (identPos ident)),
      Implicits = (\<lambda>clause. GoObject ''v'' 0),
      pyRange = PyName ''range'',
      pyLen = PyName ''len'',
      pyEnumerate = PyName ''enumerate'',
      pyType = PyName ''type'',
      pyNone = PyName ''None'',
      pyTrue = PyName ''True'',
      pyKeyError = PyName ''KeyError'',
      pyReversed = PyName ''reversed''\<rparr>"

text \<open>Every sample expression has the type \<open>int\<close>.\<close>

definition intOracle :: "goexpr \<Rightarrow> gotype" where
  "intOracle e = Basic IsInteger"

definition sampleCompiler :: "bool \<Rightarrow> nat XCompiler" where
  "sampleCompiler g = NewXCompiler 0 g"

definition ident :: "string \<Rightarrow> goexpr" where
  "ident name = Ident (GoIdent name 0)"

section \<open>Notions used to state the properties\<close>

text \<open>
  The default clause of a switch is the clause without case expressions. The expression
  compiler marks it by a nil test; \<open>nilTestIffDefault\<close> says that it marks no other
  clause so.
\<close>

fun isDefaultClause :: "gostmt \<Rightarrow> bool" where
  "isDefaultClause (CaseClause list body) = (list = [])"
| "isDefaultClause _ = False"

definition nilTestIffDefault :: "('sc, 'st) engine \<Rightarrow> bool" where
  "nilTestIffDefault eng =
     (\<forall>c list body tag s test s'.
        compileCaseClauseTest eng c (CaseClause list body) tag s = Inr (test, s') \<longrightarrow>
        (test = NilExpr) = (list = []))"

text \<open>\<open>call name\<close> is the statement \<open>name()\<close>.\<close>

definition call :: "string \<Rightarrow> gostmt" where
  "call name = ExprStmt (CallExpr (ident name) [])"

text \<open>A function body of three defer statements: \<open>defer f(x); defer g(y); defer h(z)\<close>.\<close>

definition threeDefers :: "gostmt list" where
  "threeDefers = [DeferStmt (ident ''f'') [ident ''x''], DeferStmt (ident ''g'') [ident ''y''],
                  DeferStmt (ident ''h'') [ident ''z'']]"

text \<open>
  The types that have a zero value: the basic types of one of the five classes string,
  boolean, integer, float and complex, the arrays of such types, and every type of the
  other categories that \<open>zeroValue\<close> lists. \<open>decimalValue\<close> reads a decimal numeral.
\<close>

fun hasZeroValue :: "gotype \<Rightarrow> bool" where
  "hasZeroValue (Basic info) =
     (info AND IsString \<noteq> 0 \<or> info AND IsBoolean \<noteq> 0 \<or> info AND IsInteger \<noteq> 0
      \<or> info AND IsFloat \<noteq> 0 \<or> info AND IsComplex \<noteq> 0)"
| "hasZeroValue (Array elem n) = hasZeroValue elem"
| "hasZeroValue (TupleType ts) = False"
| "hasZeroValue _ = True"

definition digitValue :: "char \<Rightarrow> nat" where
  "digitValue ch = of_char ch - 48"

definition decimalValue :: "string \<Rightarrow> nat" where
  "decimalValue s = foldl (\<lambda>acc ch. 10 * acc + digitValue ch) 0 s"

text \<open>
  Sample files: a function, a method of \<open>T\<close>, the type \<open>T\<close> and a variable; and the
  alias \<open>type A B\<close> of a named type, under an oracle that resolves every type
  expression to the named type \<open>B\<close>.
\<close>

definition funcDecl :: "string \<Rightarrow> gofuncdecl" where
  "funcDecl name = \<lparr>declRecv = None, declName = GoIdent name 0, declParams = [],
                     declBody = Some [], declDoc = None\<rparr>"



definition namedOracle :: "goexpr \<Rightarrow> gotype" where
  "namedOracle e = Named (GoObject ''B'' 0)"

definition aliasFile :: gofile where
  "aliasFile =
     \<lparr>Decls = [GenDecl [TypeSpec (GoIdent ''A'' 0) (ident ''B'')]],
      Comments = (\<lambda>node. [])\<rparr>"

text \<open>
  \<open>withoutTypes\<close> forgets the list \<open>Types\<close> of a module, and \<open>moduloTypes\<close> forgets it
  in the result of a lowering: two results that agree modulo \<open>Types\<close> abort alike or
  return the same naming state and modules that differ in \<open>Types\<close> at most.
\<close>

definition withoutTypes :: "Module \<Rightarrow> Module" where
  "withoutTypes module = module\<lparr>Types := []\<rparr>"

definition moduloTypes :: "error + (Module \<times> 'st) \<Rightarrow> error + (Module \<times> 'st)" where
  "moduloTypes r = (case r of Inl e \<Rightarrow> Inl e | Inr (module, s) \<Rightarrow> Inr (withoutTypes module, s))"

text \<open>The calls that \<open>compileExprToStmt\<close> takes for a deletion: the calls of a plain
  identifier named \<open>delete\<close>.\<close>

fun isDeleteCall :: "goexpr \<Rightarrow> bool" where
  "isDeleteCall (CallExpr (Ident f) args) = (identName f = ''delete'')"
| "isDeleteCall _ = False"

text \<open>
  The comment map of a file whose one comment, \<open>/* todo */\<close>, stands in an empty block;
  and a file whose alias \<open>type A B\<close> is declared inside a function \<open>f\<close>.
\<close>

definition todoComments :: "gonode \<Rightarrow> string list" where
  "todoComments node = (if node = StmtNode (BlockStmt []) then ['' todo'' @ [newline]] else [])"

definition localAliasFile :: gofile where
  "localAliasFile =
     \<lparr>Decls = [FuncDecl ((funcDecl ''f'')
                 \<lparr>declBody := Some [DeclStmt [TypeSpec (GoIdent ''A'' 0) (ident ''B'')]]\<rparr>)],
      Comments = (\<lambda>node. [])\<rparr>"

text \<open>
  \<open>eachInOrder f xs\<close> runs \<open>f\<close> on the elements of \<open>xs\<close> from the first to the last,
  each from the state that the one before left, and returns the results in the order of
  the elements; it aborts where the first of them aborts.
\<close>

fun eachInOrder :: "('a \<Rightarrow> ('b, 's) lowering) \<Rightarrow> 'a list \<Rightarrow> ('b list, 's) lowering" where
  "eachInOrder f [] = ret []"
| "eachInOrder f (x # xs) = bnd (f x) (\<lambda>y. bnd (eachInOrder f xs) (\<lambda>ys. ret (y # ys)))"

text \<open>
  The bindings of a variable declaration: every name with the initializer at its
  position, if there is one. \<open>lowerBinding\<close> lowers the name, then the initializer.
  \<open>unsafePointerOracle\<close> gives every expression the type \<open>unsafe.Pointer\<close>, the basic
  type whose \<open>Info()\<close> is 0.
\<close>

fun bindings :: "goident list \<Rightarrow> goexpr list \<Rightarrow> (goident \<times> goexpr option) list" where
  "bindings [] vals = []"
| "bindings (n # names) [] = (n, None) # bindings names []"
| "bindings (n # names) (e # vals) = (n, Some e) # bindings names vals"

definition lowerBinding :: "('sc, 'st) engine \<Rightarrow> 'sc XCompiler \<Rightarrow> goident \<times> goexpr option
    \<Rightarrow> (pyexpr \<times> pyexpr option, pystmt list \<times> 'st) lowering" where
  "lowerBinding eng c = (\<lambda>(name, init).
     bnd (onCompiler (compileIdent eng c name)) (\<lambda>target.
     case init of
       None \<Rightarrow> ret (target, None)
     | Some e \<Rightarrow> bnd (compileExpr eng c e) (\<lambda>v. ret (target, Some v))))"

definition unsafePointerOracle :: "goexpr \<Rightarrow> gotype" where
  "unsafePointerOracle e = Basic 0"

text \<open>
  The clauses of a switch, lowered: \<open>lowerClause\<close> lowers the test of a clause and then
  its body. \<open>conditionals ifs final\<close> is the chain of the conditionals \<open>ifs\<close>, each the
  else branch of the one before, with \<open>final\<close> the else branch of the last; without
  conditionals it is \<open>final\<close> itself. Of the clauses and their lowerings, \<open>nonDefault\<close>
  are the lowerings of the clauses that are not default clauses, in the order of the
  clauses, and \<open>defaultBody\<close> is the lowered body of the default clause (of the last
  one, should there be several), or nothing. \<open>lastNilTest d rs\<close> is the body of the last
  lowering in \<open>rs\<close> whose test is nil, or \<open>d\<close>.
\<close>

definition lowerClause :: "('sc, 'st) engine \<Rightarrow> 'sc XCompiler \<Rightarrow> pyexpr \<Rightarrow> gostmt
    \<Rightarrow> (pyexpr \<times> pystmt list, pystmt list \<times> 'st) lowering" where
  "lowerClause eng c tag clause =
     (case clause of
        CaseClause list body \<Rightarrow>
          bnd (compileCaseClauseTest eng c clause tag) (\<lambda>test.
          bnd (onCompiler (compileStmts eng c body)) (\<lambda>body'. ret (test, body')))
      | _ \<Rightarrow> panic FailedTypeAssertion)"

definition conditionals :: "(pyexpr \<times> pystmt list) list \<Rightarrow> pystmt list \<Rightarrow> pystmt list" where
  "conditionals ifs final = foldr (\<lambda>(test, body) orelse. [PyIf test body orelse]) ifs final"

definition nonDefault :: "gostmt list \<Rightarrow> (pyexpr \<times> pystmt list) list \<Rightarrow> (pyexpr \<times> pystmt list) list" where
  "nonDefault clauses rs = map snd (filter (\<lambda>(clause, r). \<not> isDefaultClause clause) (zip clauses rs))"

definition defaultBody :: "gostmt list \<Rightarrow> (pyexpr \<times> pystmt list) list \<Rightarrow> pystmt list" where
  "defaultBody clauses rs =
     (case filter (\<lambda>(clause, r). isDefaultClause clause) (zip clauses rs) of
        [] \<Rightarrow> []
      | ds \<Rightarrow> snd (snd (last ds)))"

definition lastNilTest :: "pystmt list \<Rightarrow> (pyexpr \<times> pystmt list) list \<Rightarrow> pystmt list" where
  "lastNilTest d rs = (case filter (\<lambda>(t, b). t = NilExpr) rs of [] \<Rightarrow> d | ds \<Rightarrow> snd (last ds))"

text \<open>
  The parameter list that \<open>CompileFunc\<close> builds: the receiver, if the function is a
  method, then the names of the parameters.
\<close>

definition loweredParams :: "('sc, 'st) engine \<Rightarrow> 'sc XCompiler \<Rightarrow> bool \<Rightarrow> goident option
    \<Rightarrow> gofield list \<Rightarrow> (string list, 'st) lowering" where
  "loweredParams eng c isMethod recv params =
     bnd (if isMethod then
            bnd (case recv of
                   Some r \<Rightarrow> identifierOf eng c r
                 | None \<Rightarrow> tempID eng (scope c) ''self'') (\<lambda>recvId. ret [recvId])
          else ret []) (\<lambda>recvArgs.
     bnd (identifiers eng c (paramNames params)) (\<lambda>paramArgs.
     ret (recvArgs @ paramArgs)))"

text \<open>
  What a declaration of a file lowers to, as the module assembler sorts it: the
  statements of a value specification; a class, for a type specification whose lowering
  is a class definition; any other lowered type specification; a method, for a function
  declaration with a receiver, with the name of the class of the receiver; a function.
\<close>

datatype item =
    ValueItem "pystmt list"
  | ClassItem classdef
  | TypeItem pystmt
  | MethodItem string functiondef
  | FunctionItem functiondef









text \<open>\<open>addItems\<close> stores items in a module, each in the list of its kind.\<close>

fun addItem :: "Module \<Rightarrow> item \<Rightarrow> Module" where
  "addItem module (ValueItem stmts) = module\<lparr>Values := Values module @ stmts\<rparr>"
| "addItem module (ClassItem class) = module\<lparr>Classes := Classes module @ [class]\<rparr>"
| "addItem module (TypeItem stmt) = module\<lparr>Types := Types module @ [stmt]\<rparr>"
| "addItem module (MethodItem class def) =
     module\<lparr>Methods := (Methods module)(class := Methods module class @ [def])\<rparr>"
| "addItem module (FunctionItem def) = module\<lparr>Functions := Functions module @ [def]\<rparr>"

definition addItems :: "Module \<Rightarrow> item list \<Rightarrow> Module" where
  "addItems module items = foldl addItem module items"

section \<open>Facts about the state transformers\<close>

lemma ret_apply [simp]: "ret x s = Inr (x, s)"
  by (simp add: ret_def)

lemma panic_apply [simp]: "panic e s = Inl e"
  by (simp add: panic_def)

lemma bnd_ret [simp]: "bnd (ret x) f = f x"
  by (simp add: bnd_def ret_def)

lemma bnd_panic [simp]: "bnd (panic e) f = panic e"
  by (simp add: bnd_def panic_def)

lemma bnd_Inr: "bnd m f s = Inr r \<longleftrightarrow> (\<exists>x s'. m s = Inr (x, s') \<and> f x s' = Inr r)"
  by (auto simp: bnd_def split: sum.splits)

lemma bnd_Inl: "bnd m f s = Inl e \<longleftrightarrow> m s = Inl e \<or> (\<exists>x s'. m s = Inr (x, s') \<and> f x s' = Inl e)"
  by (auto simp: bnd_def split: sum.splits)

lemma bnd_step: "m s = Inr (x, s') \<Longrightarrow> bnd m f s = f x s'"
  by (simp add: bnd_def)

lemma bnd_abort: "m s = Inl e \<Longrightarrow> bnd m f s = Inl e"
  by (simp add: bnd_def)

lemma withExprCompiler_Inr:
  "withExprCompiler m s = Inr (x, s') \<longleftrightarrow> (\<exists>buf. m ([], s) = Inr (x, (buf, s')))"
  by (auto simp: withExprCompiler_def split: sum.splits)

lemma withExprCompiler_step: "m ([], s) = Inr (x, (buf, s')) \<Longrightarrow> withExprCompiler m s = Inr (x, s')"
  by (simp add: withExprCompiler_def)

lemma withExprCompiler_abort: "m ([], s) = Inl e \<Longrightarrow> withExprCompiler m s = Inl e"
  by (simp add: withExprCompiler_def)

lemma onCompiler_Inr:
  "onCompiler m (buf, s) = Inr (x, (buf', s')) \<longleftrightarrow> buf' = buf \<and> m s = Inr (x, s')"
  by (auto simp: onCompiler_def split: sum.splits)

lemma onCompiler_step: "m s = Inr (x, s') \<Longrightarrow> onCompiler m (buf, s) = Inr (x, (buf, s'))"
  by (simp add: onCompiler_def)

lemma onCompiler_abort: "m s = Inl e \<Longrightarrow> onCompiler m (buf, s) = Inl e"
  by (simp add: onCompiler_def)

lemma hoisted_apply [simp]: "hoisted (buf, s) = Inr (buf, (buf, s))"
  by (simp add: hoisted_def)

lemma emit_apply [simp]: "emit stmt (buf, s) = Inr (buf @ [stmt], (buf, s))"
  by (simp add: emit_def bnd_def)

lemma bnd_assoc: "bnd (bnd m f) g = bnd m (\<lambda>x. bnd (f x) g)"
  by (rule ext) (simp add: bnd_def split: sum.splits prod.splits)

lemma eachInOrder_Inr_Cons:
  "(eachInOrder f (x # xs) s = Inr (ys, s')) =
   (\<exists>y s1 rest. f x s = Inr (y, s1) \<and> eachInOrder f xs s1 = Inr (rest, s') \<and> ys = y # rest)"
  by (auto simp: bnd_Inr)

section \<open>Range loops\<close>

lemma range_value_only_body:
  "compileStmt eng c body st = Inr r \<Longrightarrow> compileRangeStmt eng c None (Some v) x body st = Inl RangeValueWithoutKey"
  by (cases r) (simp add: compileRangeStmt.simps withExprCompiler_def bnd_def onCompiler_def)

lemma range_value_only:
  "\<exists>e. compileRangeStmt eng c None (Some v) x body st = Inl e"
  by (cases "compileStmt eng c body st") (auto simp: compileRangeStmt.simps withExprCompiler_def bnd_def onCompiler_def)

lemma range_body_first:
  assumes "compileRangeStmt eng c key val x body st = Inr (out, st')"
  obtains b0 sb where "compileStmt eng c body st = Inr (b0, sb)"
  using assms
  by (cases "compileStmt eng c body st") (auto simp: compileRangeStmt.simps withExprCompiler_def bnd_def onCompiler_def)

lemma range_key_only:
  assumes "compileStmt eng c body st = Inr (b0, sb)"
  shows "compileRangeStmt eng c (Some k) None x body st =
     (case compileExpr eng c k ([], sb) of
        Inl e \<Rightarrow> Inl e
      | Inr (target, es1) \<Rightarrow>
          (case compileExpr eng c x es1 of
             Inl e \<Rightarrow> Inl e
           | Inr (coll, (buf, st')) \<Rightarrow>
               Inr (buf @ [PyFor target (PyCall (pyRange eng) [PyCall (pyLen eng) [coll]])
                                 (if b0 = [] then [PyPass] else b0)], st')))"
  using assms
  by (simp add: compileRangeStmt.simps withExprCompiler_def bnd_def onCompiler_def split: sum.splits prod.splits)

lemma range_blank_key:
  assumes "compileStmt eng c body st = Inr (b0, sb)" and "isBlank k"
  shows "compileRangeStmt eng c (Some k) (Some v) x body st =
     (case compileExpr eng c v ([], sb) of
        Inl e \<Rightarrow> Inl e
      | Inr (target, es1) \<Rightarrow>
          (case compileExpr eng c x es1 of
             Inl e \<Rightarrow> Inl e
           | Inr (iter, (buf, st')) \<Rightarrow>
               Inr (buf @ [PyFor target iter (if b0 = [] then [PyPass] else b0)], st')))"
  using assms
  by (simp add: compileRangeStmt.simps withExprCompiler_def bnd_def onCompiler_def split: sum.splits prod.splits)

lemma range_key_value:
  assumes "compileStmt eng c body st = Inr (b0, sb)" and "\<not> isBlank k"
  shows "compileRangeStmt eng c (Some k) (Some v) x body st =
     (case compileExpr eng c k ([], sb) of
        Inl e \<Rightarrow> Inl e
      | Inr (k', es1) \<Rightarrow>
          (case compileExpr eng c v es1 of
             Inl e \<Rightarrow> Inl e
           | Inr (v', es2) \<Rightarrow>
          (case compileExpr eng c x es2 of
             Inl e \<Rightarrow> Inl e
           | Inr (coll, (buf, st')) \<Rightarrow>
               Inr (buf @ [PyFor (PyTuple [k', v']) (PyCall (pyEnumerate eng) [coll])
                             (if b0 = [] then [PyPass] else b0)], st'))))"
  using assms
  by (simp add: compileRangeStmt.simps withExprCompiler_def bnd_def onCompiler_def split: sum.splits prod.splits)

lemma range_neither:
  assumes "compileStmt eng c body st = Inr (b0, sb)"
  shows "compileRangeStmt eng c None None x body st =
     (case compileExpr eng c x ([], sb) of
             Inl e \<Rightarrow> Inl e
           | Inr (iter, (buf, st')) \<Rightarrow>
               Inr (buf @ [PyFor (PyName ''_'') iter (if b0 = [] then [PyPass] else b0)], st'))"
  using assms
  by (simp add: compileRangeStmt.simps withExprCompiler_def bnd_def onCompiler_def split: sum.splits prod.splits)


lemma range_success:
  assumes "compileRangeStmt eng c key val x body st = Inr (out, st')"
  shows "\<exists>b0 sb target iter buf.
        compileStmt eng c body st = Inr (b0, sb) \<and>
        out = buf @ [PyFor target iter (if b0 = [] then [PyPass] else b0)] \<and>
        (case key of
           Some k \<Rightarrow>
             (case val of
                None \<Rightarrow>
                  (\<exists>coll buf1 s1.
                     compileExpr eng c k ([], sb) = Inr (target, (buf1, s1)) \<and>
                     compileExpr eng c x (buf1, s1) = Inr (coll, (buf, st')) \<and>
                     iter = PyCall (pyRange eng) [PyCall (pyLen eng) [coll]])
              | Some v \<Rightarrow>
                  if isBlank k then
                    (\<exists>buf1 s1.
                       compileExpr eng c v ([], sb) = Inr (target, (buf1, s1)) \<and>
                       compileExpr eng c x (buf1, s1) = Inr (iter, (buf, st')))
                  else
                    (\<exists>k' v' coll buf1 s1 buf2 s2.
                       compileExpr eng c k ([], sb) = Inr (k', (buf1, s1)) \<and>
                       compileExpr eng c v (buf1, s1) = Inr (v', (buf2, s2)) \<and>
                       compileExpr eng c x (buf2, s2) = Inr (coll, (buf, st')) \<and>
                       target = PyTuple [k', v'] \<and>
                       iter = PyCall (pyEnumerate eng) [coll]))
         | None \<Rightarrow>
             val = None \<and> target = PyName ''_'' \<and>
             compileExpr eng c x ([], sb) = Inr (iter, (buf, st')))"
proof -
  from assms obtain b0 sb where body: "compileStmt eng c body st = Inr (b0, sb)"
    by (rule range_body_first)
  show ?thesis
  proof (cases key)
    case None
    show ?thesis
    proof (cases val)
      case None
      with \<open>key = None\<close> assms range_neither [OF body, of x] show ?thesis
        using body by (auto split: sum.splits prod.splits)
    next
      case (Some v)
      with \<open>key = None\<close> assms range_value_only_body [OF body, of v x] show ?thesis
        by simp
    qed
  next
    case (Some k)
    note key = this
    show ?thesis
    proof (cases val)
      case None
      with key assms range_key_only [OF body, of k x] show ?thesis
        using body by (auto split: sum.splits prod.splits)
    next
      case (Some v)
      show ?thesis
      proof (cases "isBlank k")
        case True
        with Some key assms range_blank_key [OF body True, of v x] show ?thesis
          using body by (auto split: sum.splits prod.splits)
      next
        case False
        with Some key assms range_key_value [OF body False, of v x] show ?thesis
          using body by (auto split: sum.splits prod.splits)
      qed
    qed
  qed
qed

lemma range_total:
  assumes eng: "\<forall>c' e s. \<exists>r. compileExpr eng c' e s = Inr r"
    and body: "compileStmt eng c body st = Inr (b0, sb)"
    and shape: "\<not> (key = None \<and> val \<noteq> None)"
  shows "\<exists>r. compileRangeStmt eng c key val x body st = Inr r"
proof -
  have step: "\<And>e s. \<exists>e' buf s'. compileExpr eng c e s = Inr (e', (buf, s'))"
    using eng by (metis prod.exhaust)
  show ?thesis
  proof (cases key)
    case None
    with shape have "val = None" by simp
    moreover obtain i buf s' where "compileExpr eng c x ([], sb) = Inr (i, (buf, s'))"
      using step by blast
    ultimately show ?thesis using None range_neither [OF body, of x] by simp
  next
    case (Some k)
    note key = this
    show ?thesis
    proof (cases val)
      case None
      obtain t buf1 s1 where a: "compileExpr eng c k ([], sb) = Inr (t, (buf1, s1))"
        using step by blast
      obtain i buf s' where "compileExpr eng c x (buf1, s1) = Inr (i, (buf, s'))"
        using step by blast
      with a show ?thesis using None key range_key_only [OF body, of k x] by simp
    next
      case (Some v)
      show ?thesis
      proof (cases "isBlank k")
        case True
        obtain t buf1 s1 where a: "compileExpr eng c v ([], sb) = Inr (t, (buf1, s1))"
          using step by blast
        obtain i buf s' where "compileExpr eng c x (buf1, s1) = Inr (i, (buf, s'))"
          using step by blast
        with a show ?thesis using Some key range_blank_key [OF body True, of v x] by simp
      next
        case False
        obtain t buf1 s1 where a: "compileExpr eng c k ([], sb) = Inr (t, (buf1, s1))"
          using step by blast
        obtain t2 buf2 s2 where b: "compileExpr eng c v (buf1, s1) = Inr (t2, (buf2, s2))"
          using step by blast
        obtain i buf s' where "compileExpr eng c x (buf2, s2) = Inr (i, (buf, s'))"
          using step by blast
        with a b show ?thesis using Some key range_key_value [OF body False, of v x] by simp
      qed
    qed
  qed
qed


text \<open>
  Range-loop lowering depends on the shape of the statement alone: whether it has a
  key, whether it has a value, and whether the key is the blank identifier. Whenever it
  returns, the body has been lowered first, and the result is the hoisted statements
  followed by one for loop whose body is the lowered body, or a single pass statement
  when that lowering, comments included, is empty. With a key only the loop runs over \<open>range(len(x))\<close> and binds the
  key; with a blank key and a value it runs over the collection and binds the value;
  with a key and a value it runs over \<open>enumerate(x)\<close> and binds the tuple of both; with
  neither it runs over the collection and binds \<open>_\<close>. A value without a key aborts.
  These are all the shapes: with an engine that never aborts and a body that lowers, every
  shape but the last returns.
\<close>

lemma compileRangeStmt_shapes:
  "(compileRangeStmt eng c key val x body st = Inr (out, st') \<longrightarrow>
      (\<exists>b0 sb target iter buf.
        compileStmt eng c body st = Inr (b0, sb) \<and>
        out = buf @ [PyFor target iter (if b0 = [] then [PyPass] else b0)] \<and>
        (case key of
           Some k \<Rightarrow>
             (case val of
                None \<Rightarrow>
                  (\<exists>coll buf1 s1.
                     compileExpr eng c k ([], sb) = Inr (target, (buf1, s1)) \<and>
                     compileExpr eng c x (buf1, s1) = Inr (coll, (buf, st')) \<and>
                     iter = PyCall (pyRange eng) [PyCall (pyLen eng) [coll]])
              | Some v \<Rightarrow>
                  if isBlank k then
                    (\<exists>buf1 s1.
                       compileExpr eng c v ([], sb) = Inr (target, (buf1, s1)) \<and>
                       compileExpr eng c x (buf1, s1) = Inr (iter, (buf, st')))
                  else
                    (\<exists>k' v' coll buf1 s1 buf2 s2.
                       compileExpr eng c k ([], sb) = Inr (k', (buf1, s1)) \<and>
                       compileExpr eng c v (buf1, s1) = Inr (v', (buf2, s2)) \<and>
                       compileExpr eng c x (buf2, s2) = Inr (coll, (buf, st')) \<and>
                       target = PyTuple [k', v'] \<and>
                       iter = PyCall (pyEnumerate eng) [coll]))
         | None \<Rightarrow>
             val = None \<and> target = PyName ''_'' \<and>
             compileExpr eng c x ([], sb) = Inr (iter, (buf, st')))))
   \<and> (key = None \<and> val \<noteq> None \<longrightarrow>
        (\<exists>e. compileRangeStmt eng c key val x body st = Inl e) \<and>
        ((\<exists>r. compileStmt eng c body st = Inr r) \<longrightarrow>
           compileRangeStmt eng c key val x body st = Inl RangeValueWithoutKey))
   \<and> ((\<forall>c' e s. \<exists>r. compileExpr eng c' e s = Inr r) \<and>
        (\<exists>r. compileStmt eng c body st = Inr r) \<and> \<not> (key = None \<and> val \<noteq> None) \<longrightarrow>
        (\<exists>r. compileRangeStmt eng c key val x body st = Inr r))"
proof (intro conjI impI)
  assume "compileRangeStmt eng c key val x body st = Inr (out, st')"
  then show "\<exists>b0 sb target iter buf.
        compileStmt eng c body st = Inr (b0, sb) \<and>
        out = buf @ [PyFor target iter (if b0 = [] then [PyPass] else b0)] \<and>
        (case key of
           Some k \<Rightarrow>
             (case val of
                None \<Rightarrow>
                  (\<exists>coll buf1 s1.
                     compileExpr eng c k ([], sb) = Inr (target, (buf1, s1)) \<and>
                     compileExpr eng c x (buf1, s1) = Inr (coll, (buf, st')) \<and>
                     iter = PyCall (pyRange eng) [PyCall (pyLen eng) [coll]])
              | Some v \<Rightarrow>
                  if isBlank k then
                    (\<exists>buf1 s1.
                       compileExpr eng c v ([], sb) = Inr (target, (buf1, s1)) \<and>
                       compileExpr eng c x (buf1, s1) = Inr (iter, (buf, st')))
                  else
                    (\<exists>k' v' coll buf1 s1 buf2 s2.
                       compileExpr eng c k ([], sb) = Inr (k', (buf1, s1)) \<and>
                       compileExpr eng c v (buf1, s1) = Inr (v', (buf2, s2)) \<and>
                       compileExpr eng c x (buf2, s2) = Inr (coll, (buf, st')) \<and>
                       target = PyTuple [k', v'] \<and>
                       iter = PyCall (pyEnumerate eng) [coll]))
         | None \<Rightarrow>
             val = None \<and> target = PyName ''_'' \<and>
             compileExpr eng c x ([], sb) = Inr (iter, (buf, st')))"
    by (rule range_success)
next
  assume "key = None \<and> val \<noteq> None"
  then obtain v where "key = None" "val = Some v" by auto
  then show "\<exists>e. compileRangeStmt eng c key val x body st = Inl e"
    using range_value_only [of eng c v x body st] by simp
next
  assume "key = None \<and> val \<noteq> None" and "\<exists>r. compileStmt eng c body st = Inr r"
  then obtain v r where "key = None" "val = Some v" "compileStmt eng c body st = Inr r" by auto
  then show "compileRangeStmt eng c key val x body st = Inl RangeValueWithoutKey"
    using range_value_only_body [of eng c body st r v x] by simp
next
  assume a: "(\<forall>c' e s. \<exists>r. compileExpr eng c' e s = Inr r) \<and>
        (\<exists>r. compileStmt eng c body st = Inr r) \<and> \<not> (key = None \<and> val \<noteq> None)"
  then obtain b0 sb where "compileStmt eng c body st = Inr (b0, sb)" by auto
  with a show "\<exists>r. compileRangeStmt eng c key val x body st = Inr r"
    using range_total [of eng c body st b0 sb key val x] by blast
qed

lemma sampleEngine_total: "\<forall>c' e s. \<exists>r. compileExpr (sampleEngine t) c' e s = Inr r"
  by (simp add: sampleEngine_def split: prod.splits)

lemma sample_range_key_only:
  "compileRangeStmt (sampleEngine intOracle) (sampleCompiler True) (Some (ident ''i'')) None
     (ident ''xs'') (BlockStmt []) 0
   = Inr ([PyFor (PyName ''i'') (PyCall (PyName ''range'') [PyCall (PyName ''len'') [PyName ''xs'']])
            [PyPass]], 0)"
  by code_simp

lemma sample_empty_block:
  "compileStmt (sampleEngine intOracle) (sampleCompiler True) (BlockStmt []) 0 = Inr ([], 0)"
  by code_simp

lemma compileRangeStmt_shapes_sample:
  "(\<exists>b0 sb target iter buf.
      compileStmt (sampleEngine intOracle) (sampleCompiler True) (BlockStmt []) 0 = Inr (b0, sb) \<and>
      [PyFor (PyName ''i'') (PyCall (PyName ''range'') [PyCall (PyName ''len'') [PyName ''xs'']]) [PyPass]]
        = buf @ [PyFor target iter (if b0 = [] then [PyPass] else b0)] \<and>
      (\<exists>coll buf1 s1.
         compileExpr (sampleEngine intOracle) (sampleCompiler True) (ident ''i'') ([], sb)
           = Inr (target, (buf1, s1)) \<and>
         compileExpr (sampleEngine intOracle) (sampleCompiler True) (ident ''xs'') (buf1, s1)
           = Inr (coll, (buf, 0)) \<and>
         iter = PyCall (pyRange (sampleEngine intOracle)) [PyCall (pyLen (sampleEngine intOracle)) [coll]]))
   \<and> compileRangeStmt (sampleEngine intOracle) (sampleCompiler True) None (Some (ident ''v''))
        (ident ''xs'') (BlockStmt []) 0 = Inl RangeValueWithoutKey
   \<and> (\<exists>r. compileRangeStmt (sampleEngine intOracle) (sampleCompiler True)
             (Some (ident ''_'')) (Some (ident ''v'')) (ident ''xs'') (BlockStmt []) 0 = Inr r)"
proof (intro conjI)
  show "\<exists>b0 sb target iter buf.
      compileStmt (sampleEngine intOracle) (sampleCompiler True) (BlockStmt []) 0 = Inr (b0, sb) \<and>
      [PyFor (PyName ''i'') (PyCall (PyName ''range'') [PyCall (PyName ''len'') [PyName ''xs'']]) [PyPass]]
        = buf @ [PyFor target iter (if b0 = [] then [PyPass] else b0)] \<and>
      (\<exists>coll buf1 s1.
         compileExpr (sampleEngine intOracle) (sampleCompiler True) (ident ''i'') ([], sb)
           = Inr (target, (buf1, s1)) \<and>
         compileExpr (sampleEngine intOracle) (sampleCompiler True) (ident ''xs'') (buf1, s1)
           = Inr (coll, (buf, 0)) \<and>
         iter = PyCall (pyRange (sampleEngine intOracle)) [PyCall (pyLen (sampleEngine intOracle)) [coll]])"
    using compileRangeStmt_shapes [of "sampleEngine intOracle" "sampleCompiler True"
        "Some (ident ''i'')" None "ident ''xs''" "BlockStmt []" 0 _ 0]
      sample_range_key_only
    by (simp add: sampleEngine_def sampleCompiler_def NewXCompiler_def withComments_def
          commentStmts_def ident_def)
next
  show "compileRangeStmt (sampleEngine intOracle) (sampleCompiler True) None (Some (ident ''v''))
        (ident ''xs'') (BlockStmt []) 0 = Inl RangeValueWithoutKey"
    using compileRangeStmt_shapes [of "sampleEngine intOracle" "sampleCompiler True"
        None "Some (ident ''v'')" "ident ''xs''" "BlockStmt []" 0]
      sample_empty_block
    by simp
next
  show "\<exists>r. compileRangeStmt (sampleEngine intOracle) (sampleCompiler True)
             (Some (ident ''_'')) (Some (ident ''v'')) (ident ''xs'') (BlockStmt []) 0 = Inr r"
    using compileRangeStmt_shapes [of "sampleEngine intOracle" "sampleCompiler True"
        "Some (ident ''_'')" "Some (ident ''v'')" "ident ''xs''" "BlockStmt []" 0]
      sample_empty_block sampleEngine_total [of intOracle]
    by simp
qed

text \<open>
  C4. An empty loop body is to lower to a single pass statement. The loop
  \<open>for i := range xs { /* todo */ }\<close> has an empty body that carries a comment:
  \<open>compileStmt\<close> puts the comment before the lowering of the body, so the test for an
  empty body fails, and the loop lowers to a for loop whose body is the comment alone,
  without a pass statement.
\<close>

theorem compileRangeStmt_comment_only_body:
  "compileRangeStmt (sampleEngine intOracle) ((NewCompiler 0)\<lparr>commentMap := Some todoComments\<rparr>)
     (Some (ident ''i'')) None (ident ''xs'') (BlockStmt []) 0
   = Inr ([PyFor (PyName ''i'') (PyCall (PyName ''range'') [PyCall (PyName ''len'') [PyName ''xs'']])
             [PyComment ''  todo'']], 0)"
  by code_simp

section \<open>The default clause of a switch\<close>

lemma lastNilTest_Cons:
  "lastNilTest d ((t, b) # rs) = (if t = NilExpr then lastNilTest b rs else lastNilTest d rs)"
  by (simp add: lastNilTest_def split: list.splits)

lemma switchClauses_eachInOrder:
  "switchClauses eng c tag clauses (ifs, d) bs =
     (case eachInOrder (lowerClause eng c tag) clauses bs of
        Inl e \<Rightarrow> Inl e
      | Inr (rs, bs') \<Rightarrow> Inr ((ifs @ filter (\<lambda>(t, b). t \<noteq> NilExpr) rs, lastNilTest d rs), bs'))"
proof (induction clauses arbitrary: ifs d bs)
  case Nil
  then show ?case by (simp add: lastNilTest_def)
next
  case (Cons clause rest)
  show ?case
  proof (cases "\<exists>list body. clause = CaseClause list body")
    case True
    then obtain list body where cl: "clause = CaseClause list body" by blast
    show ?thesis
      unfolding cl
      by (simp add: lowerClause_def bnd_def Cons.IH lastNilTest_Cons split: sum.splits prod.splits)
  next
    case False
    then show ?thesis
      by (cases clause) (simp_all add: lowerClause_def bnd_def)
  qed
qed


lemma linkIfs_conditionals: "[linkIfs first rest d] = conditionals (first # rest) d"
  by (induction rest arbitrary: first) (auto simp: conditionals_def split_paired_all)

lemma endSwitch_conditionals: "endSwitch stmts buf ifs d = stmts @ buf @ conditionals ifs d"
proof (cases ifs)
  case Nil
  then show ?thesis by (simp add: endSwitch_def conditionals_def)
next
  case (Cons first rest)
  then show ?thesis using linkIfs_conditionals [of first rest d] by (simp add: endSwitch_def)
qed

lemma lowerClause_Inr:
  "(lowerClause eng c tag clause bs = Inr (r, bs')) =
   (\<exists>list body test buf1 s1 body' s2.
      clause = CaseClause list body \<and>
      compileCaseClauseTest eng c clause tag bs = Inr (test, (buf1, s1)) \<and>
      compileStmts eng c body s1 = Inr (body', s2) \<and>
      r = (test, body') \<and> bs' = (buf1, s2))"
proof -
  obtain b0 s0 where bs: "bs = (b0, s0)" by (cases bs)
  obtain b9 s9 where bs': "bs' = (b9, s9)" by (cases bs')
  show ?thesis
    unfolding bs bs'
    by (cases clause) (auto simp: lowerClause_def bnd_Inr onCompiler_Inr)
qed

lemma lowered_clauses_by_source:
  assumes "nilTestIffDefault eng"
    and "eachInOrder (lowerClause eng c tag) clauses bs = Inr (rs, bs')"
  shows "filter (\<lambda>(t, b). t \<noteq> NilExpr) rs = nonDefault clauses rs \<and>
         lastNilTest d rs =
           (case filter (\<lambda>(clause, r). isDefaultClause clause) (zip clauses rs) of
              [] \<Rightarrow> d
            | ds \<Rightarrow> snd (snd (last ds)))"
  using assms(2)
proof (induction clauses arbitrary: rs bs d)
  case Nil
  then show ?case by (simp add: nonDefault_def lastNilTest_def)
next
  case (Cons clause rest)
  from Cons.prems obtain r bs1 rs' where
    r: "lowerClause eng c tag clause bs = Inr (r, bs1)" and
    e: "eachInOrder (lowerClause eng c tag) rest bs1 = Inr (rs', bs')" and
    rs: "rs = r # rs'"
    unfolding eachInOrder_Inr_Cons by blast
  from r obtain list body test buf1 s1 body' where
    cl: "clause = CaseClause list body" and
    t: "compileCaseClauseTest eng c (CaseClause list body) tag bs = Inr (test, (buf1, s1))" and
    rr: "r = (test, body')"
    unfolding lowerClause_Inr by blast
  obtain b0 s0 where bs: "bs = (b0, s0)" by (cases bs)
  from assms(1) t have n: "(test = NilExpr) = (list = [])"
    unfolding nilTestIffDefault_def bs by blast
  note ih = Cons.IH [OF e]
  show ?case
  proof (cases "list = []")
    case True
    with n have tn: "test = NilExpr" by simp
    have a: "filter (\<lambda>(t, b). t \<noteq> NilExpr) rs = nonDefault (clause # rest) rs"
      using ih [of d] True tn by (simp add: rs rr cl nonDefault_def)
    have b: "lastNilTest d rs =
           (case filter (\<lambda>(clause, r). isDefaultClause clause) (zip (clause # rest) rs) of
              [] \<Rightarrow> d
            | ds \<Rightarrow> snd (snd (last ds)))"
      using ih [of body'] True tn
      by (simp add: rs rr cl lastNilTest_Cons split: list.splits)
    from a b show ?thesis by simp
  next
    case False
    with n have tn: "test \<noteq> NilExpr" by simp
    have a: "filter (\<lambda>(t, b). t \<noteq> NilExpr) rs = nonDefault (clause # rest) rs"
      using ih [of d] False tn by (simp add: rs rr cl nonDefault_def)
    have b: "lastNilTest d rs =
           (case filter (\<lambda>(clause, r). isDefaultClause clause) (zip (clause # rest) rs) of
              [] \<Rightarrow> d
            | ds \<Rightarrow> snd (snd (last ds)))"
      using ih [of d] False tn
      by (simp add: rs rr cl lastNilTest_Cons split: list.splits)
    from a b show ?thesis by simp
  qed
qed

lemma switchClauses_Inr:
  "(switchClauses eng c tag clauses (ifs, d) bs = Inr ((ifs', d'), bs')) =
   (\<exists>rs. eachInOrder (lowerClause eng c tag) clauses bs = Inr (rs, bs') \<and>
      ifs' = ifs @ filter (\<lambda>(t, b). t \<noteq> NilExpr) rs \<and> d' = lastNilTest d rs)"
  by (auto simp: switchClauses_eachInOrder split: sum.splits)

lemma compileSwitchStmt_Inr:
  "(compileSwitchStmt eng c init tagExpr clauses st = Inr (out, st')) =
   (\<exists>stmts s1 tag assign b1 s2 rs buf.
      (case init of
         None \<Rightarrow> stmts = [] \<and> s1 = st
       | Some i \<Rightarrow> compileStmt eng c i st = Inr (stmts, s1)) \<and>
      (case tagExpr of
         None \<Rightarrow> tag = NilExpr \<and> assign = [] \<and> b1 = [] \<and> s2 = s1
       | Some t \<Rightarrow>
           \<exists>v. compileExpr eng c t ([], s1) = Inr (v, (b1, s2)) \<and>
               tag = PyName ''tag'' \<and> assign = [PyAssign [PyName ''tag''] v]) \<and>
      eachInOrder (lowerClause eng c tag) clauses (b1, s2) = Inr (rs, (buf, st')) \<and>
      out = stmts @ assign @ buf @
            conditionals (filter (\<lambda>(t, b). t \<noteq> NilExpr) rs) (lastNilTest [] rs))"
proof (cases init; cases tagExpr)
  assume "init = None" "tagExpr = None"
  then show ?thesis
    by (auto simp: compileSwitchStmt.simps withExprCompiler_Inr bnd_Inr
          switchClauses_Inr endSwitch_conditionals)
next
  fix t assume "init = None" "tagExpr = Some t"
  then show ?thesis
    by (auto simp: compileSwitchStmt.simps withExprCompiler_Inr bnd_Inr
          switchClauses_Inr endSwitch_conditionals)
next
  fix i assume "init = Some i" "tagExpr = None"
  then show ?thesis
    by (auto simp: compileSwitchStmt.simps withExprCompiler_Inr bnd_Inr onCompiler_Inr
          switchClauses_Inr endSwitch_conditionals)
next
  fix i t assume "init = Some i" "tagExpr = Some t"
  then show ?thesis
    by (auto simp: compileSwitchStmt.simps withExprCompiler_Inr bnd_Inr onCompiler_Inr
          switchClauses_Inr endSwitch_conditionals)
qed


lemma nonDefault_all_default: "list_all isDefaultClause clauses \<Longrightarrow> nonDefault clauses rs = []"
  by (auto simp: nonDefault_def filter_empty_conv list_all_iff dest: set_zip_leftD)

lemma defaultBody_no_default: "\<not> list_ex isDefaultClause clauses \<Longrightarrow> defaultBody clauses rs = []"
proof -
  assume "\<not> list_ex isDefaultClause clauses"
  then have "filter (\<lambda>(clause, r). isDefaultClause clause) (zip clauses rs) = []"
    by (auto simp: filter_empty_conv list_ex_iff dest: set_zip_leftD)
  then show ?thesis by (simp add: defaultBody_def)
qed

text \<open>
  C1. With an engine whose test of a clause is nil exactly for the clauses without case
  expressions, the lowering of a value switch returns exactly when the init statement
  lowers, then the tag, then the clauses one after the other in source order, each from
  the state that the one before left. Its output is then the lowered init statement, the
  assignment of the tag, the statements that the engine hoisted, and the chain of the
  conditionals of the clauses that are not default clauses, in source order, whose last
  else branch is the lowered body of the default clause, wherever that clause stands, or
  empty without a default clause. When every clause is a default clause the chain has no
  conditional and is the default body itself.
\<close>

theorem compileSwitchStmt_default_last:
  assumes "nilTestIffDefault eng"
  shows "((compileSwitchStmt eng c init tagExpr clauses st = Inr (out, st')) =
     (\<exists>stmts s1 tag assign b1 s2 rs buf.
        (case init of
           None \<Rightarrow> stmts = [] \<and> s1 = st
         | Some i \<Rightarrow> compileStmt eng c i st = Inr (stmts, s1)) \<and>
        (case tagExpr of
           None \<Rightarrow> tag = NilExpr \<and> assign = [] \<and> b1 = [] \<and> s2 = s1
         | Some t \<Rightarrow>
             \<exists>v. compileExpr eng c t ([], s1) = Inr (v, (b1, s2)) \<and>
                 tag = PyName ''tag'' \<and> assign = [PyAssign [PyName ''tag''] v]) \<and>
        eachInOrder (lowerClause eng c tag) clauses (b1, s2) = Inr (rs, (buf, st')) \<and>
        out = stmts @ assign @ buf @
              conditionals (nonDefault clauses rs) (defaultBody clauses rs))) \<and>
   conditionals [] final = final \<and>
   conditionals ((test, body) # ifs) final = [PyIf test body (conditionals ifs final)] \<and>
   (list_all isDefaultClause clauses \<longrightarrow> nonDefault clauses rs' = []) \<and>
   (\<not> list_ex isDefaultClause clauses \<longrightarrow> defaultBody clauses rs' = [])"
proof (intro conjI impI)
  have eq: "\<And>tag b1 s2 rs buf.
      eachInOrder (lowerClause eng c tag) clauses (b1, s2) = Inr (rs, (buf, st')) \<Longrightarrow>
      conditionals (filter (\<lambda>(t, b). t \<noteq> NilExpr) rs) (lastNilTest [] rs)
        = conditionals (nonDefault clauses rs) (defaultBody clauses rs)"
    using lowered_clauses_by_source [OF assms, where d = "[]"]
    by (simp add: defaultBody_def)
  show "(compileSwitchStmt eng c init tagExpr clauses st = Inr (out, st')) =
     (\<exists>stmts s1 tag assign b1 s2 rs buf.
        (case init of
           None \<Rightarrow> stmts = [] \<and> s1 = st
         | Some i \<Rightarrow> compileStmt eng c i st = Inr (stmts, s1)) \<and>
        (case tagExpr of
           None \<Rightarrow> tag = NilExpr \<and> assign = [] \<and> b1 = [] \<and> s2 = s1
         | Some t \<Rightarrow>
             \<exists>v. compileExpr eng c t ([], s1) = Inr (v, (b1, s2)) \<and>
                 tag = PyName ''tag'' \<and> assign = [PyAssign [PyName ''tag''] v]) \<and>
        eachInOrder (lowerClause eng c tag) clauses (b1, s2) = Inr (rs, (buf, st')) \<and>
        out = stmts @ assign @ buf @
              conditionals (nonDefault clauses rs) (defaultBody clauses rs))"
    unfolding compileSwitchStmt_Inr
    apply (rule iffI)
     apply (elim exE conjE)
     apply (intro exI conjI)
        apply assumption
       apply assumption
      apply assumption
     apply (frule eq)
     apply simp
    apply (elim exE conjE)
    apply (intro exI conjI)
       apply assumption
      apply assumption
     apply assumption
    apply (frule eq)
    apply simp
    done
next
  show "conditionals [] final = final"
    by (simp add: conditionals_def)
next
  show "conditionals ((test, body) # ifs) final = [PyIf test body (conditionals ifs final)]"
    by (simp add: conditionals_def)
next
  assume "list_all isDefaultClause clauses"
  then show "nonDefault clauses rs' = []"
    by (rule nonDefault_all_default)
next
  assume "\<not> list_ex isDefaultClause clauses"
  then show "defaultBody clauses rs' = []"
    by (rule defaultBody_no_default)
qed

lemma sampleExpr_not_nil: "sampleExpr e \<noteq> NilExpr"
  by (induction e) simp_all

lemma sampleCaseTest_nil: "(sampleCaseTest (CaseClause list body) tag = NilExpr) = (list = [])"
proof (cases list)
  case Nil
  then show ?thesis by (simp add: sampleCaseTest_def)
next
  case (Cons e es)
  then show ?thesis
    by (cases es) (simp_all add: sampleCaseTest_def sampleExpr_not_nil)
qed

lemma sampleEngine_nilTestIffDefault: "nilTestIffDefault (sampleEngine t)"
  unfolding nilTestIffDefault_def
  by (auto simp: sampleEngine_def sampleCaseTest_nil)

lemma sample_switch_default_first:
  "compileSwitchStmt (sampleEngine intOracle) (sampleCompiler True) None None
     [CaseClause [] [call ''C''],
      CaseClause [ident ''cond1''] [call ''A''],
      CaseClause [ident ''cond2''] [call ''B'']] 0
   = Inr ([PyIf (PyName ''cond1'') [PyExprStmt (PyCall (PyName ''A'') [])]
            [PyIf (PyName ''cond2'') [PyExprStmt (PyCall (PyName ''B'') [])]
               [PyExprStmt (PyCall (PyName ''C'') [])]]], 0)"
  by code_simp

lemma sample_switch_default_only:
  "compileSwitchStmt (sampleEngine intOracle) (sampleCompiler True) None None
     [CaseClause [] [call ''C'']] 0
   = Inr ([PyExprStmt (PyCall (PyName ''C'') [])], 0)"
  by code_simp

theorem compileSwitchStmt_default_last_witness:
  "(\<exists>rs buf.
      eachInOrder (lowerClause (sampleEngine intOracle) (sampleCompiler True) NilExpr)
        [CaseClause [] [call ''C''],
         CaseClause [ident ''cond1''] [call ''A''],
         CaseClause [ident ''cond2''] [call ''B'']] ([], 0) = Inr (rs, (buf, 0)) \<and>
      [PyIf (PyName ''cond1'') [PyExprStmt (PyCall (PyName ''A'') [])]
         [PyIf (PyName ''cond2'') [PyExprStmt (PyCall (PyName ''B'') [])]
            [PyExprStmt (PyCall (PyName ''C'') [])]]]
        = buf @ conditionals
            (nonDefault [CaseClause [] [call ''C''],
                         CaseClause [ident ''cond1''] [call ''A''],
                         CaseClause [ident ''cond2''] [call ''B'']] rs)
            (defaultBody [CaseClause [] [call ''C''],
                          CaseClause [ident ''cond1''] [call ''A''],
                          CaseClause [ident ''cond2''] [call ''B'']] rs)) \<and>
   (\<exists>rs buf.
      eachInOrder (lowerClause (sampleEngine intOracle) (sampleCompiler True) NilExpr)
        [CaseClause [] [call ''C'']] ([], 0) = Inr (rs, (buf, 0)) \<and>
      nonDefault [CaseClause [] [call ''C'']] rs = [] \<and>
      [PyExprStmt (PyCall (PyName ''C'') [])]
        = buf @ conditionals (nonDefault [CaseClause [] [call ''C'']] rs)
                  (defaultBody [CaseClause [] [call ''C'']] rs))"
proof
  let ?clauses = "[CaseClause [] [call ''C''],
         CaseClause [ident ''cond1''] [call ''A''],
         CaseClause [ident ''cond2''] [call ''B'']]"
  let ?out = "[PyIf (PyName ''cond1'') [PyExprStmt (PyCall (PyName ''A'') [])]
         [PyIf (PyName ''cond2'') [PyExprStmt (PyCall (PyName ''B'') [])]
            [PyExprStmt (PyCall (PyName ''C'') [])]]]"
  from compileSwitchStmt_default_last [OF sampleEngine_nilTestIffDefault [of intOracle],
      where c = "sampleCompiler True" and init = None and tagExpr = None and st = 0 and st' = 0
      and clauses = ?clauses and out = ?out]
    sample_switch_default_first
  have "\<exists>stmts s1 tag assign b1 s2 rs buf.
        (case None :: gostmt option of
           None \<Rightarrow> stmts = [] \<and> s1 = (0 :: nat)
         | Some i \<Rightarrow> compileStmt (sampleEngine intOracle) (sampleCompiler True) i 0 = Inr (stmts, s1)) \<and>
        (case None :: goexpr option of
           None \<Rightarrow> tag = NilExpr \<and> assign = [] \<and> b1 = [] \<and> s2 = s1
         | Some t \<Rightarrow>
             \<exists>v. compileExpr (sampleEngine intOracle) (sampleCompiler True) t ([], s1) = Inr (v, (b1, s2)) \<and>
                 tag = PyName ''tag'' \<and> assign = [PyAssign [PyName ''tag''] v]) \<and>
        eachInOrder (lowerClause (sampleEngine intOracle) (sampleCompiler True) tag) ?clauses (b1, s2)
          = Inr (rs, (buf, 0)) \<and>
        ?out = stmts @ assign @ buf @
              conditionals (nonDefault ?clauses rs) (defaultBody ?clauses rs)"
    by blast
  then show "\<exists>rs buf.
      eachInOrder (lowerClause (sampleEngine intOracle) (sampleCompiler True) NilExpr)
        ?clauses ([], 0) = Inr (rs, (buf, 0)) \<and>
      ?out = buf @ conditionals (nonDefault ?clauses rs) (defaultBody ?clauses rs)"
    by (simp del: eachInOrder.simps)
next
  let ?clauses = "[CaseClause [] [call ''C'']]"
  let ?out = "[PyExprStmt (PyCall (PyName ''C'') [])]"
  have a: "list_all isDefaultClause ?clauses"
    by simp
  note w = compileSwitchStmt_default_last [OF sampleEngine_nilTestIffDefault [of intOracle],
      where c = "sampleCompiler True" and init = None and tagExpr = None and st = 0 and st' = 0
      and clauses = ?clauses and out = ?out]
  from w sample_switch_default_only
  have "\<exists>stmts s1 tag assign b1 s2 rs buf.
        (case None :: gostmt option of
           None \<Rightarrow> stmts = [] \<and> s1 = (0 :: nat)
         | Some i \<Rightarrow> compileStmt (sampleEngine intOracle) (sampleCompiler True) i 0 = Inr (stmts, s1)) \<and>
        (case None :: goexpr option of
           None \<Rightarrow> tag = NilExpr \<and> assign = [] \<and> b1 = [] \<and> s2 = s1
         | Some t \<Rightarrow>
             \<exists>v. compileExpr (sampleEngine intOracle) (sampleCompiler True) t ([], s1) = Inr (v, (b1, s2)) \<and>
                 tag = PyName ''tag'' \<and> assign = [PyAssign [PyName ''tag''] v]) \<and>
        eachInOrder (lowerClause (sampleEngine intOracle) (sampleCompiler True) tag) ?clauses (b1, s2)
          = Inr (rs, (buf, 0)) \<and>
        ?out = stmts @ assign @ buf @
              conditionals (nonDefault ?clauses rs) (defaultBody ?clauses rs)"
    by blast
  then obtain rs buf where
    e: "eachInOrder (lowerClause (sampleEngine intOracle) (sampleCompiler True) NilExpr)
          ?clauses ([], 0) = Inr (rs, (buf, 0))" and
    o: "?out = buf @ conditionals (nonDefault ?clauses rs) (defaultBody ?clauses rs)"
    by (auto simp del: eachInOrder.simps)
  from w [where rs' = rs] a have n: "nonDefault ?clauses rs = []"
    by blast
  from e o n show "\<exists>rs buf.
      eachInOrder (lowerClause (sampleEngine intOracle) (sampleCompiler True) NilExpr)
        ?clauses ([], 0) = Inr (rs, (buf, 0)) \<and>
      nonDefault ?clauses rs = [] \<and>
      ?out = buf @ conditionals (nonDefault ?clauses rs) (defaultBody ?clauses rs)"
    by blast
qed

text \<open>
  A switch with a tag and no clause, \<open>switch x {}\<close>, has neither a non-default clause
  nor a default clause, and does not lower to nothing: it lowers to the assignment of the
  tag.
\<close>

theorem compileSwitchStmt_tag_only_counterexample:
  "compileSwitchStmt (sampleEngine intOracle) (sampleCompiler True) None (Some (ident ''x'')) [] 0
   = Inr ([PyAssign [PyName ''tag''] (PyName ''x'')], 0)"
  by code_simp

section \<open>The place of the hoisted statements\<close>

text \<open>
  A conditional puts the hoisted statements of its test before the conditional itself. A
  switch with a tag appends the assignment of the tag before it appends the hoisted
  statements, so what the tag expression hoisted follows the assignment that uses it.
\<close>

lemma switch_tag_then_hoisted:
  "compileSwitchStmt eng c None (Some t) [] st =
     (case compileExpr eng c t ([], st) of
        Inl e \<Rightarrow> Inl e
      | Inr (v, (buf, st')) \<Rightarrow> Inr (PyAssign [PyName ''tag''] v # buf, st'))"
  by (simp add: compileSwitchStmt.simps withExprCompiler_def bnd_def endSwitch_def
        split: sum.splits prod.splits)

lemma if_hoisted_then_statement:
  "compileIfStmt eng c None cond body None st = Inr (out, st') \<Longrightarrow>
     \<exists>test buf s1 body'. compileExpr eng c cond ([], st) = Inr (test, (buf, s1)) \<and>
        compileStmt eng c body s1 = Inr (body', st') \<and>
        out = buf @ [PyIf test body' []]"
  by (auto simp: compileIfStmt.simps withExprCompiler_Inr bnd_Inr onCompiler_Inr)

lemma compileTypeSwitchStmt_tag_hoisted_after_assignment:
  "compileTypeSwitchStmt (sampleEngine intOracle) (sampleCompiler True) None
     (ExprStmt (TypeAssertExpr (CallExpr (FuncLit ''func0'') []))) [] 0
   = Inr ([PyAssign [PyName ''tag''] (PyCall (PyName ''type'') [PyCall (PyName ''func0'') []]),
           PyFunctionDef ''func0'' (Arguments [] []) [PyPass]], 1)"
  by code_simp

lemma compileIfStmt_hoisted_before_statement:
  "compileIfStmt (sampleEngine intOracle) (sampleCompiler True) None
     (CallExpr (FuncLit ''func0'') []) (BlockStmt [call ''A'']) None 0
   = Inr ([PyFunctionDef ''func0'' (Arguments [] []) [PyPass],
           PyIf (PyCall (PyName ''func0'') []) [PyExprStmt (PyCall (PyName ''A'') [])] []], 0)"
  by code_simp

text \<open>
  C2. Hoisted statements are to stand before the statement whose expression produced
  them; for a switch, what the tag expression hoists is to stand before the assignment of
  the tag. The lowering of the switch \<open>switch func0() { case 1: A() }\<close>, whose tag calls
  a function literal, is the assignment \<open>tag = func0()\<close>, then the hoisted definition of
  \<open>func0\<close>, then the conditional: the hoisted statement stands after the assignment.
\<close>

theorem compileSwitchStmt_tag_hoisted_after_assignment:
  "compileSwitchStmt (sampleEngine intOracle) (sampleCompiler True) None
     (Some (CallExpr (FuncLit ''func0'') [])) [CaseClause [BasicLit ''1''] [call ''A'']] 0
   = Inr ([PyAssign [PyName ''tag''] (PyCall (PyName ''func0'') []),
           PyFunctionDef ''func0'' (Arguments [] []) [PyPass],
           PyIf (PyCompareEq (PyName ''tag'') (PyNum ''1''))
             [PyExprStmt (PyCall (PyName ''A'') [])] []], 0)"
  by code_simp

section \<open>Defer statements\<close>

lemma defer_off: "\<not> global c \<Longrightarrow> compileDeferStmt eng c f args st = Inr ([], st)"
  by (simp add: compileDeferStmt_def)

lemma defer_on:
  assumes "global c" and "compileDeferStmt eng c f args st = Inr (out, st')"
  shows "\<exists>f' args' buf1 s1 buf.
      compileExpr eng c f ([], st) = Inr (f', (buf1, s1)) \<and>
      compileExprs eng c args (buf1, s1) = Inr (args', (buf, st')) \<and>
      out = buf @ [appendToList (defers c) (PyTuple [f', PyTuple args'])]"
  using assms
  by (auto simp: compileDeferStmt_def withExprCompiler_Inr bnd_Inr makeTuple_def)

lemma defer_on_returns:
  assumes "global c" and "compileExpr eng c f ([], st) = Inr (f', (buf1, s1))"
    and "compileExprs eng c args (buf1, s1) = Inr (args', (buf, st'))"
  shows "compileDeferStmt eng c f args st =
           Inr (buf @ [appendToList (defers c) (PyTuple [f', PyTuple args'])], st')"
  using assms
  by (simp add: compileDeferStmt_def withExprCompiler_def bnd_def makeTuple_def)

text \<open>
  C8. What a defer statement lowers to is decided by the flag \<open>global\<close> of the context,
  whatever its scope. With the flag clear it lowers to no statement and does not abort.
  With the flag set, whenever it returns, it lowers to the hoisted statements of the
  callee and the arguments followed by the append of the pair of the callee and the
  tuple of the arguments to the capture list of the context; and it returns whenever
  the engine lowers the callee and the arguments.
\<close>

theorem compileDeferStmt_gate:
  "(\<not> global c \<longrightarrow> compileDeferStmt eng c f args st = Inr ([], st)) \<and>
   (global c \<and> compileDeferStmt eng c f args st = Inr (out, st') \<longrightarrow>
      (\<exists>f' args' buf1 s1 buf.
         compileExpr eng c f ([], st) = Inr (f', (buf1, s1)) \<and>
         compileExprs eng c args (buf1, s1) = Inr (args', (buf, st')) \<and>
         out = buf @ [appendToList (defers c) (PyTuple [f', PyTuple args'])])) \<and>
   (global c \<and> compileExpr eng c f ([], st) = Inr (f', (buf1, s1)) \<and>
      compileExprs eng c args (buf1, s1) = Inr (args', (buf, st')) \<longrightarrow>
      compileDeferStmt eng c f args st =
        Inr (buf @ [appendToList (defers c) (PyTuple [f', PyTuple args'])], st'))"
  using defer_off [of c eng f args st] defer_on [of c eng f args st out st']
    defer_on_returns [of c eng f st f' buf1 s1 args args' buf st']
  by blast

theorem compileDeferStmt_gate_witness:
  "compileDeferStmt (sampleEngine intOracle) (NewXCompiler 1 False) (ident ''f'') [ident ''x''] 0
     = Inr ([], 0) \<and>
   compileDeferStmt (sampleEngine intOracle) ((NewXCompiler 1 True)\<lparr>defers := PyName ''defers''\<rparr>)
       (ident ''f'') [ident ''x''] 0
     = Inr ([] @ [appendToList (PyName ''defers'') (PyTuple [PyName ''f'', PyTuple [PyName ''x'']])], 0)"
proof
  let ?off = "NewXCompiler 1 False :: nat XCompiler"
  have "\<not> global ?off"
    by (simp add: NewXCompiler_def)
  with compileDeferStmt_gate [where c = ?off and eng = "sampleEngine intOracle"
      and f = "ident ''f''" and args = "[ident ''x'']" and st = 0]
  show "compileDeferStmt (sampleEngine intOracle) ?off (ident ''f'') [ident ''x''] 0 = Inr ([], 0)"
    by blast
next
  let ?on = "(NewXCompiler 1 True)\<lparr>defers := PyName ''defers''\<rparr> :: nat XCompiler"
  have g: "global ?on"
    by (simp add: NewXCompiler_def)
  have d: "defers ?on = PyName ''defers''"
    by simp
  have f: "compileExpr (sampleEngine intOracle) ?on (ident ''f'') ([], 0) = Inr (PyName ''f'', ([], 0))"
    by (simp add: sampleEngine_def ident_def)
  have a: "compileExprs (sampleEngine intOracle) ?on [ident ''x''] ([], 0)
             = Inr ([PyName ''x''], ([], 0))"
    by (simp add: sampleEngine_def ident_def)
  from compileDeferStmt_gate [where c = ?on and eng = "sampleEngine intOracle"
      and f = "ident ''f''" and args = "[ident ''x'']" and st = 0 and f' = "PyName ''f''"
      and ?buf1.0 = "[]" and ?s1.0 = 0 and args' = "[PyName ''x'']" and buf = "[]" and st' = 0]
    g f a
  have "compileDeferStmt (sampleEngine intOracle) ?on (ident ''f'') [ident ''x''] 0
     = Inr ([] @ [appendToList (defers ?on) (PyTuple [PyName ''f'', PyTuple [PyName ''x'']])], 0)"
    by blast
  then show "compileDeferStmt (sampleEngine intOracle) ?on (ident ''f'') [ident ''x''] 0
     = Inr ([] @ [appendToList (PyName ''defers'') (PyTuple [PyName ''f'', PyTuple [PyName ''x'']])], 0)"
    unfolding d .
qed

text \<open>
  A context that never went through \<open>nestedCompiler\<close> and has the flag set lowers a
  defer statement to an append (to the nil capture list); the nested context of a
  compiler with the flag clear lowers it to nothing.
\<close>

theorem compileDeferStmt_context_counterexample:
  "compileDeferStmt (sampleEngine intOracle) (NewXCompiler 0 True) (ident ''f'') [ident ''x''] 0
     = Inr ([PyExprStmt (PyCall (PyAttribute NilExpr ''append'')
                           [PyTuple [PyName ''f'', PyTuple [PyName ''x'']]])], 0) \<and>
   nestedCompiler (sampleEngine intOracle) (NewXCompiler 0 False) 0 = Inr (NewXCompiler 1 False, 0) \<and>
   compileDeferStmt (sampleEngine intOracle) (NewXCompiler 1 False) (ident ''f'') [ident ''x''] 0
     = Inr ([], 0)"
  by (simp add: compileDeferStmt_def nestedCompiler_def NewXCompiler_def sampleEngine_def
        withExprCompiler_def bnd_def appendToList_def makeTuple_def ident_def)

section \<open>Functions with deferred calls\<close>

lemma CompileFunc_params:
  "CompileFunc eng parent name params body isMethod recv =
     bnd (nestedCompiler eng parent) (\<lambda>c0.
     bnd (if global parent then
            (case body of None \<Rightarrow> panic NilDereference | Some b \<Rightarrow> addDefers eng c0 b)
          else ret (NilStmt, c0)) (\<lambda>(deferInit, c).
     bnd (loweredParams eng c isMethod recv params) (\<lambda>args.
     bnd (case body of None \<Rightarrow> panic NilDereference | Some b \<Rightarrow> compileStmts eng c b) (\<lambda>pyBody.
     bnd (if global parent \<and> deferInit \<noteq> NilStmt then
            bnd (tempID eng (scope c) ''fun'') (\<lambda>f.
            bnd (tempID eng (scope c) ''args'') (\<lambda>a.
            ret [deferInit,
                 PyTry pyBody []
                   [PyFor (makeTuple [PyName f, PyName a])
                          (PyCall (pyReversed eng) [defers c])
                          [PyExprStmt (PyCall (PyName f) [PyStarred (PyName a)])]]]))
          else ret pyBody) (\<lambda>pyBody'.
     ret (FunctionDef name (Arguments args [])
            (if length pyBody' = 0 then [PyPass] else pyBody')))))))"
  by (simp add: CompileFunc_def loweredParams_def bnd_assoc)

lemma nestedCompiler_Inr:
  "(nestedCompiler eng p s = Inr (c, s')) =
   (\<exists>sc. nested eng (scope p) s = Inr (sc, s') \<and> c = p\<lparr>scope := sc\<rparr>)"
  by (auto simp: nestedCompiler_def bnd_Inr)

lemma nestedCompiler_global: "nestedCompiler eng p s = Inr (c, s') \<Longrightarrow> global c = global p"
  by (auto simp: nestedCompiler_Inr)

lemma compileStmts_eachInOrder:
  "(compileStmts eng c body s = Inr (out, s')) =
   (\<exists>outs. eachInOrder (compileStmt eng c) body s = Inr (outs, s') \<and> out = concat outs)"
proof (induction body arbitrary: s out)
  case Nil
  then show ?case by auto
next
  case (Cons stmt rest)
  have "(compileStmts eng c (stmt # rest) s = Inr (out, s')) =
        (\<exists>o1 s1 o2. compileStmt eng c stmt s = Inr (o1, s1) \<and>
           compileStmts eng c rest s1 = Inr (o2, s') \<and> out = o1 @ o2)"
    by (auto simp: bnd_Inr)
  also have "\<dots> = (\<exists>o1 s1 o2 outs. compileStmt eng c stmt s = Inr (o1, s1) \<and>
           eachInOrder (compileStmt eng c) rest s1 = Inr (outs, s') \<and> o2 = concat outs \<and> out = o1 @ o2)"
    unfolding Cons.IH by blast
  also have "\<dots> = (\<exists>outs. eachInOrder (compileStmt eng c) (stmt # rest) s = Inr (outs, s') \<and>
           out = concat outs)"
    unfolding eachInOrder_Inr_Cons by auto
  finally show ?case .
qed

lemma compileStmt_defer_on:
  assumes "global c"
  shows "(compileStmt eng c (DeferStmt g gargs) s = Inr (out, s')) =
      (\<exists>g' b1 sm args' buf.
         compileExpr eng c g ([], s) = Inr (g', (b1, sm)) \<and>
         compileExprs eng c gargs (b1, sm) = Inr (args', (buf, s')) \<and>
         out = commentStmts c (DeferStmt g gargs) @ buf
                 @ [appendToList (defers c) (PyTuple [g', PyTuple args'])])"
  using assms
  by (auto simp: withComments_def compileDeferStmt_def withExprCompiler_Inr bnd_Inr makeTuple_def)

lemma compileStmt_defer_off:
  assumes "\<not> global c"
  shows "compileStmt eng c (DeferStmt g gargs) s = Inr ([], s)"
  using assms
  by (simp add: withComments_def compileDeferStmt_def commentStmts_def bnd_def)

lemma CompileFunc_with_defers:
  assumes g: "global parent" and d: "inspectDefer (BlockStmt body)"
  shows "(CompileFunc eng parent name params (Some body) isMethod recv st = Inr (fd, st')) =
      (\<exists>c0 s0 list s1 fc args s2 pyBody s3 f s4 a.
         nestedCompiler eng parent st = Inr (c0, s0) \<and>
         tempID eng (scope c0) ''defers'' s0 = Inr (list, s1) \<and>
         fc = c0\<lparr>defers := PyName list\<rparr> \<and> global fc \<and>
         loweredParams eng fc isMethod recv params s1 = Inr (args, s2) \<and>
         compileStmts eng fc body s2 = Inr (pyBody, s3) \<and>
         tempID eng (scope fc) ''fun'' s3 = Inr (f, s4) \<and>
         tempID eng (scope fc) ''args'' s4 = Inr (a, st') \<and>
         fd = FunctionDef name (Arguments args [])
                [PyAssign [PyName list] (PyList []),
                 PyTry pyBody []
                   [PyFor (PyTuple [PyName f, PyName a]) (PyCall (pyReversed eng) [PyName list])
                      [PyExprStmt (PyCall (PyName f) [PyStarred (PyName a)])]]])"
proof (cases "nestedCompiler eng parent st")
  case (Inl e)
  then show ?thesis by (simp add: CompileFunc_params bnd_def)
next
  case (Inr r)
  obtain c0 s0 where r: "r = (c0, s0)" by (cases r)
  have gc0: "global c0"
    using Inr r g nestedCompiler_global [of eng parent st c0 s0] by simp
  have ad: "addDefers eng c0 body =
      bnd (tempID eng (scope c0) ''defers'') (\<lambda>d.
        ret (PyAssign [PyName d] (PyList []), c0\<lparr>defers := PyName d\<rparr>))"
    using gc0 d by (simp add: addDefers_def)
  show ?thesis
    using Inr r g gc0
    apply (simp add: CompileFunc_params bnd_step [where m = "nestedCompiler eng parent"] ad bnd_assoc)
    apply (auto simp: bnd_Inr makeTuple_def)
    done
qed

lemma CompileFunc_flag_clear:
  assumes g: "\<not> global parent"
  shows "(CompileFunc eng parent name params (Some body) isMethod recv st = Inr (fd, st')) =
      (\<exists>fc s0 args s1 pyBody.
         nestedCompiler eng parent st = Inr (fc, s0) \<and> \<not> global fc \<and>
         loweredParams eng fc isMethod recv params s0 = Inr (args, s1) \<and>
         compileStmts eng fc body s1 = Inr (pyBody, st') \<and>
         fd = FunctionDef name (Arguments args []) (if pyBody = [] then [PyPass] else pyBody))"
proof (cases "nestedCompiler eng parent st")
  case (Inl e)
  then show ?thesis by (simp add: CompileFunc_params bnd_def)
next
  case (Inr r)
  obtain c0 s0 where r: "r = (c0, s0)" by (cases r)
  have gc0: "\<not> global c0"
    using Inr r g nestedCompiler_global [of eng parent st c0 s0] by simp
  show ?thesis
    using Inr r g gc0
    apply (simp add: CompileFunc_params bnd_step [where m = "nestedCompiler eng parent"])
    apply (auto simp: bnd_Inr)
    done
qed


lemma compileStmts_three:
  "(compileStmts eng c [x1, x2, x3] s = Inr (out, s')) =
   (\<exists>o1 t1 o2 t2 o3.
      compileStmt eng c x1 s = Inr (o1, t1) \<and>
      compileStmt eng c x2 t1 = Inr (o2, t2) \<and>
      compileStmt eng c x3 t2 = Inr (o3, s') \<and>
      out = o1 @ o2 @ o3)"
  by (auto simp: bnd_Inr simp del: compileStmt.simps)

lemma three_defers_in_order:
  assumes "global c"
  shows "(compileStmts eng c [DeferStmt g1 a1, DeferStmt g2 a2, DeferStmt g3 a3] s = Inr (out, s')) =
   (\<exists>f1 b1 m1 x1 h1 t1 f2 b2 m2 x2 h2 t2 f3 b3 m3 x3 h3.
      compileExpr eng c g1 ([], s) = Inr (f1, (b1, m1)) \<and>
      compileExprs eng c a1 (b1, m1) = Inr (x1, (h1, t1)) \<and>
      compileExpr eng c g2 ([], t1) = Inr (f2, (b2, m2)) \<and>
      compileExprs eng c a2 (b2, m2) = Inr (x2, (h2, t2)) \<and>
      compileExpr eng c g3 ([], t2) = Inr (f3, (b3, m3)) \<and>
      compileExprs eng c a3 (b3, m3) = Inr (x3, (h3, s')) \<and>
      out = (commentStmts c (DeferStmt g1 a1) @ h1
               @ [appendToList (defers c) (PyTuple [f1, PyTuple x1])])
          @ (commentStmts c (DeferStmt g2 a2) @ h2
               @ [appendToList (defers c) (PyTuple [f2, PyTuple x2])])
          @ (commentStmts c (DeferStmt g3 a3) @ h3
               @ [appendToList (defers c) (PyTuple [f3, PyTuple x3])]))"
  unfolding compileStmts_three compileStmt_defer_on [OF assms]
  by blast

text \<open>
  C3. A function whose parent context has the flag \<open>global\<close> set and whose body holds a
  defer statement lowers exactly when the steps of \<open>CompileFunc\<close> succeed one after the
  other, and then to a function of two statements: the assignment of the empty list to
  the capture list, a fresh name, and a protected region whose body is the lowered body
  and whose final block is one loop, over \<open>pyReversed\<close> of the capture list, that calls
  each captured callable with its captured arguments. The body is lowered statement by
  statement, in order, in the context of that capture list; and in a context with the
  flag set a defer statement lowers to its comments, the statements hoisted for its
  callable and its arguments, and the append of the pair of the lowered callable and the
  tuple of the lowered arguments to the capture list of the context. So three defer
  statements \<open>d1; d2; d3\<close> lower to the append of the pair of \<open>d1\<close>, then that of
  \<open>d2\<close>, then that of \<open>d3\<close>, each after its comments and hoisted statements, and the
  loop goes through what \<open>pyReversed\<close> makes of the list. With the flag of the parent
  clear the function body is the lowered body alone, without capture list or protected
  region, and every defer statement lowers to nothing.
\<close>

theorem CompileFunc_defers:
  "(global parent \<and> inspectDefer (BlockStmt body) \<longrightarrow>
      (CompileFunc eng parent name params (Some body) isMethod recv st = Inr (fd, st')) =
      (\<exists>c0 s0 list s1 fc args s2 pyBody s3 f s4 a.
         nestedCompiler eng parent st = Inr (c0, s0) \<and>
         tempID eng (scope c0) ''defers'' s0 = Inr (list, s1) \<and>
         fc = c0\<lparr>defers := PyName list\<rparr> \<and> global fc \<and>
         loweredParams eng fc isMethod recv params s1 = Inr (args, s2) \<and>
         compileStmts eng fc body s2 = Inr (pyBody, s3) \<and>
         tempID eng (scope fc) ''fun'' s3 = Inr (f, s4) \<and>
         tempID eng (scope fc) ''args'' s4 = Inr (a, st') \<and>
         fd = FunctionDef name (Arguments args [])
                [PyAssign [PyName list] (PyList []),
                 PyTry pyBody []
                   [PyFor (PyTuple [PyName f, PyName a]) (PyCall (pyReversed eng) [PyName list])
                      [PyExprStmt (PyCall (PyName f) [PyStarred (PyName a)])]]])) \<and>
   ((compileStmts eng c stmts s = Inr (out, s')) =
      (\<exists>outs. eachInOrder (compileStmt eng c) stmts s = Inr (outs, s') \<and> out = concat outs)) \<and>
   (global c \<longrightarrow>
      (compileStmt eng c (DeferStmt g gargs) s = Inr (out, s')) =
      (\<exists>g' b1 sm args' buf.
         compileExpr eng c g ([], s) = Inr (g', (b1, sm)) \<and>
         compileExprs eng c gargs (b1, sm) = Inr (args', (buf, s')) \<and>
         out = commentStmts c (DeferStmt g gargs) @ buf
                 @ [appendToList (defers c) (PyTuple [g', PyTuple args'])])) \<and>
   (global c \<longrightarrow>
      (compileStmts eng c [DeferStmt g1 a1, DeferStmt g2 a2, DeferStmt g3 a3] s = Inr (out, s')) =
      (\<exists>f1 b1 m1 x1 h1 t1 f2 b2 m2 x2 h2 t2 f3 b3 m3 x3 h3.
         compileExpr eng c g1 ([], s) = Inr (f1, (b1, m1)) \<and>
         compileExprs eng c a1 (b1, m1) = Inr (x1, (h1, t1)) \<and>
         compileExpr eng c g2 ([], t1) = Inr (f2, (b2, m2)) \<and>
         compileExprs eng c a2 (b2, m2) = Inr (x2, (h2, t2)) \<and>
         compileExpr eng c g3 ([], t2) = Inr (f3, (b3, m3)) \<and>
         compileExprs eng c a3 (b3, m3) = Inr (x3, (h3, s')) \<and>
         out = (commentStmts c (DeferStmt g1 a1) @ h1
                  @ [appendToList (defers c) (PyTuple [f1, PyTuple x1])])
             @ (commentStmts c (DeferStmt g2 a2) @ h2
                  @ [appendToList (defers c) (PyTuple [f2, PyTuple x2])])
             @ (commentStmts c (DeferStmt g3 a3) @ h3
                  @ [appendToList (defers c) (PyTuple [f3, PyTuple x3])]))) \<and>
   (\<not> global parent \<longrightarrow>
      (CompileFunc eng parent name params (Some body) isMethod recv st = Inr (fd, st')) =
      (\<exists>fc s0 args s1 pyBody.
         nestedCompiler eng parent st = Inr (fc, s0) \<and> \<not> global fc \<and>
         loweredParams eng fc isMethod recv params s0 = Inr (args, s1) \<and>
         compileStmts eng fc body s1 = Inr (pyBody, st') \<and>
         fd = FunctionDef name (Arguments args []) (if pyBody = [] then [PyPass] else pyBody))) \<and>
   (\<not> global c \<longrightarrow> compileStmt eng c (DeferStmt g gargs) s = Inr ([], s))"
proof (intro conjI impI)
  assume "global parent \<and> inspectDefer (BlockStmt body)"
  then have g: "global parent" and d: "inspectDefer (BlockStmt body)"
    by simp_all
  show "(CompileFunc eng parent name params (Some body) isMethod recv st = Inr (fd, st')) =
      (\<exists>c0 s0 list s1 fc args s2 pyBody s3 f s4 a.
         nestedCompiler eng parent st = Inr (c0, s0) \<and>
         tempID eng (scope c0) ''defers'' s0 = Inr (list, s1) \<and>
         fc = c0\<lparr>defers := PyName list\<rparr> \<and> global fc \<and>
         loweredParams eng fc isMethod recv params s1 = Inr (args, s2) \<and>
         compileStmts eng fc body s2 = Inr (pyBody, s3) \<and>
         tempID eng (scope fc) ''fun'' s3 = Inr (f, s4) \<and>
         tempID eng (scope fc) ''args'' s4 = Inr (a, st') \<and>
         fd = FunctionDef name (Arguments args [])
                [PyAssign [PyName list] (PyList []),
                 PyTry pyBody []
                   [PyFor (PyTuple [PyName f, PyName a]) (PyCall (pyReversed eng) [PyName list])
                      [PyExprStmt (PyCall (PyName f) [PyStarred (PyName a)])]]])"
    by (rule CompileFunc_with_defers [OF g d])
next
  show "(compileStmts eng c stmts s = Inr (out, s')) =
      (\<exists>outs. eachInOrder (compileStmt eng c) stmts s = Inr (outs, s') \<and> out = concat outs)"
    by (rule compileStmts_eachInOrder)
next
  assume "global c"
  then show "(compileStmt eng c (DeferStmt g gargs) s = Inr (out, s')) =
      (\<exists>g' b1 sm args' buf.
         compileExpr eng c g ([], s) = Inr (g', (b1, sm)) \<and>
         compileExprs eng c gargs (b1, sm) = Inr (args', (buf, s')) \<and>
         out = commentStmts c (DeferStmt g gargs) @ buf
                 @ [appendToList (defers c) (PyTuple [g', PyTuple args'])])"
    by (rule compileStmt_defer_on)
next
  assume "global c"
  then show "(compileStmts eng c [DeferStmt g1 a1, DeferStmt g2 a2, DeferStmt g3 a3] s = Inr (out, s')) =
      (\<exists>f1 b1 m1 x1 h1 t1 f2 b2 m2 x2 h2 t2 f3 b3 m3 x3 h3.
         compileExpr eng c g1 ([], s) = Inr (f1, (b1, m1)) \<and>
         compileExprs eng c a1 (b1, m1) = Inr (x1, (h1, t1)) \<and>
         compileExpr eng c g2 ([], t1) = Inr (f2, (b2, m2)) \<and>
         compileExprs eng c a2 (b2, m2) = Inr (x2, (h2, t2)) \<and>
         compileExpr eng c g3 ([], t2) = Inr (f3, (b3, m3)) \<and>
         compileExprs eng c a3 (b3, m3) = Inr (x3, (h3, s')) \<and>
         out = (commentStmts c (DeferStmt g1 a1) @ h1
                  @ [appendToList (defers c) (PyTuple [f1, PyTuple x1])])
             @ (commentStmts c (DeferStmt g2 a2) @ h2
                  @ [appendToList (defers c) (PyTuple [f2, PyTuple x2])])
             @ (commentStmts c (DeferStmt g3 a3) @ h3
                  @ [appendToList (defers c) (PyTuple [f3, PyTuple x3])]))"
    by (rule three_defers_in_order)
next
  assume "\<not> global parent"
  then show "(CompileFunc eng parent name params (Some body) isMethod recv st = Inr (fd, st')) =
      (\<exists>fc s0 args s1 pyBody.
         nestedCompiler eng parent st = Inr (fc, s0) \<and> \<not> global fc \<and>
         loweredParams eng fc isMethod recv params s0 = Inr (args, s1) \<and>
         compileStmts eng fc body s1 = Inr (pyBody, st') \<and>
         fd = FunctionDef name (Arguments args []) (if pyBody = [] then [PyPass] else pyBody))"
    by (rule CompileFunc_flag_clear)
next
  assume "\<not> global c"
  then show "compileStmt eng c (DeferStmt g gargs) s = Inr ([], s)"
    by (rule compileStmt_defer_off)
qed

lemma sample_three_defers:
  "CompileFunc (sampleEngine intOracle) (sampleCompiler True) ''fn'' [] (Some threeDefers) False None 0
   = Inr (FunctionDef ''fn'' (Arguments [] [])
       [PyAssign [PyName ''defers''] (PyList []),
        PyTry [appendToList (PyName ''defers'') (PyTuple [PyName ''f'', PyTuple [PyName ''x'']]),
               appendToList (PyName ''defers'') (PyTuple [PyName ''g'', PyTuple [PyName ''y'']]),
               appendToList (PyName ''defers'') (PyTuple [PyName ''h'', PyTuple [PyName ''z'']])]
          []
          [PyFor (PyTuple [PyName ''fun'', PyName ''args''])
             (PyCall (PyName ''reversed'') [PyName ''defers''])
             [PyExprStmt (PyCall (PyName ''fun'') [PyStarred (PyName ''args'')])]]], 3)"
  by code_simp

lemma sample_three_defers_flag_clear:
  "CompileFunc (sampleEngine intOracle) (sampleCompiler False) ''fn'' [] (Some threeDefers) False None 0
   = Inr (FunctionDef ''fn'' (Arguments [] []) [PyPass], 0)"
  by code_simp

lemma sample_defer_statement:
  "compileStmt (sampleEngine intOracle) ((NewXCompiler 1 True)\<lparr>defers := PyName ''defers''\<rparr>)
     (DeferStmt (ident ''g'') [ident ''y'']) 1
   = Inr ([appendToList (PyName ''defers'') (PyTuple [PyName ''g'', PyTuple [PyName ''y'']])], 1)"
  by code_simp

lemma sample_three_defer_statements:
  "compileStmts (sampleEngine intOracle) ((NewXCompiler (1 :: nat) True)\<lparr>defers := PyName ''defers''\<rparr>)
     [DeferStmt (ident ''f'') [ident ''x''], DeferStmt (ident ''g'') [ident ''y''],
      DeferStmt (ident ''h'') [ident ''z'']] 1
   = Inr ([appendToList (PyName ''defers'') (PyTuple [PyName ''f'', PyTuple [PyName ''x'']]),
           appendToList (PyName ''defers'') (PyTuple [PyName ''g'', PyTuple [PyName ''y'']]),
           appendToList (PyName ''defers'') (PyTuple [PyName ''h'', PyTuple [PyName ''z'']])], 1)"
  by code_simp

theorem CompileFunc_defers_witness:
  "(\<exists>c0 s0 list s1 fc args s2 pyBody s3 f s4 a.
      nestedCompiler (sampleEngine intOracle) (sampleCompiler True) 0 = Inr (c0, s0) \<and>
      tempID (sampleEngine intOracle) (scope c0) ''defers'' s0 = Inr (list, s1) \<and>
      fc = c0\<lparr>defers := PyName list\<rparr> \<and> global fc \<and>
      loweredParams (sampleEngine intOracle) fc False None [] s1 = Inr (args, s2) \<and>
      compileStmts (sampleEngine intOracle) fc threeDefers s2 = Inr (pyBody, s3) \<and>
      tempID (sampleEngine intOracle) (scope fc) ''fun'' s3 = Inr (f, s4) \<and>
      tempID (sampleEngine intOracle) (scope fc) ''args'' s4 = Inr (a, 3) \<and>
      FunctionDef ''fn'' (Arguments [] [])
       [PyAssign [PyName ''defers''] (PyList []),
        PyTry [appendToList (PyName ''defers'') (PyTuple [PyName ''f'', PyTuple [PyName ''x'']]),
               appendToList (PyName ''defers'') (PyTuple [PyName ''g'', PyTuple [PyName ''y'']]),
               appendToList (PyName ''defers'') (PyTuple [PyName ''h'', PyTuple [PyName ''z'']])]
          []
          [PyFor (PyTuple [PyName ''fun'', PyName ''args''])
             (PyCall (PyName ''reversed'') [PyName ''defers''])
             [PyExprStmt (PyCall (PyName ''fun'') [PyStarred (PyName ''args'')])]]]
      = FunctionDef ''fn'' (Arguments args [])
          [PyAssign [PyName list] (PyList []),
           PyTry pyBody []
             [PyFor (PyTuple [PyName f, PyName a])
                (PyCall (pyReversed (sampleEngine intOracle)) [PyName list])
                [PyExprStmt (PyCall (PyName f) [PyStarred (PyName a)])]]]) \<and>
   (\<exists>g' b1 sm args' buf.
      compileExpr (sampleEngine intOracle) ((NewXCompiler (1 :: nat) True)\<lparr>defers := PyName ''defers''\<rparr>)
        (ident ''g'') ([], 1) = Inr (g', (b1, sm)) \<and>
      compileExprs (sampleEngine intOracle) ((NewXCompiler (1 :: nat) True)\<lparr>defers := PyName ''defers''\<rparr>)
        [ident ''y''] (b1, sm) = Inr (args', (buf, 1)) \<and>
      [appendToList (PyName ''defers'') (PyTuple [PyName ''g'', PyTuple [PyName ''y'']])]
        = commentStmts ((NewXCompiler (1 :: nat) True)\<lparr>defers := PyName ''defers''\<rparr>)
            (DeferStmt (ident ''g'') [ident ''y'']) @ buf
          @ [appendToList (defers ((NewXCompiler (1 :: nat) True)\<lparr>defers := PyName ''defers''\<rparr>))
               (PyTuple [g', PyTuple args'])]) \<and>
   (\<exists>f1 b1 m1 x1 h1 t1 f2 b2 m2 x2 h2 t2 f3 b3 m3 x3 h3.
      compileExpr (sampleEngine intOracle) ((NewXCompiler (1 :: nat) True)\<lparr>defers := PyName ''defers''\<rparr>) (ident ''f'') ([], 1) = Inr (f1, (b1, m1)) \<and>
      compileExprs (sampleEngine intOracle) ((NewXCompiler (1 :: nat) True)\<lparr>defers := PyName ''defers''\<rparr>) [ident ''x''] (b1, m1) = Inr (x1, (h1, t1)) \<and>
      compileExpr (sampleEngine intOracle) ((NewXCompiler (1 :: nat) True)\<lparr>defers := PyName ''defers''\<rparr>) (ident ''g'') ([], t1) = Inr (f2, (b2, m2)) \<and>
      compileExprs (sampleEngine intOracle) ((NewXCompiler (1 :: nat) True)\<lparr>defers := PyName ''defers''\<rparr>) [ident ''y''] (b2, m2) = Inr (x2, (h2, t2)) \<and>
      compileExpr (sampleEngine intOracle) ((NewXCompiler (1 :: nat) True)\<lparr>defers := PyName ''defers''\<rparr>) (ident ''h'') ([], t2) = Inr (f3, (b3, m3)) \<and>
      compileExprs (sampleEngine intOracle) ((NewXCompiler (1 :: nat) True)\<lparr>defers := PyName ''defers''\<rparr>) [ident ''z''] (b3, m3) = Inr (x3, (h3, 1)) \<and>
      [appendToList (PyName ''defers'') (PyTuple [PyName ''f'', PyTuple [PyName ''x'']]),
       appendToList (PyName ''defers'') (PyTuple [PyName ''g'', PyTuple [PyName ''y'']]),
       appendToList (PyName ''defers'') (PyTuple [PyName ''h'', PyTuple [PyName ''z'']])]
        = (commentStmts ((NewXCompiler (1 :: nat) True)\<lparr>defers := PyName ''defers''\<rparr>) (DeferStmt (ident ''f'') [ident ''x'']) @ h1
             @ [appendToList (defers ((NewXCompiler (1 :: nat) True)\<lparr>defers := PyName ''defers''\<rparr>)) (PyTuple [f1, PyTuple x1])])
        @ (commentStmts ((NewXCompiler (1 :: nat) True)\<lparr>defers := PyName ''defers''\<rparr>) (DeferStmt (ident ''g'') [ident ''y'']) @ h2
             @ [appendToList (defers ((NewXCompiler (1 :: nat) True)\<lparr>defers := PyName ''defers''\<rparr>)) (PyTuple [f2, PyTuple x2])])
        @ (commentStmts ((NewXCompiler (1 :: nat) True)\<lparr>defers := PyName ''defers''\<rparr>) (DeferStmt (ident ''h'') [ident ''z'']) @ h3
             @ [appendToList (defers ((NewXCompiler (1 :: nat) True)\<lparr>defers := PyName ''defers''\<rparr>)) (PyTuple [f3, PyTuple x3])])) \<and>
   (\<exists>fc s0 args s1 pyBody.
      nestedCompiler (sampleEngine intOracle) (sampleCompiler False) 0 = Inr (fc, s0) \<and> \<not> global fc \<and>
      loweredParams (sampleEngine intOracle) fc False None [] s0 = Inr (args, s1) \<and>
      compileStmts (sampleEngine intOracle) fc threeDefers s1 = Inr (pyBody, 0) \<and>
      FunctionDef ''fn'' (Arguments [] []) [PyPass]
        = FunctionDef ''fn'' (Arguments args []) (if pyBody = [] then [PyPass] else pyBody)) \<and>
   compileStmt (sampleEngine intOracle) (NewXCompiler 1 False) (DeferStmt (ident ''g'') [ident ''y'']) 7
     = Inr ([], 7)"
proof (intro conjI)
  have g: "global (sampleCompiler True)"
    by (simp add: sampleCompiler_def NewXCompiler_def)
  have d: "inspectDefer (BlockStmt threeDefers)"
    by (simp add: threeDefers_def)
  from CompileFunc_defers [where parent = "sampleCompiler True" and body = threeDefers
      and eng = "sampleEngine intOracle" and name = "''fn''" and params = "[]" and isMethod = False
      and recv = None and st = 0 and st' = 3
      and fd = "FunctionDef ''fn'' (Arguments [] [])
       [PyAssign [PyName ''defers''] (PyList []),
        PyTry [appendToList (PyName ''defers'') (PyTuple [PyName ''f'', PyTuple [PyName ''x'']]),
               appendToList (PyName ''defers'') (PyTuple [PyName ''g'', PyTuple [PyName ''y'']]),
               appendToList (PyName ''defers'') (PyTuple [PyName ''h'', PyTuple [PyName ''z'']])]
          []
          [PyFor (PyTuple [PyName ''fun'', PyName ''args''])
             (PyCall (PyName ''reversed'') [PyName ''defers''])
             [PyExprStmt (PyCall (PyName ''fun'') [PyStarred (PyName ''args'')])]]]",
      THEN conjunct1]
    g d sample_three_defers
  show "\<exists>c0 s0 list s1 fc args s2 pyBody s3 f s4 a.
      nestedCompiler (sampleEngine intOracle) (sampleCompiler True) 0 = Inr (c0, s0) \<and>
      tempID (sampleEngine intOracle) (scope c0) ''defers'' s0 = Inr (list, s1) \<and>
      fc = c0\<lparr>defers := PyName list\<rparr> \<and> global fc \<and>
      loweredParams (sampleEngine intOracle) fc False None [] s1 = Inr (args, s2) \<and>
      compileStmts (sampleEngine intOracle) fc threeDefers s2 = Inr (pyBody, s3) \<and>
      tempID (sampleEngine intOracle) (scope fc) ''fun'' s3 = Inr (f, s4) \<and>
      tempID (sampleEngine intOracle) (scope fc) ''args'' s4 = Inr (a, 3) \<and>
      FunctionDef ''fn'' (Arguments [] [])
       [PyAssign [PyName ''defers''] (PyList []),
        PyTry [appendToList (PyName ''defers'') (PyTuple [PyName ''f'', PyTuple [PyName ''x'']]),
               appendToList (PyName ''defers'') (PyTuple [PyName ''g'', PyTuple [PyName ''y'']]),
               appendToList (PyName ''defers'') (PyTuple [PyName ''h'', PyTuple [PyName ''z'']])]
          []
          [PyFor (PyTuple [PyName ''fun'', PyName ''args''])
             (PyCall (PyName ''reversed'') [PyName ''defers''])
             [PyExprStmt (PyCall (PyName ''fun'') [PyStarred (PyName ''args'')])]]]
      = FunctionDef ''fn'' (Arguments args [])
          [PyAssign [PyName list] (PyList []),
           PyTry pyBody []
             [PyFor (PyTuple [PyName f, PyName a])
                (PyCall (pyReversed (sampleEngine intOracle)) [PyName list])
                [PyExprStmt (PyCall (PyName f) [PyStarred (PyName a)])]]]"
    by blast
next
  let ?c = "(NewXCompiler (1 :: nat) True)\<lparr>defers := PyName ''defers''\<rparr> :: nat XCompiler"
  have g: "global ?c"
    by (simp add: NewXCompiler_def)
  have d: "defers ?c = PyName ''defers''"
    by simp
  from CompileFunc_defers [where c = ?c and eng = "sampleEngine intOracle" and g = "ident ''g''"
      and gargs = "[ident ''y'']" and s = 1 and s' = 1
      and out = "[appendToList (PyName ''defers'') (PyTuple [PyName ''g'', PyTuple [PyName ''y'']])]",
      THEN conjunct2, THEN conjunct2, THEN conjunct1]
    g sample_defer_statement
  show "\<exists>g' b1 sm args' buf.
      compileExpr (sampleEngine intOracle) ?c (ident ''g'') ([], 1) = Inr (g', (b1, sm)) \<and>
      compileExprs (sampleEngine intOracle) ?c [ident ''y''] (b1, sm) = Inr (args', (buf, 1)) \<and>
      [appendToList (PyName ''defers'') (PyTuple [PyName ''g'', PyTuple [PyName ''y'']])]
        = commentStmts ?c (DeferStmt (ident ''g'') [ident ''y'']) @ buf
          @ [appendToList (defers ?c) (PyTuple [g', PyTuple args'])]"
    by blast
next
  let ?c = "(NewXCompiler (1 :: nat) True)\<lparr>defers := PyName ''defers''\<rparr> :: nat XCompiler"
  have g: "global ?c"
    by (simp add: NewXCompiler_def)
  from CompileFunc_defers [where c = ?c and eng = "sampleEngine intOracle"
      and ?g1.0 = "ident ''f''" and ?a1.0 = "[ident ''x'']"
      and ?g2.0 = "ident ''g''" and ?a2.0 = "[ident ''y'']"
      and ?g3.0 = "ident ''h''" and ?a3.0 = "[ident ''z'']" and s = 1 and s' = 1
      and out = "[appendToList (PyName ''defers'') (PyTuple [PyName ''f'', PyTuple [PyName ''x'']]),
       appendToList (PyName ''defers'') (PyTuple [PyName ''g'', PyTuple [PyName ''y'']]),
       appendToList (PyName ''defers'') (PyTuple [PyName ''h'', PyTuple [PyName ''z'']])]",
      THEN conjunct2, THEN conjunct2, THEN conjunct2, THEN conjunct1]
    g sample_three_defer_statements
  show "\<exists>f1 b1 m1 x1 h1 t1 f2 b2 m2 x2 h2 t2 f3 b3 m3 x3 h3.
      compileExpr (sampleEngine intOracle) ?c (ident ''f'') ([], 1) = Inr (f1, (b1, m1)) \<and>
      compileExprs (sampleEngine intOracle) ?c [ident ''x''] (b1, m1) = Inr (x1, (h1, t1)) \<and>
      compileExpr (sampleEngine intOracle) ?c (ident ''g'') ([], t1) = Inr (f2, (b2, m2)) \<and>
      compileExprs (sampleEngine intOracle) ?c [ident ''y''] (b2, m2) = Inr (x2, (h2, t2)) \<and>
      compileExpr (sampleEngine intOracle) ?c (ident ''h'') ([], t2) = Inr (f3, (b3, m3)) \<and>
      compileExprs (sampleEngine intOracle) ?c [ident ''z''] (b3, m3) = Inr (x3, (h3, 1)) \<and>
      [appendToList (PyName ''defers'') (PyTuple [PyName ''f'', PyTuple [PyName ''x'']]),
       appendToList (PyName ''defers'') (PyTuple [PyName ''g'', PyTuple [PyName ''y'']]),
       appendToList (PyName ''defers'') (PyTuple [PyName ''h'', PyTuple [PyName ''z'']])]
        = (commentStmts ?c (DeferStmt (ident ''f'') [ident ''x'']) @ h1
             @ [appendToList (defers ?c) (PyTuple [f1, PyTuple x1])])
        @ (commentStmts ?c (DeferStmt (ident ''g'') [ident ''y'']) @ h2
             @ [appendToList (defers ?c) (PyTuple [f2, PyTuple x2])])
        @ (commentStmts ?c (DeferStmt (ident ''h'') [ident ''z'']) @ h3
             @ [appendToList (defers ?c) (PyTuple [f3, PyTuple x3])])"
    by blast
next
  have g: "\<not> global (sampleCompiler False)"
    by (simp add: sampleCompiler_def NewXCompiler_def)
  from CompileFunc_defers [where parent = "sampleCompiler False" and body = threeDefers
      and eng = "sampleEngine intOracle" and name = "''fn''" and params = "[]" and isMethod = False
      and recv = None and st = 0 and st' = 0
      and fd = "FunctionDef ''fn'' (Arguments [] []) [PyPass]",
      THEN conjunct2, THEN conjunct2, THEN conjunct2, THEN conjunct2, THEN conjunct1]
    g sample_three_defers_flag_clear
  show "\<exists>fc s0 args s1 pyBody.
      nestedCompiler (sampleEngine intOracle) (sampleCompiler False) 0 = Inr (fc, s0) \<and> \<not> global fc \<and>
      loweredParams (sampleEngine intOracle) fc False None [] s0 = Inr (args, s1) \<and>
      compileStmts (sampleEngine intOracle) fc threeDefers s1 = Inr (pyBody, 0) \<and>
      FunctionDef ''fn'' (Arguments [] []) [PyPass]
        = FunctionDef ''fn'' (Arguments args []) (if pyBody = [] then [PyPass] else pyBody)"
    by blast
next
  have g: "\<not> global (NewXCompiler 1 False :: nat XCompiler)"
    by (simp add: NewXCompiler_def)
  from CompileFunc_defers [where c = "NewXCompiler 1 False" and eng = "sampleEngine intOracle"
      and g = "ident ''g''" and gargs = "[ident ''y'']" and s = 7,
      THEN conjunct2, THEN conjunct2, THEN conjunct2, THEN conjunct2, THEN conjunct2] g
  show "compileStmt (sampleEngine intOracle) (NewXCompiler 1 False) (DeferStmt (ident ''g'') [ident ''y'']) 7
     = Inr ([], 7)"
    by blast
qed

text \<open>
  With the flag clear a function body of three defer statements lowers to a function
  with neither capture list nor protected region: its defer statements lower to nothing.
\<close>

theorem CompileFunc_defers_counterexample:
  "CompileFunc (sampleEngine intOracle) (sampleCompiler False) ''fn'' [] (Some threeDefers) False None 0
   = Inr (FunctionDef ''fn'' (Arguments [] []) [PyPass], 0)"
  by code_simp

section \<open>Zero values\<close>

lemma digitValue_digitChar: "d < 10 \<Longrightarrow> digitValue (digitChar d) = d"
proof -
  assume "d < 10"
  then have "d \<in> {0, 1, 2, 3, 4, 5, 6, 7, 8, 9}" by auto
  then show ?thesis
    by (auto simp: digitValue_def digitChar_def)
qed

lemma decimalValue_formatNat: "decimalValue (formatNat n) = n"
proof (induction n rule: formatNat.induct)
  case (1 n)
  show ?case
  proof (cases "n < 10")
    case True
    then show ?thesis
      by (subst formatNat.simps) (simp add: decimalValue_def digitValue_digitChar)
  next
    case False
    with 1 have "decimalValue (formatNat (n div 10)) = n div 10" by simp
    with False show ?thesis
      by (subst formatNat.simps) (simp add: decimalValue_def digitValue_digitChar)
  qed
qed

lemma zeroValue_defined: "(\<exists>e. zeroValue eng t = Inr e) = hasZeroValue t"
  by (induction t) (auto split: sum.splits)

text \<open>
  C6. \<open>zeroValue\<close> is a function of the type alone: it takes no naming state and returns
  none. Pointer, slice, map, function, interface, struct and channel types give the
  absent value; a basic type gives the empty string literal if it is a string, else the
  false literal if it is boolean, else \<open>0\<close> if it is an integer, else \<open>0.0\<close> if it is a
  float or complex; a named type gives the call of its name without arguments; an array
  of length \<open>n\<close> gives the list comprehension of the zero value of its element type over
  \<open>range(n)\<close>, where the bound is the decimal numeral of \<open>n\<close>. It is defined exactly on
  the types of \<open>hasZeroValue\<close>, and aborts on every other type.
\<close>

theorem zeroValue_categories:
  "zeroValue eng (Pointer t) = Inr (pyNone eng) \<and>
   zeroValue eng (Slice t) = Inr (pyNone eng) \<and>
   zeroValue eng (MapType k v) = Inr (pyNone eng) \<and>
   zeroValue eng Signature = Inr (pyNone eng) \<and>
   zeroValue eng Interface = Inr (pyNone eng) \<and>
   zeroValue eng (Struct flds) = Inr (pyNone eng) \<and>
   zeroValue eng (Chan t) = Inr (pyNone eng) \<and>
   (info AND IsString \<noteq> 0 \<longrightarrow> zeroValue eng (Basic info) = Inr (PyStr [dquote, dquote])) \<and>
   (info AND IsString = 0 \<and> info AND IsBoolean \<noteq> 0 \<longrightarrow>
      zeroValue eng (Basic info) = Inr PyNameConstantFalse) \<and>
   (info AND IsString = 0 \<and> info AND IsBoolean = 0 \<and> info AND IsInteger \<noteq> 0 \<longrightarrow>
      zeroValue eng (Basic info) = Inr (PyNum ''0'')) \<and>
   (info AND IsString = 0 \<and> info AND IsBoolean = 0 \<and> info AND IsInteger = 0 \<and>
      (info AND IsFloat \<noteq> 0 \<or> info AND IsComplex \<noteq> 0) \<longrightarrow>
      zeroValue eng (Basic info) = Inr (PyNum ''0.0'')) \<and>
   zeroValue eng (Named obj) = Inr (PyCall (PyName (objName obj)) []) \<and>
   (zeroValue eng elem = Inr z \<longrightarrow>
      zeroValue eng (Array elem n) =
        Inr (PyListComp z [(PyName ''_'', PyCall (pyRange eng) [PyNum (FormatInt n)])])) \<and>
   (0 \<le> n \<longrightarrow> int (decimalValue (FormatInt n)) = n) \<and>
   (\<exists>e. zeroValue eng typ = Inr e) = hasZeroValue typ"
  by (simp add: zeroValue_defined FormatInt_def decimalValue_formatNat)

theorem zeroValue_categories_witness:
  "zeroValue (sampleEngine intOracle) (Basic IsString) = Inr (PyStr [dquote, dquote]) \<and>
   zeroValue (sampleEngine intOracle) (Basic IsBoolean) = Inr PyNameConstantFalse \<and>
   zeroValue (sampleEngine intOracle) (Basic (IsInteger OR IsUnsigned)) = Inr (PyNum ''0'') \<and>
   zeroValue (sampleEngine intOracle) (Basic IsFloat) = Inr (PyNum ''0.0'') \<and>
   zeroValue (sampleEngine intOracle) (Array (Basic IsComplex) 12) =
     Inr (PyListComp (PyNum ''0.0'') [(PyName ''_'', PyCall (PyName ''range'') [PyNum ''12''])]) \<and>
   int (decimalValue (FormatInt 12)) = 12"
proof -
  have f: "zeroValue (sampleEngine intOracle) (Basic IsComplex) = Inr (PyNum ''0.0'')"
    by (simp add: IsComplex_def IsString_def IsBoolean_def IsInteger_def IsFloat_def)
  have n: "FormatInt 12 = ''12''"
    by code_simp
  show ?thesis
    using zeroValue_categories [where eng = "sampleEngine intOracle" and info = IsString]
      zeroValue_categories [where eng = "sampleEngine intOracle" and info = IsBoolean]
      zeroValue_categories [where eng = "sampleEngine intOracle" and info = "IsInteger OR IsUnsigned"]
      zeroValue_categories [where eng = "sampleEngine intOracle" and info = IsFloat]
      zeroValue_categories [where eng = "sampleEngine intOracle" and elem = "Basic IsComplex"
        and z = "PyNum ''0.0''" and n = 12] f n
    by (simp add: IsComplex_def IsString_def IsBoolean_def IsInteger_def IsFloat_def IsUnsigned_def
          sampleEngine_def del: zeroValue.simps)
qed

text \<open>
  The function is not total. The basic type \<open>unsafe.Pointer\<close> has none of the class
  flags (its \<open>Info()\<close> is 0), and \<open>zeroValue\<close> aborts on it; so it does on a tuple type.
\<close>

theorem zeroValue_unsafe_pointer_counterexample:
  "zeroValue (sampleEngine intOracle) (Basic 0) = Inl UnknownBasicType"
  by simp

lemma zeroValue_tuple_aborts: "zeroValue eng (TupleType ts) = Inl UnknownZeroValue"
  by simp

section \<open>The order of the output module\<close>

lemma addItems_Nil [simp]: "addItems module [] = module"
  by (simp add: addItems_def)

lemma addItems_Cons [simp]: "addItems module (i # items) = addItems (addItem module i) items"
  by (simp add: addItems_def)
















section \<open>Type declarations that are not classes\<close>

lemma moduleBody_Types [simp]: "moduleBody (module\<lparr>Types := ts\<rparr>) = moduleBody module"
  by (simp add: moduleBody_def classWithMethods_def)

lemma Types_Values_swap:
  "module\<lparr>Types := ts, Values := vs\<rparr> = module\<lparr>Values := vs, Types := ts\<rparr>"
  by (cases module) simp

lemma Types_Classes_swap:
  "module\<lparr>Types := ts, Classes := cs\<rparr> = module\<lparr>Classes := cs, Types := ts\<rparr>"
  by (cases module) simp

lemma moduloTypes_bnd:
  assumes "\<And>x s. moduloTypes (f x s) = moduloTypes (g x s)"
  shows "moduloTypes (bnd m f st) = moduloTypes (bnd m g st)"
  using assms by (cases "m st") (auto simp: bnd_def)

lemma compileGenDecl_Types:
  "moduloTypes (compileGenDecl eng c specs (module\<lparr>Types := ts\<rparr>) st)
   = moduloTypes (compileGenDecl eng c specs module st)"
proof (induction specs arbitrary: module ts st)
  case Nil
  show ?case by (simp add: moduloTypes_def withoutTypes_def)
next
  case (Cons spec rest)
  show ?case
  proof (cases spec)
    case (ValueSpec names vals)
    show ?thesis
      unfolding ValueSpec compileGenDecl.simps
    proof (rule moduloTypes_bnd)
      fix x s
      have "(module\<lparr>Types := ts\<rparr>)\<lparr>Values := Values (module\<lparr>Types := ts\<rparr>) @ x\<rparr>
            = (module\<lparr>Values := Values module @ x\<rparr>)\<lparr>Types := ts\<rparr>"
        by (cases module) simp
      then show "moduloTypes (compileGenDecl eng c rest
                   ((module\<lparr>Types := ts\<rparr>)\<lparr>Values := Values (module\<lparr>Types := ts\<rparr>) @ x\<rparr>) s)
          = moduloTypes (compileGenDecl eng c rest (module\<lparr>Values := Values module @ x\<rparr>) s)"
        by (simp only: Cons.IH)
    qed
  next
    case (TypeSpec name typeExpr)
    show ?thesis
      unfolding TypeSpec compileGenDecl.simps
    proof (rule moduloTypes_bnd)
      fix x s
      have cls: "\<And>n b. (module\<lparr>Types := ts\<rparr>)\<lparr>Classes := Classes (module\<lparr>Types := ts\<rparr>) @ [ClassDef n b]\<rparr>
            = (module\<lparr>Classes := Classes module @ [ClassDef n b]\<rparr>)\<lparr>Types := ts\<rparr>"
        by (cases module) simp
      have other: "(module\<lparr>Types := ts\<rparr>)\<lparr>Types := Types (module\<lparr>Types := ts\<rparr>) @ [x]\<rparr>
            = module\<lparr>Types := ts @ [x]\<rparr>"
        by (cases module) simp
      have eq: "moduloTypes (compileGenDecl eng c rest (module\<lparr>Types := ts @ [x]\<rparr>) s)
          = moduloTypes (compileGenDecl eng c rest (module\<lparr>Types := Types module @ [x]\<rparr>) s)"
        by (simp only: Cons.IH)
      show "moduloTypes (compileGenDecl eng c rest
              (case x of
                 PyClassDef n b \<Rightarrow>
                   (module\<lparr>Types := ts\<rparr>)\<lparr>Classes := Classes (module\<lparr>Types := ts\<rparr>) @ [ClassDef n b]\<rparr>
               | _ \<Rightarrow> (module\<lparr>Types := ts\<rparr>)\<lparr>Types := Types (module\<lparr>Types := ts\<rparr>) @ [x]\<rparr>) s)
          = moduloTypes (compileGenDecl eng c rest
              (case x of
                 PyClassDef n b \<Rightarrow> module\<lparr>Classes := Classes module @ [ClassDef n b]\<rparr>
               | _ \<Rightarrow> module\<lparr>Types := Types module @ [x]\<rparr>) s)"
        by (cases x) (simp_all only: pystmt.case cls other eq Cons.IH)
    qed
  next
    case (ImportSpec path)
    show ?thesis
      unfolding ImportSpec compileGenDecl.simps by (rule Cons.IH)
  qed
qed


lemma compileDecl_Types:
  "moduloTypes (compileDecl eng withDoc c decl (module\<lparr>Types := ts\<rparr>) st)
   = moduloTypes (compileDecl eng withDoc c decl module st)"
proof (cases decl)
  case (FuncDecl d)
  show ?thesis
    unfolding FuncDecl compileDecl_def godecl.case
  proof (rule moduloTypes_bnd)
    fix x s
    show "moduloTypes
            ((if Class x \<noteq> [] then
                ret ((module\<lparr>Types := ts\<rparr>)\<lparr>Methods := (Methods (module\<lparr>Types := ts\<rparr>))
                       (Class x := Methods (module\<lparr>Types := ts\<rparr>) (Class x) @ [Def x])\<rparr>)
              else ret ((module\<lparr>Types := ts\<rparr>)\<lparr>Functions := Functions (module\<lparr>Types := ts\<rparr>) @ [Def x]\<rparr>)) s)
        = moduloTypes
            ((if Class x \<noteq> [] then
                ret (module\<lparr>Methods := (Methods module)
                       (Class x := Methods module (Class x) @ [Def x])\<rparr>)
              else ret (module\<lparr>Functions := Functions module @ [Def x]\<rparr>)) s)"
      by (cases module) (simp add: moduloTypes_def withoutTypes_def)
  qed
next
  case (GenDecl specs)
  show ?thesis
    unfolding GenDecl compileDecl_def godecl.case by (rule compileGenDecl_Types)
next
  case BadDecl
  show ?thesis
    unfolding BadDecl compileDecl_def godecl.case by simp
qed

lemma moduloTypes_bnd_both:
  assumes m: "moduloTypes (m1 st) = moduloTypes (m2 st)"
    and f: "\<And>module ts s. moduloTypes (f (module\<lparr>Types := ts\<rparr>) s) = moduloTypes (f module s)"
  shows "moduloTypes (bnd m1 f st) = moduloTypes (bnd m2 f st)"
proof (cases "m1 st")
  case (Inl e)
  with m have "m2 st = Inl e"
    by (auto simp: moduloTypes_def split: sum.splits)
  with Inl show ?thesis by (simp add: bnd_def)
next
  case (Inr r)
  obtain x1 s1 where r: "r = (x1, s1)" by (cases r)
  with m Inr obtain x2 where m2: "m2 st = Inr (x2, s1)" and w: "withoutTypes x1 = withoutTypes x2"
    by (auto simp: moduloTypes_def split: sum.splits)
  have "moduloTypes (f x1 s1) = moduloTypes (f (withoutTypes x1) s1)"
    unfolding withoutTypes_def by (rule f [symmetric])
  also have "\<dots> = moduloTypes (f (withoutTypes x2) s1)"
    by (simp only: w)
  also have "\<dots> = moduloTypes (f x2 s1)"
    unfolding withoutTypes_def by (rule f)
  finally show ?thesis
    using Inr r m2 by (simp add: bnd_def)
qed

lemma compileDecls_Types:
  "moduloTypes (compileDecls eng withDoc c decls (module\<lparr>Types := ts\<rparr>) st)
   = moduloTypes (compileDecls eng withDoc c decls module st)"
proof (induction decls arbitrary: module ts st)
  case Nil
  show ?case by (simp add: moduloTypes_def withoutTypes_def)
next
  case (Cons decl rest)
  show ?case
    unfolding compileDecls.simps
    by (rule moduloTypes_bnd_both) (rule compileDecl_Types, rule Cons.IH)
qed

lemma compileFileList_Types:
  "moduloTypes (compileFileList eng withDoc c files (module\<lparr>Types := ts\<rparr>) st)
   = moduloTypes (compileFileList eng withDoc c files module st)"
proof (induction files arbitrary: module ts st)
  case Nil
  show ?case by (simp add: moduloTypes_def withoutTypes_def)
next
  case (Cons gofile rest)
  show ?case
    unfolding compileFileList.simps compileFile_def
    by (rule moduloTypes_bnd_both) (rule compileDecls_Types, rule Cons.IH)
qed

lemma typeSpec_stored_in_Types:
  assumes "CompileTypeSpec eng c name typeExpr st = Inr (compiled, s1)"
    and "\<forall>n b. compiled \<noteq> PyClassDef n b"
  shows "compileGenDecl eng c (TypeSpec name typeExpr # rest) module st
         = compileGenDecl eng c rest (module\<lparr>Types := Types module @ [compiled]\<rparr>) s1"
  using assms by (cases compiled) (simp_all add: bnd_step)

lemma alias_is_assignment:
  assumes "TypeOf eng typeExpr = Named obj"
    and "CompileTypeSpec eng c name typeExpr st = Inr (compiled, s1)"
  shows "\<exists>target val. compiled = PyAssign [PyName target] (PyName val)"
  using assms by (auto simp: CompileTypeSpec_def bnd_Inr)

text \<open>
  C10. The output of \<open>CompileFiles\<close> is built from the intermediate module without its
  list \<open>Types\<close>. A type specification of a declaration at the top level of a file whose
  lowering is not a class definition is appended to \<open>Types\<close> and changes nothing else
  of the module: modulo \<open>Types\<close>, compiling it with the specifications after it is
  compiling those alone from the naming state it leaves. The alias of a named type is such
  a specification: it lowers to the assignment of a name to a name. And whatever \<open>Types\<close>
  holds when the files are compiled has no effect on the rest of the module or on the
  naming state.
\<close>

theorem types_never_reach_output:
  "(CompileFiles eng withDoc c files st = Inr (body, st') \<longrightarrow>
      (\<exists>module. compileFileList eng withDoc c files newModule st = Inr (module, st') \<and>
                body = moduleBody (withoutTypes module))) \<and>
   (CompileTypeSpec eng c name typeExpr st = Inr (compiled, s1) \<and>
    (\<forall>n b. compiled \<noteq> PyClassDef n b) \<longrightarrow>
      compileGenDecl eng c (TypeSpec name typeExpr # rest) module st
        = compileGenDecl eng c rest (module\<lparr>Types := Types module @ [compiled]\<rparr>) s1 \<and>
      moduloTypes (compileGenDecl eng c (TypeSpec name typeExpr # rest) module st)
        = moduloTypes (compileGenDecl eng c rest module s1)) \<and>
   (TypeOf eng typeExpr = Named obj \<and>
    CompileTypeSpec eng c name typeExpr st = Inr (compiled, s1) \<longrightarrow>
      (\<exists>target val. compiled = PyAssign [PyName target] (PyName val))) \<and>
   moduloTypes (compileFileList eng withDoc c files (module\<lparr>Types := ts\<rparr>) st)
     = moduloTypes (compileFileList eng withDoc c files module st)"
proof (intro conjI impI)
  assume "CompileFiles eng withDoc c files st = Inr (body, st')"
  then show "\<exists>module. compileFileList eng withDoc c files newModule st = Inr (module, st') \<and>
                body = moduleBody (withoutTypes module)"
    by (auto simp: CompileFiles_def bnd_Inr withoutTypes_def)
next
  assume a: "CompileTypeSpec eng c name typeExpr st = Inr (compiled, s1) \<and>
    (\<forall>n b. compiled \<noteq> PyClassDef n b)"
  then have a1: "CompileTypeSpec eng c name typeExpr st = Inr (compiled, s1)"
    and a2: "\<forall>n b. compiled \<noteq> PyClassDef n b"
    by simp_all
  show e: "compileGenDecl eng c (TypeSpec name typeExpr # rest) module st
        = compileGenDecl eng c rest (module\<lparr>Types := Types module @ [compiled]\<rparr>) s1"
    by (rule typeSpec_stored_in_Types [OF a1 a2])
  show "moduloTypes (compileGenDecl eng c (TypeSpec name typeExpr # rest) module st)
        = moduloTypes (compileGenDecl eng c rest module s1)"
    unfolding e by (rule compileGenDecl_Types)
next
  assume "TypeOf eng typeExpr = Named obj \<and>
    CompileTypeSpec eng c name typeExpr st = Inr (compiled, s1)"
  then have b1: "TypeOf eng typeExpr = Named obj"
    and b2: "CompileTypeSpec eng c name typeExpr st = Inr (compiled, s1)"
    by simp_all
  show "\<exists>target val. compiled = PyAssign [PyName target] (PyName val)"
    by (rule alias_is_assignment [OF b1 b2])
next
  show "moduloTypes (compileFileList eng withDoc c files (module\<lparr>Types := ts\<rparr>) st)
     = moduloTypes (compileFileList eng withDoc c files module st)"
    by (rule compileFileList_Types)
qed

lemma sample_alias_spec:
  "CompileTypeSpec (sampleEngine namedOracle) ((NewCompiler 0)\<lparr>commentMap := Some (\<lambda>node. [])\<rparr>)
     (GoIdent ''A'' 0) (ident ''B'') 0
   = Inr (PyAssign [PyName ''A''] (PyName ''B''), 0)"
  by code_simp

lemma sample_alias_body:
  "CompileFiles (sampleEngine namedOracle) True (NewCompiler 0) [aliasFile] 0 = Inr ([], 0)"
  by code_simp

theorem types_never_reach_output_witness:
  "(\<exists>module. compileFileList (sampleEngine namedOracle) True (NewCompiler 0) [aliasFile] newModule 0
               = Inr (module, 0) \<and>
             [] = moduleBody (withoutTypes module)) \<and>
   compileGenDecl (sampleEngine namedOracle) ((NewCompiler 0)\<lparr>commentMap := Some (\<lambda>node. [])\<rparr>)
       (TypeSpec (GoIdent ''A'' 0) (ident ''B'') # []) newModule 0
     = compileGenDecl (sampleEngine namedOracle) ((NewCompiler 0)\<lparr>commentMap := Some (\<lambda>node. [])\<rparr>)
         [] (newModule\<lparr>Types := Types newModule @ [PyAssign [PyName ''A''] (PyName ''B'')]\<rparr>) 0 \<and>
   (\<exists>target val. PyAssign [PyName ''A''] (PyName ''B'') = PyAssign [PyName target] (PyName val))"
proof (intro conjI)
  show "\<exists>module. compileFileList (sampleEngine namedOracle) True (NewCompiler 0) [aliasFile] newModule 0
               = Inr (module, 0) \<and>
             [] = moduleBody (withoutTypes module)"
    using types_never_reach_output [where eng = "sampleEngine namedOracle" and withDoc = True
        and c = "NewCompiler 0" and files = "[aliasFile]" and st = 0 and body = "[]" and st' = 0]
      sample_alias_body
    by blast
next
  have n: "\<forall>n b. PyAssign [PyName ''A''] (PyName ''B'') \<noteq> PyClassDef n b"
    by simp
  show "compileGenDecl (sampleEngine namedOracle) ((NewCompiler 0)\<lparr>commentMap := Some (\<lambda>node. [])\<rparr>)
       (TypeSpec (GoIdent ''A'' 0) (ident ''B'') # []) newModule 0
     = compileGenDecl (sampleEngine namedOracle) ((NewCompiler 0)\<lparr>commentMap := Some (\<lambda>node. [])\<rparr>)
         [] (newModule\<lparr>Types := Types newModule @ [PyAssign [PyName ''A''] (PyName ''B'')]\<rparr>) 0"
    using types_never_reach_output [where eng = "sampleEngine namedOracle"
        and c = "(NewCompiler 0)\<lparr>commentMap := Some (\<lambda>node. [])\<rparr>" and name = "GoIdent ''A'' 0"
        and typeExpr = "ident ''B''" and st = 0
        and compiled = "PyAssign [PyName ''A''] (PyName ''B'')" and ?s1.0 = 0
        and rest = "[]" and module = newModule]
      sample_alias_spec n
    by blast
next
  have t: "TypeOf (sampleEngine namedOracle) (ident ''B'') = Named (GoObject ''B'' 0)"
    by (simp add: sampleEngine_def namedOracle_def)
  show "\<exists>target val. PyAssign [PyName ''A''] (PyName ''B'') = PyAssign [PyName target] (PyName val)"
    using types_never_reach_output [where eng = "sampleEngine namedOracle"
        and c = "(NewCompiler 0)\<lparr>commentMap := Some (\<lambda>node. [])\<rparr>" and name = "GoIdent ''A'' 0"
        and typeExpr = "ident ''B''" and st = 0 and obj = "GoObject ''B'' 0"
        and compiled = "PyAssign [PyName ''A''] (PyName ''B'')" and ?s1.0 = 0]
      sample_alias_spec t
    by blast
qed

text \<open>
  A type declaration inside a function body is lowered by \<open>compileDeclStmt\<close>, not by
  \<open>compileGenDecl\<close>: the alias \<open>type A B\<close> declared in the function \<open>f\<close> is not
  stored in \<open>Types\<close>, and its lowering \<open>A = B\<close> is in the body of \<open>f\<close> in the output.
\<close>

theorem local_type_declaration_counterexample:
  "CompileFiles (sampleEngine namedOracle) True (NewCompiler 0) [localAliasFile] 0
     = Inr ([PyFunctionDef ''f'' (Arguments [] []) [PyAssign [PyName ''A''] (PyName ''B'')]], 0) \<and>
   map_sum id (\<lambda>r. Types (fst r))
     (compileFileList (sampleEngine namedOracle) True (NewCompiler 0) [localAliasFile] newModule 0)
     = Inr []"
  by code_simp

section \<open>Expression statements\<close>

lemma compileExprToStmt_other:
  "\<not> isDeleteCall x \<Longrightarrow> compileExprToStmt eng c x st = Inr (None, st)"
proof (cases x)
  case (CallExpr f args)
  assume "\<not> isDeleteCall x"
  with CallExpr show ?thesis
    by (cases f) (simp_all add: compileExprToStmt_def withExprCompiler_def)
qed (simp_all add: compileExprToStmt_def withExprCompiler_def)

lemma compileExprStmt_other:
  "\<not> isDeleteCall x \<Longrightarrow>
   compileExprStmt eng c x st =
     (case compileExpr eng c x ([], st) of
        Inl e \<Rightarrow> Inl e
      | Inr (v, (buf, st')) \<Rightarrow> Inr (buf @ [PyExprStmt v], st'))"
  by (simp add: compileExprStmt_def compileExprToStmt_other bnd_step withExprCompiler_def bnd_def
        split: sum.splits prod.splits)

lemma compileExprStmt_delete_two:
  "identName f = ''delete'' \<Longrightarrow>
   compileExprStmt eng c (CallExpr (Ident f) (coll # key # extra)) st =
     (case compileExpr eng c coll ([], st) of
        Inl e \<Rightarrow> Inl e
      | Inr (v, es1) \<Rightarrow>
          (case compileExpr eng c key es1 of
             Inl e \<Rightarrow> Inl e
           | Inr (k, (buf, st')) \<Rightarrow>
               Inr (buf @ [PyTry [PyDelete [PySubscript v (PyIndex k)]]
                                [(pyKeyError eng, [PyPass])] []], st')))"
  by (simp add: compileExprStmt_def compileExprToStmt_def index_def withExprCompiler_def bnd_def
        split: sum.splits prod.splits)

text \<open>
  An expression statement that calls a plain identifier named \<open>delete\<close> with two
  arguments or more lowers, whenever it returns, to the hoisted statements followed by a
  protected block: the block deletes the subscript of the lowered first argument at the
  lowered second argument, and its one handler, for the key error, is a pass statement.
  It returns whenever the engine lowers the two arguments. An expression statement that
  is not a call of a plain identifier named \<open>delete\<close> lowers, whenever it returns, to the
  hoisted statements followed by the bare expression statement, and returns whenever the
  engine lowers the expression.
\<close>

lemma compileExprStmt_delete_or_bare:
  "(identName f = ''delete'' \<and>
    compileExprStmt eng c (CallExpr (Ident f) (coll # key # extra)) st = Inr (out, st') \<longrightarrow>
      (\<exists>v k buf1 s1 buf.
         compileExpr eng c coll ([], st) = Inr (v, (buf1, s1)) \<and>
         compileExpr eng c key (buf1, s1) = Inr (k, (buf, st')) \<and>
         out = buf @ [PyTry [PyDelete [PySubscript v (PyIndex k)]]
                            [(pyKeyError eng, [PyPass])] []])) \<and>
   (identName f = ''delete'' \<and>
    compileExpr eng c coll ([], st) = Inr (v, (buf1, s1)) \<and>
    compileExpr eng c key (buf1, s1) = Inr (k, (buf, st')) \<longrightarrow>
      compileExprStmt eng c (CallExpr (Ident f) (coll # key # extra)) st =
        Inr (buf @ [PyTry [PyDelete [PySubscript v (PyIndex k)]]
                          [(pyKeyError eng, [PyPass])] []], st')) \<and>
   (\<not> isDeleteCall x \<and> compileExprStmt eng c x st = Inr (out, st') \<longrightarrow>
      (\<exists>v buf. compileExpr eng c x ([], st) = Inr (v, (buf, st')) \<and> out = buf @ [PyExprStmt v])) \<and>
   (\<not> isDeleteCall x \<and> compileExpr eng c x ([], st) = Inr (v, (buf, st')) \<longrightarrow>
      compileExprStmt eng c x st = Inr (buf @ [PyExprStmt v], st'))"
proof (intro conjI impI)
  assume "identName f = ''delete'' \<and>
    compileExprStmt eng c (CallExpr (Ident f) (coll # key # extra)) st = Inr (out, st')"
  then show "\<exists>v k buf1 s1 buf.
         compileExpr eng c coll ([], st) = Inr (v, (buf1, s1)) \<and>
         compileExpr eng c key (buf1, s1) = Inr (k, (buf, st')) \<and>
         out = buf @ [PyTry [PyDelete [PySubscript v (PyIndex k)]]
                            [(pyKeyError eng, [PyPass])] []]"
    using compileExprStmt_delete_two [of f eng c coll key extra st]
    by (auto split: sum.splits prod.splits)
next
  assume "identName f = ''delete'' \<and>
    compileExpr eng c coll ([], st) = Inr (v, (buf1, s1)) \<and>
    compileExpr eng c key (buf1, s1) = Inr (k, (buf, st'))"
  then show "compileExprStmt eng c (CallExpr (Ident f) (coll # key # extra)) st =
        Inr (buf @ [PyTry [PyDelete [PySubscript v (PyIndex k)]]
                          [(pyKeyError eng, [PyPass])] []], st')"
    using compileExprStmt_delete_two [of f eng c coll key extra st] by simp
next
  assume "\<not> isDeleteCall x \<and> compileExprStmt eng c x st = Inr (out, st')"
  then show "\<exists>v buf. compileExpr eng c x ([], st) = Inr (v, (buf, st')) \<and> out = buf @ [PyExprStmt v]"
    using compileExprStmt_other [of x eng c st]
    by (auto split: sum.splits prod.splits)
next
  assume "\<not> isDeleteCall x \<and> compileExpr eng c x ([], st) = Inr (v, (buf, st'))"
  then show "compileExprStmt eng c x st = Inr (buf @ [PyExprStmt v], st')"
    using compileExprStmt_other [of x eng c st] by simp
qed

lemma sample_delete:
  "compileExprStmt (sampleEngine intOracle) (sampleCompiler True)
     (CallExpr (Ident (GoIdent ''delete'' 0)) (ident ''m'' # ident ''k'' # [])) 0
   = Inr ([PyTry [PyDelete [PySubscript (PyName ''m'') (PyIndex (PyName ''k''))]]
             [(PyName ''KeyError'', [PyPass])] []], 0)"
  by code_simp

lemma sample_bare:
  "compileExprStmt (sampleEngine intOracle) (sampleCompiler True)
     (CallExpr (ident ''print'') [ident ''x'']) 0
   = Inr ([PyExprStmt (PyCall (PyName ''print'') [PyName ''x''])], 0)"
  by code_simp

lemma compileExprStmt_delete_or_bare_sample:
  "(\<exists>v k buf1 s1 buf.
      compileExpr (sampleEngine intOracle) (sampleCompiler True) (ident ''m'') ([], 0)
        = Inr (v, (buf1, s1)) \<and>
      compileExpr (sampleEngine intOracle) (sampleCompiler True) (ident ''k'') (buf1, s1)
        = Inr (k, (buf, 0)) \<and>
      [PyTry [PyDelete [PySubscript (PyName ''m'') (PyIndex (PyName ''k''))]]
             [(PyName ''KeyError'', [PyPass])] []]
        = buf @ [PyTry [PyDelete [PySubscript v (PyIndex k)]]
                       [(pyKeyError (sampleEngine intOracle), [PyPass])] []]) \<and>
   (\<exists>v buf.
      compileExpr (sampleEngine intOracle) (sampleCompiler True)
        (CallExpr (ident ''print'') [ident ''x'']) ([], 0) = Inr (v, (buf, 0)) \<and>
      [PyExprStmt (PyCall (PyName ''print'') [PyName ''x''])] = buf @ [PyExprStmt v])"
proof
  have n: "identName (GoIdent ''delete'' 0) = ''delete''"
    by simp
  from compileExprStmt_delete_or_bare [where f = "GoIdent ''delete'' 0"
      and eng = "sampleEngine intOracle" and c = "sampleCompiler True" and coll = "ident ''m''"
      and key = "ident ''k''" and extra = "[]" and st = 0 and st' = 0
      and out = "[PyTry [PyDelete [PySubscript (PyName ''m'') (PyIndex (PyName ''k''))]]
             [(PyName ''KeyError'', [PyPass])] []]"] n sample_delete
  show "\<exists>v k buf1 s1 buf.
      compileExpr (sampleEngine intOracle) (sampleCompiler True) (ident ''m'') ([], 0)
        = Inr (v, (buf1, s1)) \<and>
      compileExpr (sampleEngine intOracle) (sampleCompiler True) (ident ''k'') (buf1, s1)
        = Inr (k, (buf, 0)) \<and>
      [PyTry [PyDelete [PySubscript (PyName ''m'') (PyIndex (PyName ''k''))]]
             [(PyName ''KeyError'', [PyPass])] []]
        = buf @ [PyTry [PyDelete [PySubscript v (PyIndex k)]]
                       [(pyKeyError (sampleEngine intOracle), [PyPass])] []]"
    by blast
next
  have n: "\<not> isDeleteCall (CallExpr (ident ''print'') [ident ''x''])"
    by (simp add: ident_def)
  from compileExprStmt_delete_or_bare [where x = "CallExpr (ident ''print'') [ident ''x'']"
      and eng = "sampleEngine intOracle" and c = "sampleCompiler True" and st = 0 and st' = 0
      and out = "[PyExprStmt (PyCall (PyName ''print'') [PyName ''x''])]"] n sample_bare
  show "\<exists>v buf.
      compileExpr (sampleEngine intOracle) (sampleCompiler True)
        (CallExpr (ident ''print'') [ident ''x'']) ([], 0) = Inr (v, (buf, 0)) \<and>
      [PyExprStmt (PyCall (PyName ''print'') [PyName ''x''])] = buf @ [PyExprStmt v]"
    by blast
qed

lemma compileExprStmt_delete_short:
  "identName f = ''delete'' \<Longrightarrow> length args < 2 \<Longrightarrow>
   \<exists>e. compileExprStmt eng c (CallExpr (Ident f) args) st = Inl e"
  apply (cases args)
   apply (simp add: compileExprStmt_def compileExprToStmt_def index_def withExprCompiler_def bnd_def)
  apply (simp add: compileExprStmt_def compileExprToStmt_def index_def withExprCompiler_def bnd_def
           split: sum.splits prod.splits)
  done

text \<open>
  C9. An expression statement that is not the built-in deletion on a pair of a collection
  and a key is to lower to a bare expression statement. The deletion is recognised by
  the name of the called identifier alone, and its first two arguments are read without
  a look at their number. The statement \<open>delete(x)\<close>, a call of a function of the
  program that hides the built-in one, is not the built-in deletion on a pair; its
  lowering reads the second argument of the call and aborts with an index out of range.
\<close>

theorem compileExprStmt_delete_one_argument_aborts:
  "compileExprStmt (sampleEngine intOracle) (sampleCompiler True)
     (CallExpr (ident ''delete'') [ident ''x'']) 0 = Inl IndexOutOfRange"
  by code_simp

section \<open>Variable declarations\<close>

lemma valueSpecLoop_bindings:
  "vals \<noteq> [] \<Longrightarrow>
   valueSpecLoop eng c vals i names (ts0, vs0) bs =
     (case eachInOrder (lowerBinding eng c) (bindings names (drop i vals)) bs of
        Inl e \<Rightarrow> Inl e
      | Inr (rs, bs') \<Rightarrow> Inr ((ts0 @ map fst rs, vs0 @ List.map_filter snd rs), bs'))"
proof (induction names arbitrary: i ts0 vs0 bs)
  case Nil
  then show ?case by simp
next
  case (Cons n rest)
  note ih = Cons.IH [OF Cons.prems]
  show ?case
  proof (cases "i < length vals")
    case True
    then have d: "drop i vals = vals ! i # drop (Suc i) vals"
      by (simp add: Cons_nth_drop_Suc)
    show ?thesis
      using True Cons.prems
      by (simp add: d ih lowerBinding_def bnd_def onCompiler_def List.map_filter_simps
            split: sum.splits prod.splits)
  next
    case False
    then have d: "drop i vals = []" "drop (Suc i) vals = []"
      by simp_all
    show ?thesis
      using False Cons.prems
      by (simp add: d ih lowerBinding_def bnd_def onCompiler_def List.map_filter_simps
            split: sum.splits prod.splits)
  qed
qed

lemma valueSpecLoop_zero:
  "(valueSpecLoop eng c [] i names (ts0, vs0) (buf, s) = Inr ((ts, vs), (buf', s'))) =
   (\<exists>ts1 zs. eachInOrder (compileIdent eng c) names s = Inr (ts1, s') \<and>
      map (\<lambda>n. zeroValue eng (TypeOf eng (Ident n))) names = map Inr zs \<and>
      ts = ts0 @ ts1 \<and> vs = vs0 @ zs \<and> buf' = buf)"
proof (induction names arbitrary: i ts0 vs0 s)
  case Nil
  then show ?case by auto
next
  case (Cons n rest)
  show ?case
  proof (cases "compileIdent eng c n s")
    case (Inl e)
    then show ?thesis by (simp add: bnd_def onCompiler_def)
  next
    case (Inr r)
    obtain t s1 where r: "r = (t, s1)" by (cases r)
    show ?thesis
    proof (cases "zeroValue eng (TypeOf eng (Ident n))")
      case (Inl e)
      with Inr r show ?thesis
        by (auto simp: bnd_def onCompiler_def map_eq_Cons_conv)
    next
      case z: (Inr z)
      have "(valueSpecLoop eng c [] i (n # rest) (ts0, vs0) (buf, s) = Inr ((ts, vs), (buf', s')))
            = (valueSpecLoop eng c [] (Suc i) rest (ts0 @ [t], vs0 @ [z]) (buf, s1) = Inr ((ts, vs), (buf', s')))"
        using Inr r z by (simp add: bnd_def onCompiler_def)
      also have "\<dots> = (\<exists>ts1 zs. eachInOrder (compileIdent eng c) rest s1 = Inr (ts1, s') \<and>
            map (\<lambda>n. zeroValue eng (TypeOf eng (Ident n))) rest = map Inr zs \<and>
            ts = (ts0 @ [t]) @ ts1 \<and> vs = (vs0 @ [z]) @ zs \<and> buf' = buf)"
        by (rule Cons.IH)
      also have "\<dots> = (\<exists>ts1 zs. eachInOrder (compileIdent eng c) (n # rest) s = Inr (ts1, s') \<and>
            map (\<lambda>n. zeroValue eng (TypeOf eng (Ident n))) (n # rest) = map Inr zs \<and>
            ts = ts0 @ ts1 \<and> vs = vs0 @ zs \<and> buf' = buf)"
        using Inr r z
        apply (simp add: bnd_def split: sum.splits prod.splits)
        apply (auto simp: map_eq_Cons_conv Cons_eq_map_conv)
        done
      finally show ?thesis .
    qed
  qed
qed


lemma CompileValueSpec_Inr:
  "(CompileValueSpec eng c names vals st = Inr (out, st')) =
   (\<exists>ts vs buf. valueSpecLoop eng c vals 0 names ([], []) ([], st) = Inr ((ts, vs), (buf, st')) \<and>
      out = buf @ [PyAssign ts (makeTuple vs)])"
  by (auto simp: CompileValueSpec_def withExprCompiler_Inr bnd_Inr)

lemma CompileValueSpec_zero:
  "(CompileValueSpec eng c names [] st = Inr (out, st')) =
   (\<exists>targets zs. eachInOrder (compileIdent eng c) names st = Inr (targets, st') \<and>
      map (\<lambda>n. zeroValue eng (TypeOf eng (Ident n))) names = map Inr zs \<and>
      out = [PyAssign targets (makeTuple zs)])"
  unfolding CompileValueSpec_Inr valueSpecLoop_zero by auto

lemma CompileValueSpec_bindings:
  assumes "vals \<noteq> []"
  shows "(CompileValueSpec eng c names vals st = Inr (out, st')) =
   (\<exists>rs buf. eachInOrder (lowerBinding eng c) (bindings names vals) ([], st) = Inr (rs, (buf, st')) \<and>
      out = buf @ [PyAssign (map fst rs) (makeTuple (List.map_filter snd rs))])"
  unfolding CompileValueSpec_Inr valueSpecLoop_bindings [OF assms]
  by (auto split: sum.splits)

lemma bindings_no_values: "bindings names [] = map (\<lambda>m. (m, None)) names"
  by (induction names) simp_all

lemma bindings_pairwise:
  "length vals = length names \<Longrightarrow> bindings names vals = zip names (map Some vals)"
  by (induction names vals rule: bindings.induct) simp_all

lemma lowerBinding_None:
  "lowerBinding eng c (m, None) (buf, s) =
     (case compileIdent eng c m s of Inl e \<Rightarrow> Inl e | Inr (t, s') \<Rightarrow> Inr ((t, None), (buf, s')))"
  by (simp add: lowerBinding_def bnd_def onCompiler_def split: sum.splits prod.splits)

lemma lowerBinding_Some_Inr:
  "(lowerBinding eng c (m, Some e) (buf, s) = Inr (r, bs')) =
   (\<exists>t s1 v. compileIdent eng c m s = Inr (t, s1) \<and> compileExpr eng c e (buf, s1) = Inr (v, bs') \<and>
      r = (t, Some v))"
  by (cases bs') (auto simp: lowerBinding_def bnd_Inr onCompiler_def split: sum.splits prod.splits)

lemma eachInOrder_names_only:
  "(eachInOrder (lowerBinding eng c) (map (\<lambda>m. (m, None)) names) (buf, s) = Inr (rs, (buf', s'))) =
   (\<exists>ts. eachInOrder (compileIdent eng c) names s = Inr (ts, s') \<and>
      rs = map (\<lambda>t. (t, None)) ts \<and> buf' = buf)"
proof (induction names arbitrary: s rs)
  case Nil
  then show ?case by auto
next
  case (Cons n rest)
  show ?case
  proof (cases "compileIdent eng c n s")
    case (Inl e)
    then show ?thesis by (simp add: bnd_def lowerBinding_None)
  next
    case (Inr r)
    obtain t s1 where r: "r = (t, s1)" by (cases r)
    have "(eachInOrder (lowerBinding eng c) (map (\<lambda>m. (m, None)) (n # rest)) (buf, s) = Inr (rs, (buf', s')))
        = (\<exists>rest'. eachInOrder (lowerBinding eng c) (map (\<lambda>m. (m, None)) rest) (buf, s1) = Inr (rest', (buf', s'))
             \<and> rs = (t, None) # rest')"
      using Inr r by (auto simp: bnd_def lowerBinding_None split: sum.splits prod.splits)
    also have "\<dots> = (\<exists>rest' ts. eachInOrder (compileIdent eng c) rest s1 = Inr (ts, s') \<and>
          rest' = map (\<lambda>t. (t, None)) ts \<and> buf' = buf \<and> rs = (t, None) # rest')"
      unfolding Cons.IH by blast
    also have "\<dots> = (\<exists>ts. eachInOrder (compileIdent eng c) (n # rest) s = Inr (ts, s') \<and>
          rs = map (\<lambda>t. (t, None)) ts \<and> buf' = buf)"
      using Inr r by (auto simp: eachInOrder_Inr_Cons simp del: eachInOrder.simps)
    finally show ?thesis .
  qed
qed

lemma map_filter_no_values: "List.map_filter snd (map (\<lambda>t. (t, None)) ts) = []"
  by (induction ts) (simp_all add: List.map_filter_simps)

lemma CompileValueSpec_one_value:
  "(CompileValueSpec eng c (n # rest) [e] st = Inr (out, st')) =
   (\<exists>t s1 v buf s2 ts.
      compileIdent eng c n st = Inr (t, s1) \<and>
      compileExpr eng c e ([], s1) = Inr (v, (buf, s2)) \<and>
      eachInOrder (compileIdent eng c) rest s2 = Inr (ts, st') \<and>
      out = buf @ [PyAssign (t # ts) v])"
proof -
  have ne: "[e] \<noteq> []" by simp
  have "(CompileValueSpec eng c (n # rest) [e] st = Inr (out, st')) =
    (\<exists>rs buf. eachInOrder (lowerBinding eng c) ((n, Some e) # map (\<lambda>m. (m, None)) rest) ([], st)
                 = Inr (rs, (buf, st')) \<and>
      out = buf @ [PyAssign (map fst rs) (makeTuple (List.map_filter snd rs))])"
    unfolding CompileValueSpec_bindings [OF ne] by (simp add: bindings_no_values)
  also have "\<dots> = (\<exists>t s1 v buf1 s2 rest' buf.
      compileIdent eng c n st = Inr (t, s1) \<and>
      compileExpr eng c e ([], s1) = Inr (v, (buf1, s2)) \<and>
      eachInOrder (lowerBinding eng c) (map (\<lambda>m. (m, None)) rest) (buf1, s2) = Inr (rest', (buf, st')) \<and>
      out = buf @ [PyAssign (t # map fst rest') (makeTuple (v # List.map_filter snd rest'))])"
  proof (rule iffI)
    assume "\<exists>rs buf. eachInOrder (lowerBinding eng c) ((n, Some e) # map (\<lambda>m. (m, None)) rest) ([], st)
                 = Inr (rs, (buf, st')) \<and>
      out = buf @ [PyAssign (map fst rs) (makeTuple (List.map_filter snd rs))]"
    then obtain rs buf where
      a: "eachInOrder (lowerBinding eng c) ((n, Some e) # map (\<lambda>m. (m, None)) rest) ([], st)
                 = Inr (rs, (buf, st'))" and
      o: "out = buf @ [PyAssign (map fst rs) (makeTuple (List.map_filter snd rs))]"
      by blast
    from a obtain y bs1 rest' where
      y: "lowerBinding eng c (n, Some e) ([], st) = Inr (y, bs1)" and
      r: "eachInOrder (lowerBinding eng c) (map (\<lambda>m. (m, None)) rest) bs1 = Inr (rest', (buf, st'))" and
      rs: "rs = y # rest'"
      unfolding eachInOrder_Inr_Cons by blast
    from y obtain t s1 v where
      t: "compileIdent eng c n st = Inr (t, s1)" and
      v: "compileExpr eng c e ([], s1) = Inr (v, bs1)" and
      yy: "y = (t, Some v)"
      unfolding lowerBinding_Some_Inr by blast
    obtain buf1 s2 where bs1: "bs1 = (buf1, s2)" by (cases bs1)
    have "out = buf @ [PyAssign (t # map fst rest') (makeTuple (v # List.map_filter snd rest'))]"
      using o rs yy by (simp add: List.map_filter_simps)
    with t v r bs1 show "\<exists>t s1 v buf1 s2 rest' buf.
      compileIdent eng c n st = Inr (t, s1) \<and>
      compileExpr eng c e ([], s1) = Inr (v, (buf1, s2)) \<and>
      eachInOrder (lowerBinding eng c) (map (\<lambda>m. (m, None)) rest) (buf1, s2) = Inr (rest', (buf, st')) \<and>
      out = buf @ [PyAssign (t # map fst rest') (makeTuple (v # List.map_filter snd rest'))]"
      by blast
  next
    assume "\<exists>t s1 v buf1 s2 rest' buf.
      compileIdent eng c n st = Inr (t, s1) \<and>
      compileExpr eng c e ([], s1) = Inr (v, (buf1, s2)) \<and>
      eachInOrder (lowerBinding eng c) (map (\<lambda>m. (m, None)) rest) (buf1, s2) = Inr (rest', (buf, st')) \<and>
      out = buf @ [PyAssign (t # map fst rest') (makeTuple (v # List.map_filter snd rest'))]"
    then obtain t s1 v buf1 s2 rest' buf where
      t: "compileIdent eng c n st = Inr (t, s1)" and
      v: "compileExpr eng c e ([], s1) = Inr (v, (buf1, s2))" and
      r: "eachInOrder (lowerBinding eng c) (map (\<lambda>m. (m, None)) rest) (buf1, s2) = Inr (rest', (buf, st'))" and
      o: "out = buf @ [PyAssign (t # map fst rest') (makeTuple (v # List.map_filter snd rest'))]"
      by blast
    have y: "lowerBinding eng c (n, Some e) ([], st) = Inr ((t, Some v), (buf1, s2))"
      unfolding lowerBinding_Some_Inr using t v by blast
    have a: "eachInOrder (lowerBinding eng c) ((n, Some e) # map (\<lambda>m. (m, None)) rest) ([], st)
                 = Inr ((t, Some v) # rest', (buf, st'))"
      unfolding eachInOrder_Inr_Cons using y r by blast
    have "out = buf @ [PyAssign (map fst ((t, Some v) # rest'))
                         (makeTuple (List.map_filter snd ((t, Some v) # rest')))]"
      using o by (simp add: List.map_filter_simps)
    with a show "\<exists>rs buf. eachInOrder (lowerBinding eng c) ((n, Some e) # map (\<lambda>m. (m, None)) rest) ([], st)
                 = Inr (rs, (buf, st')) \<and>
      out = buf @ [PyAssign (map fst rs) (makeTuple (List.map_filter snd rs))]"
      by blast
  qed
  also have "\<dots> = (\<exists>t s1 v buf s2 ts.
      compileIdent eng c n st = Inr (t, s1) \<and>
      compileExpr eng c e ([], s1) = Inr (v, (buf, s2)) \<and>
      eachInOrder (compileIdent eng c) rest s2 = Inr (ts, st') \<and>
      out = buf @ [PyAssign (t # ts) v])"
  proof (rule iffI)
    assume "\<exists>t s1 v buf1 s2 rest' buf.
      compileIdent eng c n st = Inr (t, s1) \<and>
      compileExpr eng c e ([], s1) = Inr (v, (buf1, s2)) \<and>
      eachInOrder (lowerBinding eng c) (map (\<lambda>m. (m, None)) rest) (buf1, s2) = Inr (rest', (buf, st')) \<and>
      out = buf @ [PyAssign (t # map fst rest') (makeTuple (v # List.map_filter snd rest'))]"
    then obtain t s1 v buf1 s2 rest' buf where
      t: "compileIdent eng c n st = Inr (t, s1)" and
      v: "compileExpr eng c e ([], s1) = Inr (v, (buf1, s2))" and
      r: "eachInOrder (lowerBinding eng c) (map (\<lambda>m. (m, None)) rest) (buf1, s2) = Inr (rest', (buf, st'))" and
      o: "out = buf @ [PyAssign (t # map fst rest') (makeTuple (v # List.map_filter snd rest'))]"
      by blast
    from r obtain ts where
      ts: "eachInOrder (compileIdent eng c) rest s2 = Inr (ts, st')" and
      r': "rest' = map (\<lambda>t. (t, None)) ts" and b: "buf = buf1"
      unfolding eachInOrder_names_only by blast
    have "out = buf @ [PyAssign (t # ts) v]"
      using o r' by (simp add: map_filter_no_values makeTuple_def comp_def)
    with t v ts b show "\<exists>t s1 v buf s2 ts.
      compileIdent eng c n st = Inr (t, s1) \<and>
      compileExpr eng c e ([], s1) = Inr (v, (buf, s2)) \<and>
      eachInOrder (compileIdent eng c) rest s2 = Inr (ts, st') \<and>
      out = buf @ [PyAssign (t # ts) v]"
      by blast
  next
    assume "\<exists>t s1 v buf s2 ts.
      compileIdent eng c n st = Inr (t, s1) \<and>
      compileExpr eng c e ([], s1) = Inr (v, (buf, s2)) \<and>
      eachInOrder (compileIdent eng c) rest s2 = Inr (ts, st') \<and>
      out = buf @ [PyAssign (t # ts) v]"
    then obtain t s1 v buf s2 ts where
      t: "compileIdent eng c n st = Inr (t, s1)" and
      v: "compileExpr eng c e ([], s1) = Inr (v, (buf, s2))" and
      ts: "eachInOrder (compileIdent eng c) rest s2 = Inr (ts, st')" and
      o: "out = buf @ [PyAssign (t # ts) v]"
      by blast
    have r: "eachInOrder (lowerBinding eng c) (map (\<lambda>m. (m, None)) rest) (buf, s2)
               = Inr (map (\<lambda>t. (t, None)) ts, (buf, st'))"
      unfolding eachInOrder_names_only using ts by blast
    have "out = buf @ [PyAssign (t # map fst (map (\<lambda>t. (t, None :: pyexpr option)) ts))
                         (makeTuple (v # List.map_filter snd (map (\<lambda>t. (t, None)) ts)))]"
      using o by (simp add: map_filter_no_values makeTuple_def comp_def)
    with t v r show "\<exists>t s1 v buf1 s2 rest' buf.
      compileIdent eng c n st = Inr (t, s1) \<and>
      compileExpr eng c e ([], s1) = Inr (v, (buf1, s2)) \<and>
      eachInOrder (lowerBinding eng c) (map (\<lambda>m. (m, None)) rest) (buf1, s2) = Inr (rest', (buf, st')) \<and>
      out = buf @ [PyAssign (t # map fst rest') (makeTuple (v # List.map_filter snd rest'))]"
      by blast
  qed
  finally show ?thesis .
qed


lemma CompileValueSpec_no_zero_value:
  assumes "n \<in> set names" and "\<not> hasZeroValue (TypeOf eng (Ident n))"
  shows "\<exists>e. CompileValueSpec eng c names [] st = Inl e"
proof (cases "CompileValueSpec eng c names [] st")
  case (Inl e)
  then show ?thesis by blast
next
  case (Inr r)
  obtain out st' where "r = (out, st')" by (cases r)
  with Inr have "CompileValueSpec eng c names [] st = Inr (out, st')"
    by simp
  then obtain zs where
    "map (\<lambda>n. zeroValue eng (TypeOf eng (Ident n))) names = map Inr zs"
    unfolding CompileValueSpec_zero by blast
  then have "\<forall>m \<in> set names. \<exists>z. zeroValue eng (TypeOf eng (Ident m)) = Inr z"
    by (metis (mono_tags, lifting) imageE list.set_map image_eqI)
  with assms(1) have "\<exists>z. zeroValue eng (TypeOf eng (Ident n)) = Inr z"
    by blast
  with assms(2) show ?thesis
    unfolding zeroValue_defined by simp
qed

text \<open>
  C5. A variable declaration without initializers lowers exactly when every name lowers
  and the type of every name has a zero value, and then to one assignment and nothing
  else: its targets are the lowered names, in order, each lowered from the naming state
  the one before left, and its right side is made of the zero values of the types of the
  names, in order. It aborts when the type of a name has no zero value. A declaration
  with initializers lowers exactly when its bindings lower one after the other, a name
  and then its initializer if it has one at its position, and then to the statements
  that the engine hoisted for the initializers followed by one assignment: its targets
  are the lowered names and its right side is made of the lowered initializers, in
  order. With as many initializers as names every name is paired with the initializer at
  its position. With one initializer the right side is that one lowered expression, for
  all the names. The right side is the value itself when there is one value, else the
  tuple of the values.
\<close>

theorem CompileValueSpec_single_assignment:
  "(vals = [] \<longrightarrow>
      (CompileValueSpec eng c names vals st = Inr (out, st')) =
      (\<exists>targets zs.
          eachInOrder (compileIdent eng c) names st = Inr (targets, st') \<and>
          map (\<lambda>n. zeroValue eng (TypeOf eng (Ident n))) names = map Inr zs \<and>
          out = [PyAssign targets (makeTuple zs)])) \<and>
   (vals = [] \<and> n \<in> set names \<and> \<not> hasZeroValue (TypeOf eng (Ident n)) \<longrightarrow>
      (\<exists>e. CompileValueSpec eng c names vals st = Inl e)) \<and>
   (vals \<noteq> [] \<longrightarrow>
      (CompileValueSpec eng c names vals st = Inr (out, st')) =
      (\<exists>rs buf.
          eachInOrder (lowerBinding eng c) (bindings names vals) ([], st) = Inr (rs, (buf, st')) \<and>
          out = buf @ [PyAssign (map fst rs) (makeTuple (List.map_filter snd rs))])) \<and>
   (length vals = length names \<longrightarrow> bindings names vals = zip names (map Some vals)) \<and>
   ((CompileValueSpec eng c (m # rest) [e] st = Inr (out, st')) =
      (\<exists>t s1 v buf s2 ts.
          compileIdent eng c m st = Inr (t, s1) \<and>
          compileExpr eng c e ([], s1) = Inr (v, (buf, s2)) \<and>
          eachInOrder (compileIdent eng c) rest s2 = Inr (ts, st') \<and>
          out = buf @ [PyAssign (t # ts) v])) \<and>
   makeTuple [x] = x \<and>
   (length rhs \<noteq> 1 \<longrightarrow> makeTuple rhs = PyTuple rhs)"
proof (intro conjI impI)
  assume "vals = []"
  then show "(CompileValueSpec eng c names vals st = Inr (out, st')) =
      (\<exists>targets zs.
          eachInOrder (compileIdent eng c) names st = Inr (targets, st') \<and>
          map (\<lambda>n. zeroValue eng (TypeOf eng (Ident n))) names = map Inr zs \<and>
          out = [PyAssign targets (makeTuple zs)])"
    by (simp only: CompileValueSpec_zero)
next
  assume "vals = [] \<and> n \<in> set names \<and> \<not> hasZeroValue (TypeOf eng (Ident n))"
  then show "\<exists>e. CompileValueSpec eng c names vals st = Inl e"
    using CompileValueSpec_no_zero_value [of n names eng c st] by blast
next
  assume "vals \<noteq> []"
  then show "(CompileValueSpec eng c names vals st = Inr (out, st')) =
      (\<exists>rs buf.
          eachInOrder (lowerBinding eng c) (bindings names vals) ([], st) = Inr (rs, (buf, st')) \<and>
          out = buf @ [PyAssign (map fst rs) (makeTuple (List.map_filter snd rs))])"
    by (rule CompileValueSpec_bindings)
next
  assume "length vals = length names"
  then show "bindings names vals = zip names (map Some vals)"
    by (rule bindings_pairwise)
next
  show "(CompileValueSpec eng c (m # rest) [e] st = Inr (out, st')) =
      (\<exists>t s1 v buf s2 ts.
          compileIdent eng c m st = Inr (t, s1) \<and>
          compileExpr eng c e ([], s1) = Inr (v, (buf, s2)) \<and>
          eachInOrder (compileIdent eng c) rest s2 = Inr (ts, st') \<and>
          out = buf @ [PyAssign (t # ts) v])"
    by (rule CompileValueSpec_one_value)
next
  show "makeTuple [x] = x"
    by (simp add: makeTuple_def)
next
  assume "length rhs \<noteq> 1"
  then show "makeTuple rhs = PyTuple rhs"
    by (cases rhs; cases "tl rhs") (auto simp: makeTuple_def split: list.splits)
qed

lemma sample_var_a_b:
  "CompileValueSpec (sampleEngine intOracle) (sampleCompiler True) [GoIdent ''a'' 0, GoIdent ''b'' 1] [] 0
   = Inr ([PyAssign [PyName ''a'', PyName ''b''] (PyTuple [PyNum ''0'', PyNum ''0''])], 0)"
  by code_simp

lemma sample_var_pairwise:
  "CompileValueSpec (sampleEngine intOracle) (sampleCompiler True) [GoIdent ''a'' 0, GoIdent ''b'' 1]
     [BasicLit ''1'', BasicLit ''2''] 0
   = Inr ([PyAssign [PyName ''a'', PyName ''b''] (PyTuple [PyNum ''1'', PyNum ''2''])], 0)"
  by code_simp

lemma sample_var_call:
  "CompileValueSpec (sampleEngine intOracle) (sampleCompiler True) [GoIdent ''a'' 0, GoIdent ''b'' 1]
     [CallExpr (ident ''f'') []] 0
   = Inr ([PyAssign [PyName ''a'', PyName ''b''] (PyCall (PyName ''f'') [])], 0)"
  by code_simp

theorem CompileValueSpec_single_assignment_witness:
  "(\<exists>targets zs.
      eachInOrder (compileIdent (sampleEngine intOracle) (sampleCompiler True))
        [GoIdent ''a'' 0, GoIdent ''b'' 1] 0 = Inr (targets, 0) \<and>
      map (\<lambda>n. zeroValue (sampleEngine intOracle) (TypeOf (sampleEngine intOracle) (Ident n)))
        [GoIdent ''a'' 0, GoIdent ''b'' 1] = map Inr zs \<and>
      [PyAssign [PyName ''a'', PyName ''b''] (PyTuple [PyNum ''0'', PyNum ''0''])]
        = [PyAssign targets (makeTuple zs)]) \<and>
   (\<exists>rs buf.
      eachInOrder (lowerBinding (sampleEngine intOracle) (sampleCompiler True))
        (bindings [GoIdent ''a'' 0, GoIdent ''b'' 1] [BasicLit ''1'', BasicLit ''2'']) ([], 0)
        = Inr (rs, (buf, 0)) \<and>
      [PyAssign [PyName ''a'', PyName ''b''] (PyTuple [PyNum ''1'', PyNum ''2''])]
        = buf @ [PyAssign (map fst rs) (makeTuple (List.map_filter snd rs))]) \<and>
   (\<exists>t s1 v buf s2 ts.
      compileIdent (sampleEngine intOracle) (sampleCompiler True) (GoIdent ''a'' 0) 0 = Inr (t, s1) \<and>
      compileExpr (sampleEngine intOracle) (sampleCompiler True) (CallExpr (ident ''f'') []) ([], s1)
        = Inr (v, (buf, s2)) \<and>
      eachInOrder (compileIdent (sampleEngine intOracle) (sampleCompiler True)) [GoIdent ''b'' 1] s2
        = Inr (ts, 0) \<and>
      [PyAssign [PyName ''a'', PyName ''b''] (PyCall (PyName ''f'') [])] = buf @ [PyAssign (t # ts) v]) \<and>
   (\<exists>e. CompileValueSpec (sampleEngine unsafePointerOracle) (sampleCompiler True)
           [GoIdent ''p'' 0, GoIdent ''q'' 1] [] 0 = Inl e)"
proof (intro conjI)
  have e: "([] :: goexpr list) = []"
    by simp
  from CompileValueSpec_single_assignment [where vals = "[]" and eng = "sampleEngine intOracle"
      and c = "sampleCompiler True" and names = "[GoIdent ''a'' 0, GoIdent ''b'' 1]" and st = 0
      and st' = 0
      and out = "[PyAssign [PyName ''a'', PyName ''b''] (PyTuple [PyNum ''0'', PyNum ''0''])]"]
    e sample_var_a_b
  show "\<exists>targets zs.
      eachInOrder (compileIdent (sampleEngine intOracle) (sampleCompiler True))
        [GoIdent ''a'' 0, GoIdent ''b'' 1] 0 = Inr (targets, 0) \<and>
      map (\<lambda>n. zeroValue (sampleEngine intOracle) (TypeOf (sampleEngine intOracle) (Ident n)))
        [GoIdent ''a'' 0, GoIdent ''b'' 1] = map Inr zs \<and>
      [PyAssign [PyName ''a'', PyName ''b''] (PyTuple [PyNum ''0'', PyNum ''0''])]
        = [PyAssign targets (makeTuple zs)]"
    by blast
next
  have n: "[BasicLit ''1'', BasicLit ''2''] \<noteq> []"
    by simp
  from CompileValueSpec_single_assignment [where vals = "[BasicLit ''1'', BasicLit ''2'']"
      and eng = "sampleEngine intOracle"
      and c = "sampleCompiler True" and names = "[GoIdent ''a'' 0, GoIdent ''b'' 1]" and st = 0
      and st' = 0
      and out = "[PyAssign [PyName ''a'', PyName ''b''] (PyTuple [PyNum ''1'', PyNum ''2''])]"]
    n sample_var_pairwise
  show "\<exists>rs buf.
      eachInOrder (lowerBinding (sampleEngine intOracle) (sampleCompiler True))
        (bindings [GoIdent ''a'' 0, GoIdent ''b'' 1] [BasicLit ''1'', BasicLit ''2'']) ([], 0)
        = Inr (rs, (buf, 0)) \<and>
      [PyAssign [PyName ''a'', PyName ''b''] (PyTuple [PyNum ''1'', PyNum ''2''])]
        = buf @ [PyAssign (map fst rs) (makeTuple (List.map_filter snd rs))]"
    by blast
next
  from CompileValueSpec_single_assignment [where eng = "sampleEngine intOracle"
      and c = "sampleCompiler True" and m = "GoIdent ''a'' 0" and rest = "[GoIdent ''b'' 1]"
      and e = "CallExpr (ident ''f'') []" and st = 0 and st' = 0
      and out = "[PyAssign [PyName ''a'', PyName ''b''] (PyCall (PyName ''f'') [])]"]
    sample_var_call
  show "\<exists>t s1 v buf s2 ts.
      compileIdent (sampleEngine intOracle) (sampleCompiler True) (GoIdent ''a'' 0) 0 = Inr (t, s1) \<and>
      compileExpr (sampleEngine intOracle) (sampleCompiler True) (CallExpr (ident ''f'') []) ([], s1)
        = Inr (v, (buf, s2)) \<and>
      eachInOrder (compileIdent (sampleEngine intOracle) (sampleCompiler True)) [GoIdent ''b'' 1] s2
        = Inr (ts, 0) \<and>
      [PyAssign [PyName ''a'', PyName ''b''] (PyCall (PyName ''f'') [])] = buf @ [PyAssign (t # ts) v]"
    by blast
next
  have e: "([] :: goexpr list) = []"
    by simp
  have m: "GoIdent ''p'' 0 \<in> set [GoIdent ''p'' 0, GoIdent ''q'' 1]"
    by simp
  have z: "\<not> hasZeroValue (TypeOf (sampleEngine unsafePointerOracle) (Ident (GoIdent ''p'' 0)))"
    by (simp add: sampleEngine_def unsafePointerOracle_def)
  from CompileValueSpec_single_assignment [where vals = "[]"
      and eng = "sampleEngine unsafePointerOracle" and n = "GoIdent ''p'' 0"
      and c = "sampleCompiler True" and names = "[GoIdent ''p'' 0, GoIdent ''q'' 1]" and st = 0]
    e m z
  show "\<exists>e. CompileValueSpec (sampleEngine unsafePointerOracle) (sampleCompiler True)
           [GoIdent ''p'' 0, GoIdent ''q'' 1] [] 0 = Inl e"
    by blast
qed

text \<open>
  The declaration \<open>var p, q unsafe.Pointer\<close> has no initializer and a type without zero
  value: its lowering aborts and produces no assignment.
\<close>

theorem CompileValueSpec_unsafe_pointer_counterexample:
  "CompileValueSpec (sampleEngine unsafePointerOracle) (sampleCompiler True)
     [GoIdent ''p'' 0, GoIdent ''q'' 1] [] 0 = Inl UnknownBasicType"
  by code_simp

end
